theory Spec2Isabelle
  imports Complex_Main
begin

section \<open>Vectors, offsets and fatal errors\<close>

text \<open>
  The assembly layer of the simulator works on PETSc vectors and on the raw arrays
  obtained from them with \<open>VecGetArray\<close>. A \<open>PetscScalar\<close> is modelled as a real
  number and a vector or array as a total store from row index to value; the sizes
  that the code keeps separately (\<open>n_local_dofs\<close>) are passed separately here too.
  Offsets (\<open>unsigned int\<close>, \<open>PetscInt\<close>) are natural numbers; they stay far below the
  machine bound in every mesh the code can hold. The model is the view of one rank.
  For the local truncation error it is a run on one rank, where \<open>Parallel::sum\<close>
  returns its argument; for the potential damping the values that the other ranks bring
  to \<open>Parallel::max\<close> are a parameter.
\<close>

type_synonym PetscScalar = real
type_synonym Vec = "nat \<Rightarrow> PetscScalar"

text \<open>\<open>genius_error()\<close> aborts the process; \<open>genius_assert\<close> does so when its
  condition fails.\<close>

datatype error = GeniusError | AssertionFailure

text \<open>Modelled from the spec: the enumeration \<open>SimulationRegionType\<close> is declared in a
  header that is not among the sources; the constructors are the region types that the
  sources name, and \<open>InvalidRegion\<close> stands for every other enumerator.\<close>

datatype SimulationRegionType =
  SemiconductorRegion | InsulatorRegion | ElectrodeRegion | MetalRegion | VacuumRegion
  | InvalidRegion

record FVM_Node =
  local_offset :: nat
  global_offset :: nat
  on_processor :: bool

text \<open>The solution variables of \<open>enum_solution.h\<close> that the solvers address.\<close>

datatype SolutionVariable = POTENTIAL | ELECTRON | HOLE | TEMPERATURE | E_TEMP | H_TEMP

text \<open>What the assembly code asks of a \<open>SimulationRegion\<close>: its type, the layout of
  the unknowns of a node, the switches of its advanced model and its on-processor
  nodes.\<close>

record SimulationRegion =
  region_type :: SimulationRegionType
  ebm_variable_offset :: "SolutionVariable \<Rightarrow> nat"
  ebm_n_variables :: nat
  enable_Tl :: bool
  enable_Tn :: bool
  enable_Tp :: bool
  on_processor_nodes :: "FVM_Node list"

text \<open>A boundary node with the (region, FVM_Node) pairs that share its location, in the
  order of the multimap \<open>_bd_fvm_nodes\<close> (sorted by region type); \<open>on_this_processor\<close>
  is the test \<open>(*node_it)->processor_id() == Genius::processor_id()\<close>.\<close>

record BoundaryNode =
  on_this_processor :: bool
  region_node :: "(SimulationRegion \<times> FVM_Node) list"

text \<open>\<open>VecSetValues(f, n, iy, y, ADD_VALUES)\<close>: every value is added to its row, in the
  order of the buffers.\<close>

definition VecSetValue_ADD :: "Vec \<Rightarrow> nat \<Rightarrow> PetscScalar \<Rightarrow> Vec" where
  "VecSetValue_ADD f i v = f(i := f i + v)"

definition VecSetValues_ADD :: "Vec \<Rightarrow> (nat \<times> PetscScalar) list \<Rightarrow> Vec" where
  "VecSetValues_ADD f iy = fold (\<lambda>(i, v) g. VecSetValue_ADD g i v) iy f"

definition VecZeroEntries :: Vec where
  "VecZeroEntries = (\<lambda>_. 0)"

section \<open>Row surgery\<close>

text \<open>Modelled from the spec: \<open>PetscUtils::VecAddClearRow\<close> is defined in
  \<open>petsc_utils\<close>, which is not among the sources. The spec gives its contract:
  \<open>add_row_to_row(v, src, dst)\<close> adds the source row into the destination row, and
  \<open>zero_rows(v, rows)\<close> zeroes the rows. The solver hands over three buffers
  \<open>src_row\<close>, \<open>dst_row\<close>, \<open>clear_row\<close>; the additions are done for the pairs in
  buffer order, the clearing afterwards (as the Jacobian path of \<open>ebm3.cc\<close> does with
  \<open>MatAddRowToRow\<close> followed by \<open>MatZeroRows\<close>).\<close>

definition add_row_to_row :: "Vec \<Rightarrow> nat \<Rightarrow> nat \<Rightarrow> Vec" where
  "add_row_to_row v src dst = v(dst := v dst + v src)"

definition zero_rows :: "Vec \<Rightarrow> nat list \<Rightarrow> Vec" where
  "zero_rows v rows = fold (\<lambda>r u. u(r := 0)) rows v"

definition VecAddRowToRow :: "Vec \<Rightarrow> nat list \<Rightarrow> nat list \<Rightarrow> Vec" where
  "VecAddRowToRow v src_row dst_row =
     fold (\<lambda>(s, d) u. add_row_to_row u s d) (zip src_row dst_row) v"

definition VecAddClearRow :: "Vec \<Rightarrow> nat list \<Rightarrow> nat list \<Rightarrow> nat list \<Rightarrow> Vec" where
  "VecAddClearRow v src_row dst_row clear_row =
     zero_rows (VecAddRowToRow v src_row dst_row) clear_row"

text \<open>The sum of the source rows that a list of pairs sends to row \<open>d\<close>.\<close>

definition merged_into :: "Vec \<Rightarrow> (nat \<times> nat) list \<Rightarrow> nat \<Rightarrow> PetscScalar" where
  "merged_into v ps d = sum_list (map (\<lambda>(s, d'). if d' = d then v s else 0) ps)"

section \<open>Homogeneous interface, drift-diffusion level 1\<close>

text \<open>\<open>HomoInterfaceBC::DDM1_Function_Preprocess\<close>
  (\<open>ddm1_boundary_homo_interface.cc\<close>). The first pair of a node is the reference
  (\<open>i == 0\<close>, skipped); every further pair emits its row-surgery instructions by region
  type, and a type without a rule ends in \<open>genius_error()\<close>. The three buffers are
  threaded through all nodes and all boundaries.\<close>

type_synonym row_buffers = "nat list \<times> nat list \<times> nat list"

fun DDM1_Function_Preprocess_others ::
  "FVM_Node \<Rightarrow> (SimulationRegion \<times> FVM_Node) list \<Rightarrow> row_buffers \<Rightarrow> error + row_buffers"
where
  "DDM1_Function_Preprocess_others n0 [] rows = Inr rows"
| "DDM1_Function_Preprocess_others n0 ((region, fvm_node) # rest) (src_row, dst_row, clear_row) =
     (case region_type region of
        SemiconductorRegion \<Rightarrow>
          DDM1_Function_Preprocess_others n0 rest
            (src_row @ [global_offset fvm_node + 0, global_offset fvm_node + 1,
                        global_offset fvm_node + 2],
             dst_row @ [global_offset n0 + 0, global_offset n0 + 1, global_offset n0 + 2],
             clear_row @ [global_offset fvm_node + 0, global_offset fvm_node + 1,
                          global_offset fvm_node + 2])
      | InsulatorRegion \<Rightarrow>
          DDM1_Function_Preprocess_others n0 rest
            (src_row @ [global_offset fvm_node + 0],
             dst_row @ [global_offset n0 + 0],
             clear_row @ [global_offset fvm_node + 0])
      | _ \<Rightarrow> Inl GeniusError)"

definition DDM1_Function_Preprocess_node ::
  "BoundaryNode \<Rightarrow> row_buffers \<Rightarrow> error + row_buffers" where
  "DDM1_Function_Preprocess_node nd rows =
     (if \<not> on_this_processor nd then Inr rows
      else case region_node nd of
             [] \<Rightarrow> Inr rows
           | (r0, n0) # rest \<Rightarrow> DDM1_Function_Preprocess_others n0 rest rows)"

text \<open>A \<open>HomoInterfaceBC\<close> is its list of boundary nodes.\<close>

type_synonym HomoInterfaceBC = "BoundaryNode list"

fun DDM1_Function_Preprocess :: "HomoInterfaceBC \<Rightarrow> row_buffers \<Rightarrow> error + row_buffers"
where
  "DDM1_Function_Preprocess [] rows = Inr rows"
| "DDM1_Function_Preprocess (nd # nds) rows =
     (case DDM1_Function_Preprocess_node nd rows of
        Inl e \<Rightarrow> Inl e
      | Inr rows' \<Rightarrow> DDM1_Function_Preprocess nds rows')"

text \<open>\<open>HomoInterfaceBC::DDM1_Function\<close>. The buffers \<open>iy\<close> and \<open>y_new\<close> are always
  pushed together and are kept as one list of (row, value) pairs. For the first pair the
  code asserts that the reference region is a semiconductor; every further pair writes
  "this region's unknown minus the reference region's unknown". The unknowns are read
  from the local array \<open>x\<close> at local offsets, the rows are global offsets. The
  \<open>InsertMode\<close> flag only decides whether the vector is flushed first and does not
  change any value; it is left out.\<close>

fun DDM1_Function_others ::
  "(nat \<Rightarrow> PetscScalar) \<Rightarrow> FVM_Node \<Rightarrow> (SimulationRegion \<times> FVM_Node) list
     \<Rightarrow> (nat \<times> PetscScalar) list \<Rightarrow> error + (nat \<times> PetscScalar) list"
where
  "DDM1_Function_others x n0 [] iy = Inr iy"
| "DDM1_Function_others x n0 ((region, fvm_node) # rest) iy =
     (case region_type region of
        SemiconductorRegion \<Rightarrow>
          (let V = x (local_offset fvm_node + 0);
               n = x (local_offset fvm_node + 1);
               p = x (local_offset fvm_node + 2);
               V_semi = x (local_offset n0 + 0);
               n_semi = x (local_offset n0 + 1);
               p_semi = x (local_offset n0 + 2);
               ff1 = V - V_semi;
               ff2 = n - n_semi;
               ff3 = p - p_semi
           in DDM1_Function_others x n0 rest
                (iy @ [(global_offset fvm_node + 0, ff1), (global_offset fvm_node + 1, ff2),
                       (global_offset fvm_node + 2, ff3)]))
      | InsulatorRegion \<Rightarrow>
          (let V = x (local_offset fvm_node + 0);
               V_semi = x (local_offset n0 + 0);
               ff1 = V - V_semi
           in DDM1_Function_others x n0 rest (iy @ [(global_offset fvm_node + 0, ff1)]))
      | _ \<Rightarrow> Inl GeniusError)"

definition DDM1_Function_node ::
  "(nat \<Rightarrow> PetscScalar) \<Rightarrow> BoundaryNode \<Rightarrow> (nat \<times> PetscScalar) list
     \<Rightarrow> error + (nat \<times> PetscScalar) list" where
  "DDM1_Function_node x nd iy =
     (if \<not> on_this_processor nd then Inr iy
      else case region_node nd of
             [] \<Rightarrow> Inr iy
           | (r0, n0) # rest \<Rightarrow>
               if region_type r0 \<noteq> SemiconductorRegion then Inl AssertionFailure
               else DDM1_Function_others x n0 rest iy)"

fun DDM1_Function_nodes ::
  "(nat \<Rightarrow> PetscScalar) \<Rightarrow> BoundaryNode list \<Rightarrow> (nat \<times> PetscScalar) list
     \<Rightarrow> error + (nat \<times> PetscScalar) list"
where
  "DDM1_Function_nodes x [] iy = Inr iy"
| "DDM1_Function_nodes x (nd # nds) iy =
     (case DDM1_Function_node x nd iy of
        Inl e \<Rightarrow> Inl e
      | Inr iy' \<Rightarrow> DDM1_Function_nodes x nds iy')"

definition DDM1_Function :: "HomoInterfaceBC \<Rightarrow> (nat \<Rightarrow> PetscScalar) \<Rightarrow> Vec \<Rightarrow> error + Vec"
where
  "DDM1_Function bc x f =
     (case DDM1_Function_nodes x bc [] of
        Inl e \<Rightarrow> Inl e
      | Inr iy \<Rightarrow> Inr (VecSetValues_ADD f iy))"

subsection \<open>The residual callback around the boundary hooks\<close>

text \<open>Modelled from the spec: the solver driver of the DDM1 family is not among the
  sources. The spec fixes the order of a residual evaluation (region assembly, boundary
  preprocessing over all boundaries, row surgery, boundary assembly over all boundaries),
  and \<open>EBM3Solver::build_petsc_sens_residual\<close> in \<open>ebm3.cc\<close> is written that way for
  its family. \<open>r\<close> is the residual as the region pass left it, \<open>lxx\<close> the local array
  of unknowns.\<close>

fun preprocess_each_bc :: "HomoInterfaceBC list \<Rightarrow> row_buffers \<Rightarrow> error + row_buffers" where
  "preprocess_each_bc [] rows = Inr rows"
| "preprocess_each_bc (bc # bcs) rows =
     (case DDM1_Function_Preprocess bc rows of
        Inl e \<Rightarrow> Inl e
      | Inr rows' \<Rightarrow> preprocess_each_bc bcs rows')"

fun function_each_bc :: "HomoInterfaceBC list \<Rightarrow> (nat \<Rightarrow> PetscScalar) \<Rightarrow> Vec \<Rightarrow> error + Vec"
where
  "function_each_bc [] lxx r = Inr r"
| "function_each_bc (bc # bcs) lxx r =
     (case DDM1_Function bc lxx r of
        Inl e \<Rightarrow> Inl e
      | Inr r' \<Rightarrow> function_each_bc bcs lxx r')"

definition boundary_assembly ::
  "HomoInterfaceBC list \<Rightarrow> (nat \<Rightarrow> PetscScalar) \<Rightarrow> Vec \<Rightarrow> error + Vec" where
  "boundary_assembly bcs lxx r =
     (case preprocess_each_bc bcs ([], [], []) of
        Inl e \<Rightarrow> Inl e
      | Inr (src_row, dst_row, clear_row) \<Rightarrow>
          function_each_bc bcs lxx (VecAddClearRow r src_row dst_row clear_row))"

text \<open>Concrete regions and nodes for the scenarios: regions that hold only their type
  and the DDM1 layout (potential, electron density, hole density), and nodes given by
  their offset.\<close>

definition plain_region :: "SimulationRegionType \<Rightarrow> SimulationRegion" where
  "plain_region t =
     \<lparr>region_type = t, ebm_variable_offset = (\<lambda>v. case v of POTENTIAL \<Rightarrow> 0 | ELECTRON \<Rightarrow> 1
          | HOLE \<Rightarrow> 2 | TEMPERATURE \<Rightarrow> 3 | E_TEMP \<Rightarrow> 4 | H_TEMP \<Rightarrow> 5),
      ebm_n_variables = 3, enable_Tl = False, enable_Tn = False, enable_Tp = False,
      on_processor_nodes = []\<rparr>"

definition node_at :: "nat \<Rightarrow> FVM_Node" where
  "node_at k = \<lparr>local_offset = k, global_offset = k, on_processor = True\<rparr>"

definition two_region_node :: BoundaryNode where
  "two_region_node =
     \<lparr>on_this_processor = True,
      region_node = [(plain_region SemiconductorRegion, node_at 0),
                     (plain_region SemiconductorRegion, node_at 3)]\<rparr>"

text \<open>The nodes of a list of boundaries that the hooks work on (those of this processor),
  the node of the reference pair and the node of the second pair of a boundary node, and
  the rows of the pairs of a list of boundary nodes.\<close>

definition local_interface_nodes :: "HomoInterfaceBC list \<Rightarrow> BoundaryNode list" where
  "local_interface_nodes bcs = filter on_this_processor (concat bcs)"

definition two_semiconductor_regions :: "BoundaryNode \<Rightarrow> bool" where
  "two_semiconductor_regions nd \<longleftrightarrow>
     length (region_node nd) = 2
     \<and> list_all (\<lambda>(region, fvm_node). region_type region = SemiconductorRegion) (region_node nd)"

definition reference_node :: "BoundaryNode \<Rightarrow> FVM_Node" where
  "reference_node nd = snd (region_node nd ! 0)"

definition coupled_node :: "BoundaryNode \<Rightarrow> FVM_Node" where
  "coupled_node nd = snd (region_node nd ! 1)"

definition interface_rows :: "BoundaryNode list \<Rightarrow> nat list" where
  "interface_rows nds =
     concat (map (\<lambda>nd. concat (map (\<lambda>(region, fvm_node).
                                       [global_offset fvm_node + 0, global_offset fvm_node + 1,
                                        global_offset fvm_node + 2])
                                  (region_node nd))) nds)"

text \<open>The rows of the second pairs and of the reference pairs of a list of nodes, and the
  equality equations of the second pairs.\<close>

definition coupled_rows :: "BoundaryNode list \<Rightarrow> nat list" where
  "coupled_rows nds =
     concat (map (\<lambda>nd. [global_offset (coupled_node nd) + 0, global_offset (coupled_node nd) + 1,
                         global_offset (coupled_node nd) + 2]) nds)"

definition reference_rows :: "BoundaryNode list \<Rightarrow> nat list" where
  "reference_rows nds =
     concat (map (\<lambda>nd. [global_offset (reference_node nd) + 0,
                         global_offset (reference_node nd) + 1,
                         global_offset (reference_node nd) + 2]) nds)"

definition coupling_entries ::
  "(nat \<Rightarrow> PetscScalar) \<Rightarrow> BoundaryNode list \<Rightarrow> (nat \<times> PetscScalar) list" where
  "coupling_entries x nds =
     concat (map (\<lambda>nd. map (\<lambda>k. (global_offset (coupled_node nd) + k,
                                   x (local_offset (coupled_node nd) + k)
                                   - x (local_offset (reference_node nd) + k)))
                         [0, 1, 2]) nds)"

text \<open>A second interface node, with the reference pair at rows 6 to 8 and the second pair
  at rows 9 to 11.\<close>

definition far_region_node :: BoundaryNode where
  "far_region_node =
     \<lparr>on_this_processor = True,
      region_node = [(plain_region SemiconductorRegion, node_at 6),
                     (plain_region SemiconductorRegion, node_at 9)]\<rparr>"






section \<open>The solver orchestrator of the energy-balance family\<close>

text \<open>The globals of namespace \<open>SolverSpecify\<close> that the orchestrator reads, the unit
  constants of \<open>PhysicalUnit\<close> (declared in a header that is not among the sources, so
  they are the fields \<open>PU_kb\<close>, \<open>PU_e\<close>, \<open>PU_cm\<close>, \<open>PU_K\<close> of a parameter), and what the orchestrator asks of the simulation system: its
  regions, the external temperature and, for every boundary condition, its
  \<open>array_offset()\<close> (\<open>None\<close> for \<open>invalid_uint\<close>).\<close>

text \<open>Modelled from the spec: the enumeration \<open>TemporalScheme\<close> is declared in
  \<open>solver_specify.h\<close>, which is not among the sources; \<open>BDF1\<close> and \<open>BDF2\<close> are the
  schemes the sources name, \<open>OtherScheme\<close> stands for any further enumerator.\<close>

datatype TemporalScheme = BDF1 | BDF2 | OtherScheme

record SolverSpecify =
  dt :: real
  dt_last :: real
  dt_last_last :: real
  TS_rtol :: real
  TS_atol :: real
  TS_type :: TemporalScheme
  TimeDependent :: bool
  BDF2_restart :: bool
  potential_update :: real

record PhysicalUnit =
  PU_kb :: real
  PU_e :: real
  PU_cm :: real
  PU_K :: real

record SimulationSystem =
  regions :: "SimulationRegion list"
  T_external :: real
  bcs_array_offset :: "nat option list"

text \<open>\<open>onePerCMC = 1.0*std::pow(cm,-3)\<close>.\<close>

definition onePerCMC :: "PhysicalUnit \<Rightarrow> real" where
  "onePerCMC U = 1.0 * inverse (PU_cm U ^ 3)"

subsection \<open>Positive-density projection\<close>

text \<open>\<open>EBM3Solver::projection_positive_density_check(x, xo)\<close>: the body of the loop over
  the on-processor nodes of a semiconductor region, then the loops. \<open>xx\<close> is the
  candidate, \<open>oo\<close> the previous iterate; only \<open>xx\<close> is written.\<close>

definition projection_node ::
  "PhysicalUnit \<Rightarrow> real \<Rightarrow> SimulationRegion \<Rightarrow> (nat \<Rightarrow> PetscScalar) \<Rightarrow> FVM_Node
     \<Rightarrow> (nat \<Rightarrow> PetscScalar) \<Rightarrow> (nat \<Rightarrow> PetscScalar)" where
  "projection_node U T_ext region oo fvm_node xx0 =
     (let node_n_offset = ebm_variable_offset region ELECTRON;
          node_p_offset = ebm_variable_offset region HOLE;
          node_Tl_offset = ebm_variable_offset region TEMPERATURE;
          node_Tn_offset = ebm_variable_offset region E_TEMP;
          node_Tp_offset = ebm_variable_offset region H_TEMP;
          lo = local_offset fvm_node;
          xx1 = (if xx0 (lo + node_n_offset) < onePerCMC U
                 then xx0(lo + node_n_offset := onePerCMC U) else xx0);
          xx2 = (if xx1 (lo + node_p_offset) < onePerCMC U
                 then xx1(lo + node_p_offset := onePerCMC U) else xx1);
          xx3 = (if enable_Tl region \<and> xx2 (lo + node_Tl_offset) < T_ext - 50 * PU_K U
                 then xx2(lo + node_Tl_offset := T_ext - 50 * PU_K U) else xx2);
          xx4 = (if enable_Tn region
                 then (let n0 = oo (lo + node_n_offset);
                           n1 = xx3 (lo + node_n_offset);
                           T0 = oo (lo + node_Tn_offset) / n0;
                           T1 = T0 * (1 - min (n1 / n0) 2.0) + xx3 (lo + node_Tn_offset) / n0;
                           T1' = (if T1 < 0.9 * T_ext then 0.9 * T_ext else T1)
                       in xx3(lo + node_Tn_offset := T1' * n1))
                 else xx3);
          xx5 = (if enable_Tp region
                 then (let p0 = oo (lo + node_p_offset);
                           p1 = xx4 (lo + node_p_offset);
                           T0 = oo (lo + node_Tp_offset) / p0;
                           T1 = T0 * (1 - min (p1 / p0) 2.0) + xx4 (lo + node_Tp_offset) / p0;
                           T1' = (if T1 < 0.9 * T_ext then 0.9 * T_ext else T1)
                       in xx4(lo + node_Tp_offset := T1' * p1))
                 else xx4)
      in xx5)"

definition projection_region ::
  "PhysicalUnit \<Rightarrow> real \<Rightarrow> (nat \<Rightarrow> PetscScalar) \<Rightarrow> SimulationRegion
     \<Rightarrow> (nat \<Rightarrow> PetscScalar) \<Rightarrow> (nat \<Rightarrow> PetscScalar)" where
  "projection_region U T_ext oo region xx =
     (if region_type region \<noteq> SemiconductorRegion then xx
      else fold (projection_node U T_ext region oo) (on_processor_nodes region) xx)"

definition projection_positive_density_check ::
  "PhysicalUnit \<Rightarrow> SimulationSystem \<Rightarrow> (nat \<Rightarrow> PetscScalar) \<Rightarrow> (nat \<Rightarrow> PetscScalar)
     \<Rightarrow> (nat \<Rightarrow> PetscScalar)" where
  "projection_positive_density_check U sys x xo =
     fold (projection_region U (T_external sys) xo) (regions sys) x"

subsection \<open>Potential damping\<close>

text \<open>\<open>EBM3Solver::potential_damping(x, y, w, ...)\<close>: \<open>xx\<close> is the previous iterate,
  \<open>yy\<close> the Newton update, \<open>ww\<close> the candidate. The first loop finds \<open>dV_max\<close> in the
  semiconductor regions and clamps the candidate densities and temperatures on the way;
  the maxima of all ranks are reduced by \<open>Parallel::max\<close>; when \<open>dV_max\<close> exceeds
  \<open>1e-6\<close> (written \<open>0.000001\<close>) the second loop rewrites the candidate potential of
  the same nodes, and the last processor rewrites the slot of every boundary condition that
  has one. The two output flags are constants (\<open>changed_y = PETSC_FALSE\<close>,
  \<open>changed_w = PETSC_TRUE\<close>) and are left out.\<close>

definition damping_find_node ::
  "PhysicalUnit \<Rightarrow> real \<Rightarrow> SimulationRegion \<Rightarrow> (nat \<Rightarrow> PetscScalar) \<Rightarrow> (nat \<Rightarrow> PetscScalar)
     \<Rightarrow> FVM_Node \<Rightarrow> real \<times> (nat \<Rightarrow> PetscScalar) \<Rightarrow> real \<times> (nat \<Rightarrow> PetscScalar)" where
  "damping_find_node U T_ext region xx yy fvm_node acc =
     (case acc of (dV_max0, ww0) \<Rightarrow>
       (let node_psi_offset = ebm_variable_offset region POTENTIAL;
            node_n_offset = ebm_variable_offset region ELECTRON;
            node_p_offset = ebm_variable_offset region HOLE;
            node_Tl_offset = ebm_variable_offset region TEMPERATURE;
            node_Tn_offset = ebm_variable_offset region E_TEMP;
            node_Tp_offset = ebm_variable_offset region H_TEMP;
            lo = local_offset fvm_node;
            dV_max = (if \<bar>yy (lo + node_psi_offset)\<bar> > dV_max0
                      then \<bar>yy (lo + node_psi_offset)\<bar> else dV_max0);
            ww1 = (if ww0 (lo + node_n_offset) < onePerCMC U
                   then ww0(lo + node_n_offset := onePerCMC U) else ww0);
            ww2 = (if ww1 (lo + node_p_offset) < onePerCMC U
                   then ww1(lo + node_p_offset := onePerCMC U) else ww1);
            ww3 = (if enable_Tl region \<and> ww2 (lo + node_Tl_offset) < T_ext - 50 * PU_K U
                   then ww2(lo + node_Tl_offset := T_ext - 50 * PU_K U) else ww2);
            ww4 = (if enable_Tn region
                   then (let n0 = xx (lo + node_n_offset);
                             n1 = ww3 (lo + node_n_offset);
                             T0 = xx (lo + node_Tn_offset) / n0;
                             T1 = T0 * (1 - min (n1 / n0) 2.0) + ww3 (lo + node_Tn_offset) / n0;
                             T1' = (if T1 < 0.9 * T_ext then 0.9 * T_ext else T1)
                         in ww3(lo + node_Tn_offset := T1' * n1))
                   else ww3);
            ww5 = (if enable_Tp region
                   then (let p0 = xx (lo + node_p_offset);
                             p1 = ww4 (lo + node_p_offset);
                             T0 = xx (lo + node_Tp_offset) / p0;
                             T1 = T0 * (1 - min (p1 / p0) 2.0) + ww4 (lo + node_Tp_offset) / p0;
                             T1' = (if T1 < 0.9 * T_ext then 0.9 * T_ext else T1)
                         in ww4(lo + node_Tp_offset := T1' * p1))
                   else ww4)
        in (dV_max, ww5)))"

definition damping_find ::
  "PhysicalUnit \<Rightarrow> SimulationSystem \<Rightarrow> (nat \<Rightarrow> PetscScalar) \<Rightarrow> (nat \<Rightarrow> PetscScalar)
     \<Rightarrow> (nat \<Rightarrow> PetscScalar) \<Rightarrow> real \<times> (nat \<Rightarrow> PetscScalar)" where
  "damping_find U sys xx yy ww =
     fold (\<lambda>region acc.
             if region_type region \<noteq> SemiconductorRegion then acc
             else fold (damping_find_node U (T_external sys) region xx yy)
                    (on_processor_nodes region) acc)
          (regions sys) (0.0, ww)"

definition damping_factor :: "PhysicalUnit \<Rightarrow> SolverSpecify \<Rightarrow> real \<Rightarrow> real \<Rightarrow> real" where
  "damping_factor U S T_ext dV_max =
     (let Vut = PU_kb U * T_ext / PU_e U * potential_update S
      in ln (1 + dV_max / Vut) / (dV_max / Vut))"

definition damping_apply_regions ::
  "real \<Rightarrow> SimulationRegion list \<Rightarrow> (nat \<Rightarrow> PetscScalar) \<Rightarrow> (nat \<Rightarrow> PetscScalar)
     \<Rightarrow> (nat \<Rightarrow> PetscScalar) \<Rightarrow> (nat \<Rightarrow> PetscScalar)" where
  "damping_apply_regions f rs xx yy ww =
     fold (\<lambda>region ww'.
             if region_type region \<noteq> SemiconductorRegion then ww'
             else fold (\<lambda>fvm_node ww''.
                          (let node_psi_offset = ebm_variable_offset region POTENTIAL;
                               lo = local_offset fvm_node
                           in ww''(lo + node_psi_offset :=
                                xx (lo + node_psi_offset) - f * yy (lo + node_psi_offset))))
                    (on_processor_nodes region) ww')
          rs ww"

definition damping_apply_bcs ::
  "real \<Rightarrow> nat option list \<Rightarrow> (nat \<Rightarrow> PetscScalar) \<Rightarrow> (nat \<Rightarrow> PetscScalar)
     \<Rightarrow> (nat \<Rightarrow> PetscScalar) \<Rightarrow> (nat \<Rightarrow> PetscScalar)" where
  "damping_apply_bcs f offs xx yy ww =
     fold (\<lambda>array_offset ww'.
             case array_offset of
               None \<Rightarrow> ww'
             | Some a \<Rightarrow> ww'(a := xx a - f * yy a))
          offs ww"

text \<open>Modelled from the spec: \<open>Parallel::max\<close> is defined in \<open>parallel.h\<close>, which is
  not among the sources. It is the reduction over all ranks: every rank leaves with the
  largest of the values that the ranks brought. \<open>others\<close> are the values of the other
  ranks, here the maxima that they found in their own first loop.\<close>

definition Parallel_max :: "real list \<Rightarrow> real \<Rightarrow> real" where
  "Parallel_max others v = fold max others v"

definition potential_damping ::
  "PhysicalUnit \<Rightarrow> SolverSpecify \<Rightarrow> SimulationSystem \<Rightarrow> real list \<Rightarrow> bool
     \<Rightarrow> (nat \<Rightarrow> PetscScalar) \<Rightarrow> (nat \<Rightarrow> PetscScalar) \<Rightarrow> (nat \<Rightarrow> PetscScalar)
     \<Rightarrow> (nat \<Rightarrow> PetscScalar)" where
  "potential_damping U S sys others is_last_processor xx yy ww =
     (case damping_find U sys xx yy ww of (dV_max_local, ww1) \<Rightarrow>
        (let dV_max = Parallel_max others dV_max_local
         in if dV_max > 0.000001
            then (let f = damping_factor U S (T_external sys) dV_max;
                      ww2 = damping_apply_regions f (regions sys) xx yy ww1
                  in if is_last_processor
                     then damping_apply_bcs f (bcs_array_offset sys) xx yy ww2
                     else ww2)
            else ww1))"

text \<open>The slots that the first loop may rewrite: the carrier densities of the on-processor
  nodes of the semiconductor regions and, where the region has them, the temperatures.\<close>

definition semiconductor_clamp_slots :: "SimulationRegion list \<Rightarrow> nat list" where
  "semiconductor_clamp_slots rs =
     concat (map (\<lambda>region.
                    if region_type region \<noteq> SemiconductorRegion then []
                    else concat (map (\<lambda>fvm_node.
                           [local_offset fvm_node + ebm_variable_offset region ELECTRON,
                            local_offset fvm_node + ebm_variable_offset region HOLE]
                           @ (if enable_Tl region
                              then [local_offset fvm_node
                                      + ebm_variable_offset region TEMPERATURE] else [])
                           @ (if enable_Tn region
                              then [local_offset fvm_node
                                      + ebm_variable_offset region E_TEMP] else [])
                           @ (if enable_Tp region
                              then [local_offset fvm_node
                                      + ebm_variable_offset region H_TEMP] else []))
                         (on_processor_nodes region))) rs)"

text \<open>The potential slots of the on-processor nodes of the semiconductor regions.\<close>

definition semiconductor_psi_slots :: "SimulationRegion list \<Rightarrow> nat list" where
  "semiconductor_psi_slots rs =
     concat (map (\<lambda>region.
                    if region_type region \<noteq> SemiconductorRegion then []
                    else map (\<lambda>fvm_node. local_offset fvm_node
                                + ebm_variable_offset region POTENTIAL)
                           (on_processor_nodes region)) rs)"

subsection \<open>Local truncation error\<close>

text \<open>\<open>EBM3Solver::LTE_norm()\<close>. \<open>VecAXPY(y, a, x)\<close> is \<open>y := y + a*x\<close>. The predictor
  \<open>xp\<close> and the vector \<open>LTE\<close> start from zero; the region loop scales the entries of
  \<open>LTE\<close> in place and counts the error-carrying unknowns in \<open>N\<close>; a region of a type
  outside the switch ends in \<open>genius_error()\<close>. \<open>VecNorm(LTE, NORM_2, &r)\<close> is the square
  root of the sum of squares over the \<open>n_local_dofs\<close> entries. \<open>N\<close> is an \<open>int\<close>, the
  product an \<open>unsigned int\<close>; both agree with integer arithmetic within the machine
  range.\<close>

definition VecAXPY :: "Vec \<Rightarrow> PetscScalar \<Rightarrow> Vec \<Rightarrow> Vec" where
  "VecAXPY y a x = (\<lambda>i. y i + a * x i)"

definition LTE_predictor :: "SolverSpecify \<Rightarrow> Vec \<Rightarrow> Vec \<Rightarrow> Vec \<Rightarrow> Vec" where
  "LTE_predictor S x_n x_n1 x_n2 =
     (let hn = dt S; hn1 = dt_last S; hn2 = dt_last_last S
      in case TS_type S of
           BDF1 \<Rightarrow> VecAXPY (VecAXPY VecZeroEntries (1 + hn / hn1) x_n) (- hn / hn1) x_n1
         | BDF2 \<Rightarrow>
             (let cn = 1 + hn * (hn + 2 * hn1 + hn2) / (hn1 * (hn1 + hn2));
                  cn1 = - hn * (hn + hn1 + hn2) / (hn1 * hn2);
                  cn2 = hn * (hn + hn1) / (hn2 * (hn1 + hn2))
              in VecAXPY (VecAXPY (VecAXPY VecZeroEntries cn x_n) cn1 x_n1) cn2 x_n2)
         | OtherScheme \<Rightarrow> VecZeroEntries)"

definition LTE_vector :: "SolverSpecify \<Rightarrow> Vec \<Rightarrow> Vec \<Rightarrow> Vec" where
  "LTE_vector S x xp =
     (let hn = dt S; hn1 = dt_last S; hn2 = dt_last_last S
      in case TS_type S of
           BDF1 \<Rightarrow> VecAXPY (VecAXPY VecZeroEntries (hn / (hn + hn1)) x) (- hn / (hn + hn1)) xp
         | BDF2 \<Rightarrow> VecAXPY (VecAXPY VecZeroEntries (hn / (hn + hn1 + hn2)) x)
                     (- hn / (hn + hn1 + hn2)) xp
         | OtherScheme \<Rightarrow> VecZeroEntries)"

definition LTE_semiconductor_node ::
  "SimulationRegion \<Rightarrow> real \<Rightarrow> real \<Rightarrow> (nat \<Rightarrow> PetscScalar) \<Rightarrow> FVM_Node
     \<Rightarrow> (nat \<Rightarrow> PetscScalar) \<Rightarrow> (nat \<Rightarrow> PetscScalar)" where
  "LTE_semiconductor_node region eps_r eps_a xx fvm_node ll0 =
     (let node_psi_offset = ebm_variable_offset region POTENTIAL;
          node_n_offset = ebm_variable_offset region ELECTRON;
          node_p_offset = ebm_variable_offset region HOLE;
          node_Tl_offset = ebm_variable_offset region TEMPERATURE;
          node_Tn_offset = ebm_variable_offset region E_TEMP;
          node_Tp_offset = ebm_variable_offset region H_TEMP;
          lo = local_offset fvm_node;
          ll1 = ll0(lo + node_psi_offset := 0);
          ll2 = ll1(lo + node_n_offset :=
                  ll1 (lo + node_n_offset) / (eps_r * xx (lo + node_n_offset) + eps_a));
          ll3 = ll2(lo + node_p_offset :=
                  ll2 (lo + node_p_offset) / (eps_r * xx (lo + node_p_offset) + eps_a));
          ll4 = (if enable_Tl region
                 then ll3(lo + node_Tl_offset :=
                        ll3 (lo + node_Tl_offset) / (eps_r * xx (lo + node_Tl_offset) + eps_a))
                 else ll3);
          ll5 = (if enable_Tn region
                 then ll4(lo + node_Tn_offset :=
                        ll4 (lo + node_Tn_offset) / (eps_r * xx (lo + node_Tn_offset) + eps_a))
                 else ll4);
          ll6 = (if enable_Tp region
                 then ll5(lo + node_Tp_offset :=
                        ll5 (lo + node_Tp_offset) / (eps_r * xx (lo + node_Tp_offset) + eps_a))
                 else ll5)
      in ll6)"

definition LTE_insulator_node ::
  "SimulationRegion \<Rightarrow> real \<Rightarrow> real \<Rightarrow> (nat \<Rightarrow> PetscScalar) \<Rightarrow> FVM_Node
     \<Rightarrow> (nat \<Rightarrow> PetscScalar) \<Rightarrow> (nat \<Rightarrow> PetscScalar)" where
  "LTE_insulator_node region eps_r eps_a xx fvm_node ll0 =
     (let node_psi_offset = ebm_variable_offset region POTENTIAL;
          node_Tl_offset = ebm_variable_offset region TEMPERATURE;
          lo = local_offset fvm_node;
          ll1 = ll0(lo + node_psi_offset := 0);
          ll2 = (if enable_Tl region
                 then ll1(lo + node_Tl_offset :=
                        ll1 (lo + node_Tl_offset) / (eps_r * xx (lo + node_Tl_offset) + eps_a))
                 else ll1)
      in ll2)"

definition n_on_processor_node :: "SimulationRegion \<Rightarrow> nat" where
  "n_on_processor_node region = length (on_processor_nodes region)"

fun LTE_regions ::
  "SimulationRegion list \<Rightarrow> real \<Rightarrow> real \<Rightarrow> (nat \<Rightarrow> PetscScalar)
     \<Rightarrow> (nat \<Rightarrow> PetscScalar) \<times> int \<Rightarrow> error + (nat \<Rightarrow> PetscScalar) \<times> int"
where
  "LTE_regions [] eps_r eps_a xx acc = Inr acc"
| "LTE_regions (region # rs) eps_r eps_a xx (ll, N) =
     (case region_type region of
        SemiconductorRegion \<Rightarrow>
          LTE_regions rs eps_r eps_a xx
            (fold (LTE_semiconductor_node region eps_r eps_a xx) (on_processor_nodes region) ll,
             N + (int (ebm_n_variables region) - 1) * int (n_on_processor_node region))
      | InsulatorRegion \<Rightarrow>
          LTE_regions rs eps_r eps_a xx
            (fold (LTE_insulator_node region eps_r eps_a xx) (on_processor_nodes region) ll,
             N + (int (ebm_n_variables region) - 1) * int (n_on_processor_node region))
      | ElectrodeRegion \<Rightarrow>
          LTE_regions rs eps_r eps_a xx
            (fold (LTE_insulator_node region eps_r eps_a xx) (on_processor_nodes region) ll,
             N + (int (ebm_n_variables region) - 1) * int (n_on_processor_node region))
      | MetalRegion \<Rightarrow>
          LTE_regions rs eps_r eps_a xx
            (fold (LTE_insulator_node region eps_r eps_a xx) (on_processor_nodes region) ll,
             N + (int (ebm_n_variables region) - 1) * int (n_on_processor_node region))
      | VacuumRegion \<Rightarrow> LTE_regions rs eps_r eps_a xx (ll, N)
      | InvalidRegion \<Rightarrow> Inl GeniusError)"

definition LTE_bcs :: "bool \<Rightarrow> nat option list \<Rightarrow> (nat \<Rightarrow> PetscScalar) \<Rightarrow> (nat \<Rightarrow> PetscScalar)"
where
  "LTE_bcs is_last_processor offs ll =
     (if is_last_processor
      then fold (\<lambda>array_offset ll'. case array_offset of None \<Rightarrow> ll' | Some a \<Rightarrow> ll'(a := 0))
             offs ll
      else ll)"

definition VecNorm_2 :: "nat \<Rightarrow> Vec \<Rightarrow> real" where
  "VecNorm_2 n v = sqrt (\<Sum>i<n. (v i)\<^sup>2)"

text \<open>The estimate up to the reduction: the scaled vector and the count \<open>N\<close>.\<close>

definition LTE_estimate ::
  "SolverSpecify \<Rightarrow> SimulationSystem \<Rightarrow> bool \<Rightarrow> Vec \<Rightarrow> Vec \<Rightarrow> Vec \<Rightarrow> Vec
     \<Rightarrow> error + (nat \<Rightarrow> PetscScalar) \<times> int" where
  "LTE_estimate S sys is_last_processor x x_n x_n1 x_n2 =
     (let xp = LTE_predictor S x_n x_n1 x_n2;
          LTE = LTE_vector S x xp
      in case LTE_regions (regions sys) (TS_rtol S) (TS_atol S) x (LTE, 0) of
           Inl err \<Rightarrow> Inl err
         | Inr (ll, N) \<Rightarrow> Inr (LTE_bcs is_last_processor (bcs_array_offset sys) ll, N))"

definition LTE_norm ::
  "SolverSpecify \<Rightarrow> SimulationSystem \<Rightarrow> bool \<Rightarrow> nat \<Rightarrow> Vec \<Rightarrow> Vec \<Rightarrow> Vec \<Rightarrow> Vec
     \<Rightarrow> error + real" where
  "LTE_norm S sys is_last_processor n_local_dofs x x_n x_n1 x_n2 =
     (case LTE_estimate S sys is_last_processor x x_n x_n1 x_n2 of
        Inl err \<Rightarrow> Inl err
      | Inr (ll, N) \<Rightarrow>
          (let r = VecNorm_2 n_local_dofs ll
           in if N > 0 then Inr (r / sqrt (real_of_int N)) else Inr 1.0))"

text \<open>The number of error-carrying unknowns that \<open>LTE_norm\<close> counts: for every region
  that is not vacuum, all variables but one of every on-processor node.\<close>

definition LTE_count :: "SimulationRegion list \<Rightarrow> int" where
  "LTE_count rs =
     (\<Sum>region\<leftarrow>rs. if region_type region = VacuumRegion then 0
                     else (int (ebm_n_variables region) - 1) * int (n_on_processor_node region))"

text \<open>Concrete settings and systems for the scenarios: a first-order transient step with
  equal step sizes, an insulator region that carries the potential only, and a
  semiconductor region with the three drift-diffusion unknowns and one electrode slot.\<close>

definition transient_BDF1 :: SolverSpecify where
  "transient_BDF1 =
     \<lparr>dt = 1, dt_last = 1, dt_last_last = 1, TS_rtol = 1 / 1000, TS_atol = 1 / 1000,
      TS_type = BDF1, TimeDependent = True, BDF2_restart = True, potential_update = 1\<rparr>"

definition insulator_system :: SimulationSystem where
  "insulator_system =
     \<lparr>regions = [(plain_region InsulatorRegion)
                   \<lparr>ebm_n_variables := 1, on_processor_nodes := [node_at 0]\<rparr>],
      T_external = 300, bcs_array_offset = []\<rparr>"

definition semiconductor_system :: SimulationSystem where
  "semiconductor_system =
     \<lparr>regions = [(plain_region SemiconductorRegion)\<lparr>on_processor_nodes := [node_at 0]\<rparr>],
      T_external = 300, bcs_array_offset = [Some 3]\<rparr>"

text \<open>A vector whose first \<open>n\<close> entries are zero.\<close>

definition zero_below :: "nat \<Rightarrow> (nat \<Rightarrow> real) \<Rightarrow> bool" where
  "zero_below n ll \<longleftrightarrow> (\<forall>i<n. ll i = 0)"

text \<open>Raising one entry to a floor: \<open>if (x[i] < c) x[i] = c\<close>.\<close>

definition raise_to :: "nat \<times> real \<Rightarrow> (nat \<Rightarrow> real) \<Rightarrow> (nat \<Rightarrow> real)" where
  "raise_to ic x = (case ic of (i, c) \<Rightarrow> if x i < c then x(i := c) else x)"

text \<open>The floors that the projection applies at a node when the carrier temperatures are
  switched off, in the order of the code, and their list for a region.\<close>

definition projection_node_floors ::
  "PhysicalUnit \<Rightarrow> real \<Rightarrow> SimulationRegion \<Rightarrow> FVM_Node \<Rightarrow> (nat \<times> real) list" where
  "projection_node_floors U T_ext region fvm_node =
     [(local_offset fvm_node + ebm_variable_offset region ELECTRON, onePerCMC U),
      (local_offset fvm_node + ebm_variable_offset region HOLE, onePerCMC U)]
     @ (if enable_Tl region
        then [(local_offset fvm_node + ebm_variable_offset region TEMPERATURE,
               T_ext - 50 * PU_K U)]
        else [])"

definition projection_region_floors ::
  "PhysicalUnit \<Rightarrow> real \<Rightarrow> SimulationRegion \<Rightarrow> (nat \<times> real) list" where
  "projection_region_floors U T_ext region =
     (if region_type region \<noteq> SemiconductorRegion then []
      else concat (map (projection_node_floors U T_ext region) (on_processor_nodes region)))"

text \<open>Units in which every constant of \<open>PhysicalUnit\<close> is 1, and two systems of one
  semiconductor node: one with lattice, electron and hole temperature, one with lattice
  temperature only.\<close>

definition unit_system :: PhysicalUnit where
  "unit_system = \<lparr>PU_kb = 1, PU_e = 1, PU_cm = 1, PU_K = 1\<rparr>"

definition energy_balance_region :: SimulationRegion where
  "energy_balance_region =
     (plain_region SemiconductorRegion)
       \<lparr>ebm_n_variables := 6, enable_Tl := True, enable_Tn := True, enable_Tp := True,
        on_processor_nodes := [node_at 0]\<rparr>"

definition energy_balance_system :: SimulationSystem where
  "energy_balance_system =
     \<lparr>regions = [energy_balance_region], T_external = 300, bcs_array_offset = []\<rparr>"

definition lattice_only_system :: SimulationSystem where
  "lattice_only_system =
     \<lparr>regions = [(plain_region SemiconductorRegion)
                   \<lparr>ebm_n_variables := 4, enable_Tl := True,
                    on_processor_nodes := [node_at 0]\<rparr>],
      T_external = 300, bcs_array_offset = []\<rparr>"

text \<open>A system of one insulator node and one of one semiconductor node with an electrode
  slot, for the damping scenarios.\<close>

definition insulator_node_system :: SimulationSystem where
  "insulator_node_system =
     \<lparr>regions = [(plain_region InsulatorRegion)\<lparr>on_processor_nodes := [node_at 0]\<rparr>],
      T_external = 300, bcs_array_offset = []\<rparr>"

definition default_specify :: SolverSpecify where
  "default_specify =
     \<lparr>dt = 1, dt_last = 1, dt_last_last = 1, TS_rtol = 1 / 1000, TS_atol = 1 / 1000,
      TS_type = BDF2, TimeDependent = False, BDF2_restart = True, potential_update = 1\<rparr>"

section \<open>Ohmic contact with external circuit, energy-balance level 3\<close>

text \<open>The lumped circuit of an electrode (\<open>ExternalCircuit\<close>, declared in a header that is
  not among the sources): its elements, the applied sources, the values of the previous
  time step, the two drive flags and the values saved for the running iteration.\<close>

record ExternalCircuit =
  ckt_R :: real
  ckt_L :: real
  ckt_C :: real
  Vapp :: real
  Iapp :: real
  ckt_current :: real
  cap_current :: real
  ckt_potential :: real
  is_voltage_driven :: bool
  is_current_driven :: bool
  current_itering :: real
  potential_itering :: real

text \<open>The data of a control volume that the Ohmic boundary reads. The band functions of
  the material library are evaluated after the library has been mapped to the node, so
  they are fields of the node data; the library is not among the sources and the
  functions are parameters.\<close>

record FVM_NodeData =
  nd_psi :: real
  nd_psi_last :: real
  nd_eps :: real
  nd_affinity :: real
  nd_Net_doping :: real
  band_nie :: "real \<Rightarrow> real \<Rightarrow> real \<Rightarrow> real"
  band_Nc :: "real \<Rightarrow> real"
  band_Nv :: "real \<Rightarrow> real"
  band_Eg :: "real \<Rightarrow> real"

record NeighborNode =
  nb_fvm_node :: FVM_Node
  nb_node_data :: FVM_NodeData
  nb_distance :: real
  nb_cv_surface_area :: real

record OhmicRegionNode =
  orn_region :: SimulationRegion
  orn_Fermi :: bool
  orn_fvm_node :: FVM_Node
  orn_node_data :: FVM_NodeData
  orn_outside_boundary_surface_area :: real
  orn_neighbors :: "NeighborNode list"

record OhmicBoundaryNode =
  obn_on_this_processor :: bool
  obn_node_on_boundary :: bool
  obn_region_node :: "OhmicRegionNode list"

record OhmicContactBC =
  ohmic_nodes :: "OhmicBoundaryNode list"
  z_width :: real
  Heat_Transfer :: real
  bc_global_offset :: nat
  bc_local_offset :: "nat option"
  ext_circuit :: ExternalCircuit
  is_inter_connect_bc :: bool
  inter_connect_hub_local_offset :: nat
  inter_connect_hub_global_offset :: nat

text \<open>What the boundary code reads from its surroundings: the unit constants, the solver
  settings, the external temperature, \<open>fermi_half\<close> of \<open>mathfunc.h\<close> (not among the
  sources) and whether this is the last processor.\<close>

record OhmicEnv =
  env_unit :: PhysicalUnit
  env_specify :: SolverSpecify
  env_T_external :: real
  env_fermi_half :: "real \<Rightarrow> real"
  env_is_last_processor :: bool

text \<open>\<open>OhmicContactBC::EBM3_Function_Preprocess\<close>
  (\<open>ebm3_boundary_ohmic.cc\<close>): the rows to clear and to merge, and the conduction current
  \<open>In - Ip\<close> of every semiconductor node of the contact, read from the residual \<open>f\<close> as
  the region pass left it and pushed to \<open>_current_buffer\<close>.\<close>

definition ohmic_insulator_rows ::
  "OhmicRegionNode \<Rightarrow> OhmicRegionNode \<Rightarrow> row_buffers \<Rightarrow> row_buffers" where
  "ohmic_insulator_rows first rn rows =
     (case rows of (src_row, dst_row, clear_row) \<Rightarrow>
        if enable_Tl (orn_region rn)
        then (src_row @ [global_offset (orn_fvm_node rn) + 1],
              dst_row @ [global_offset (orn_fvm_node first)
                          + ebm_variable_offset (orn_region first) TEMPERATURE],
              clear_row @ [global_offset (orn_fvm_node rn) + 0,
                           global_offset (orn_fvm_node rn) + 1])
        else (src_row, dst_row, clear_row @ [global_offset (orn_fvm_node rn) + 0]))"

fun EBM3_Function_Preprocess_regions ::
  "Vec \<Rightarrow> OhmicRegionNode \<Rightarrow> OhmicRegionNode list \<Rightarrow> row_buffers \<times> real list
     \<Rightarrow> error + row_buffers \<times> real list"
where
  "EBM3_Function_Preprocess_regions f first [] acc = Inr acc"
| "EBM3_Function_Preprocess_regions f first (rn # rest) (rows, current_buffer) =
     (case region_type (orn_region rn) of
        SemiconductorRegion \<Rightarrow>
          (case rows of (src_row, dst_row, clear_row) \<Rightarrow>
             EBM3_Function_Preprocess_regions f first rest
               ((src_row, dst_row,
                 clear_row
                   @ [global_offset (orn_fvm_node rn) + 0, global_offset (orn_fvm_node rn) + 1,
                      global_offset (orn_fvm_node rn) + 2]
                   @ (if enable_Tn (orn_region rn)
                      then [global_offset (orn_fvm_node rn)
                              + ebm_variable_offset (orn_region rn) E_TEMP] else [])
                   @ (if enable_Tp (orn_region rn)
                      then [global_offset (orn_fvm_node rn)
                              + ebm_variable_offset (orn_region rn) H_TEMP] else [])),
                current_buffer
                  @ [f (global_offset (orn_fvm_node rn) + 1)
                       - f (global_offset (orn_fvm_node rn) + 2)]))
      | ElectrodeRegion \<Rightarrow>
          EBM3_Function_Preprocess_regions f first rest
            (ohmic_insulator_rows first rn rows, current_buffer)
      | InsulatorRegion \<Rightarrow>
          EBM3_Function_Preprocess_regions f first rest
            (ohmic_insulator_rows first rn rows, current_buffer)
      | VacuumRegion \<Rightarrow> EBM3_Function_Preprocess_regions f first rest (rows, current_buffer)
      | _ \<Rightarrow> Inl GeniusError)"

fun EBM3_Function_Preprocess_nodes ::
  "Vec \<Rightarrow> OhmicBoundaryNode list \<Rightarrow> row_buffers \<times> real list
     \<Rightarrow> error + row_buffers \<times> real list"
where
  "EBM3_Function_Preprocess_nodes f [] acc = Inr acc"
| "EBM3_Function_Preprocess_nodes f (nd # nds) acc =
     (if \<not> obn_on_this_processor nd then EBM3_Function_Preprocess_nodes f nds acc
      else case obn_region_node nd of
             [] \<Rightarrow> EBM3_Function_Preprocess_nodes f nds acc
           | first # rest \<Rightarrow>
               (case EBM3_Function_Preprocess_regions f first (first # rest) acc of
                  Inl err \<Rightarrow> Inl err
                | Inr acc' \<Rightarrow> EBM3_Function_Preprocess_nodes f nds acc'))"

definition EBM3_Function_Preprocess ::
  "OhmicContactBC \<Rightarrow> Vec \<Rightarrow> row_buffers \<Rightarrow> error + row_buffers \<times> real list" where
  "EBM3_Function_Preprocess bc f rows = EBM3_Function_Preprocess_nodes f (ohmic_nodes bc) (rows, [])"

text \<open>\<open>OhmicContactBC::EBM3_Function\<close>, the loop over the regions of a boundary node.
  For the semiconductor node: the three governing equations (Fermi or Boltzmann
  statistics), the heat flux, the carrier temperatures, and the displacement current
  towards every neighbour, pushed to the current buffer. For a conductor or insulator node:
  continuity of potential and temperature with the semiconductor node.\<close>

definition ohmic_dEdt ::
  "SolverSpecify \<Rightarrow> real \<Rightarrow> real \<Rightarrow> FVM_NodeData \<Rightarrow> NeighborNode \<Rightarrow> real" where
  "ohmic_dEdt S V V_nb node_data nb =
     (if TS_type S = BDF2 \<and> BDF2_restart S = False
      then (let r = dt_last S / (dt_last S + dt S)
            in ((2 - r) / (1 - r) * (V - V_nb)
                - 1.0 / (r * (1 - r)) * (nd_psi node_data - nd_psi (nb_node_data nb))
                + (1 - r) / r * (nd_psi_last node_data - nd_psi_last (nb_node_data nb)))
               / nb_distance nb / (dt_last S + dt S))
      else ((V - V_nb) - (nd_psi node_data - nd_psi (nb_node_data nb)))
             / nb_distance nb / dt S)"

definition ohmic_displacement_currents ::
  "SolverSpecify \<Rightarrow> (nat \<Rightarrow> PetscScalar) \<Rightarrow> real \<Rightarrow> OhmicRegionNode \<Rightarrow> real list" where
  "ohmic_displacement_currents S x V rn =
     (if TimeDependent S = True
      then map (\<lambda>nb. (let V_nb = x (local_offset (nb_fvm_node nb) + 0);
                           dEdt = ohmic_dEdt S V V_nb (orn_node_data rn) nb
                       in nb_cv_surface_area nb * nd_eps (orn_node_data rn) * dEdt))
             (orn_neighbors rn)
      else [])"

definition ohmic_semiconductor_equations ::
  "OhmicEnv \<Rightarrow> OhmicContactBC \<Rightarrow> OhmicBoundaryNode \<Rightarrow> (nat \<Rightarrow> PetscScalar) \<Rightarrow> real
     \<Rightarrow> OhmicRegionNode \<Rightarrow> (nat \<times> PetscScalar) list" where
  "ohmic_semiconductor_equations env bc nd x Ve rn =
     (let semi_region = orn_region rn;
          node_data = orn_node_data rn;
          kb = PU_kb (env_unit env);
          ee = PU_e (env_unit env);
          node_psi_offset = ebm_variable_offset semi_region POTENTIAL;
          node_n_offset = ebm_variable_offset semi_region ELECTRON;
          node_p_offset = ebm_variable_offset semi_region HOLE;
          node_Tl_offset = ebm_variable_offset semi_region TEMPERATURE;
          node_Tn_offset = ebm_variable_offset semi_region E_TEMP;
          node_Tp_offset = ebm_variable_offset semi_region H_TEMP;
          lo = local_offset (orn_fvm_node rn);
          go = global_offset (orn_fvm_node rn);
          V = x (lo + node_psi_offset);
          n = x (lo + node_n_offset);
          p = x (lo + node_p_offset);
          T = (if enable_Tl semi_region then x (lo + node_Tl_offset) else env_T_external env);
          nie = band_nie node_data p n T;
          Nc = band_Nc node_data T;
          Nv = band_Nv node_data T;
          Eg = band_Eg node_data T;
          y = (if orn_Fermi rn
               then (let Ec = - (ee * V + nd_affinity node_data);
                         Ev = - (ee * V + nd_affinity node_data + Eg);
                         phin = Ve;
                         phip = Ve;
                         etan = (- ee * phin - Ec) / kb / T;
                         etap = (Ev + ee * phip) / kb / T
                     in [Nc * env_fermi_half env etan - Nv * env_fermi_half env etap
                           - nd_Net_doping node_data,
                         n - Nc * env_fermi_half env etan,
                         p - Nv * env_fermi_half env etap])
               else (let net_dpoing = nd_Net_doping node_data;
                         hole_density =
                           (if net_dpoing < 0
                            then (- net_dpoing + sqrt (net_dpoing * net_dpoing + 4 * nie * nie)) / 2.0
                            else nie * nie
                                   / ((net_dpoing + sqrt (net_dpoing * net_dpoing + 4 * nie * nie))
                                       / 2.0));
                         electron_density =
                           (if net_dpoing < 0
                            then nie * nie / hole_density
                            else (net_dpoing + sqrt (net_dpoing * net_dpoing + 4 * nie * nie)) / 2.0)
                     in [V - kb * T / ee * arsinh (nd_Net_doping node_data / (2 * nie))
                           + Eg / (2 * ee)
                           + kb * T * ln (Nc / Nv) / (2 * ee)
                           + nd_affinity node_data
                           - Ve,
                         n - electron_density,
                         p - hole_density]));
          iy = [go + node_psi_offset, go + node_n_offset, go + node_p_offset];
          heat = (if enable_Tl semi_region
                     \<and> (obn_node_on_boundary nd
                          \<or> list_ex (\<lambda>r. region_type (orn_region r) = VacuumRegion)
                               (obn_region_node nd))
                  then [(go + node_Tl_offset,
                         Heat_Transfer bc * (env_T_external env - T)
                           * orn_outside_boundary_surface_area rn)]
                  else []);
          elec = (if enable_Tn semi_region
                  then (let Tn = x (lo + node_Tn_offset) / n
                        in [(go + node_Tn_offset, n * (Tn - T))])
                  else []);
          hole = (if enable_Tp semi_region
                  then (let Tp = x (lo + node_Tp_offset) / p
                        in [(go + node_Tp_offset, p * (Tp - T))])
                  else [])
      in zip iy y @ heat @ elec @ hole)"

definition ohmic_insulator_equations ::
  "OhmicEnv \<Rightarrow> (nat \<Rightarrow> PetscScalar) \<Rightarrow> OhmicRegionNode \<Rightarrow> OhmicRegionNode
     \<Rightarrow> (nat \<times> PetscScalar) list" where
  "ohmic_insulator_equations env x first rn =
     (let node_psi_offset = ebm_variable_offset (orn_region rn) POTENTIAL;
          node_Tl_offset = ebm_variable_offset (orn_region rn) TEMPERATURE;
          semiregion_node_psi_offset = ebm_variable_offset (orn_region first) POTENTIAL;
          semiregion_node_Tl_offset = ebm_variable_offset (orn_region first) TEMPERATURE;
          V = x (local_offset (orn_fvm_node rn) + node_psi_offset);
          T = (if enable_Tl (orn_region rn)
               then x (local_offset (orn_fvm_node rn) + node_Tl_offset)
               else env_T_external env);
          V_semi = x (local_offset (orn_fvm_node first) + semiregion_node_psi_offset)
      in [(global_offset (orn_fvm_node rn) + node_psi_offset, V - V_semi)]
         @ (if enable_Tl (orn_region rn)
            then (let T_semi = x (local_offset (orn_fvm_node first) + semiregion_node_Tl_offset)
                  in [(global_offset (orn_fvm_node rn) + node_Tl_offset, T - T_semi)])
            else []))"

fun EBM3_Function_regions ::
  "OhmicEnv \<Rightarrow> OhmicContactBC \<Rightarrow> OhmicBoundaryNode \<Rightarrow> (nat \<Rightarrow> PetscScalar) \<Rightarrow> real
     \<Rightarrow> OhmicRegionNode \<Rightarrow> nat \<Rightarrow> OhmicRegionNode list
     \<Rightarrow> (nat \<times> PetscScalar) list \<times> real list
     \<Rightarrow> error + (nat \<times> PetscScalar) list \<times> real list"
where
  "EBM3_Function_regions env bc nd x Ve first i [] acc = Inr acc"
| "EBM3_Function_regions env bc nd x Ve first i (rn # rest) (iy, current_buffer) =
     (case region_type (orn_region rn) of
        SemiconductorRegion \<Rightarrow>
          if i \<noteq> 0 then Inl AssertionFailure
          else EBM3_Function_regions env bc nd x Ve first (Suc i) rest
                 (iy @ ohmic_semiconductor_equations env bc nd x Ve rn,
                  current_buffer
                    @ ohmic_displacement_currents (env_specify env) x
                        (x (local_offset (orn_fvm_node rn)
                              + ebm_variable_offset (orn_region rn) POTENTIAL)) rn)
      | ElectrodeRegion \<Rightarrow>
          if region_type (orn_region first) \<noteq> SemiconductorRegion then Inl AssertionFailure
          else EBM3_Function_regions env bc nd x Ve first (Suc i) rest
                 (iy @ ohmic_insulator_equations env x first rn, current_buffer)
      | InsulatorRegion \<Rightarrow>
          if region_type (orn_region first) \<noteq> SemiconductorRegion then Inl AssertionFailure
          else EBM3_Function_regions env bc nd x Ve first (Suc i) rest
                 (iy @ ohmic_insulator_equations env x first rn, current_buffer)
      | VacuumRegion \<Rightarrow>
          EBM3_Function_regions env bc nd x Ve first (Suc i) rest (iy, current_buffer)
      | _ \<Rightarrow> Inl GeniusError)"

fun EBM3_Function_nodes ::
  "OhmicEnv \<Rightarrow> OhmicContactBC \<Rightarrow> (nat \<Rightarrow> PetscScalar) \<Rightarrow> real \<Rightarrow> OhmicBoundaryNode list
     \<Rightarrow> (nat \<times> PetscScalar) list \<times> real list
     \<Rightarrow> error + (nat \<times> PetscScalar) list \<times> real list"
where
  "EBM3_Function_nodes env bc x Ve [] acc = Inr acc"
| "EBM3_Function_nodes env bc x Ve (nd # nds) acc =
     (if \<not> obn_on_this_processor nd then EBM3_Function_nodes env bc x Ve nds acc
      else case obn_region_node nd of
             [] \<Rightarrow> EBM3_Function_nodes env bc x Ve nds acc
           | first # rest \<Rightarrow>
               (case EBM3_Function_regions env bc nd x Ve first 0 (first # rest) acc of
                  Inl err \<Rightarrow> Inl err
                | Inr acc' \<Rightarrow> EBM3_Function_nodes env bc x Ve nds acc'))"

text \<open>The extra equation of the electrode. Every processor adds the current term of its
  own nodes; the last processor adds the terms of the lumped circuit.\<close>

definition ohmic_current_term :: "OhmicEnv \<Rightarrow> OhmicContactBC \<Rightarrow> real \<Rightarrow> Vec \<Rightarrow> Vec" where
  "ohmic_current_term env bc current f =
     (if is_inter_connect_bc bc
      then (let R = ckt_R (ext_circuit bc);
                f_ext = R * current
            in VecSetValue_ADD f (bc_global_offset bc) f_ext)
      else (let f1 = (if is_voltage_driven (ext_circuit bc)
                      then (let R = ckt_R (ext_circuit bc);
                                L = ckt_L (ext_circuit bc);
                                f_ext = (L / dt (env_specify env) + R) * current
                            in VecSetValue_ADD f (bc_global_offset bc) f_ext)
                      else f)
            in if is_current_driven (ext_circuit bc)
               then (let f_ext = current in VecSetValue_ADD f1 (bc_global_offset bc) f_ext)
               else f1))"

definition ohmic_circuit_term ::
  "OhmicEnv \<Rightarrow> OhmicContactBC \<Rightarrow> (nat \<Rightarrow> PetscScalar) \<Rightarrow> real \<Rightarrow> Vec \<Rightarrow> Vec" where
  "ohmic_circuit_term env bc x Ve f =
     (if env_is_last_processor env
      then (if is_inter_connect_bc bc
            then (let V_ic = x (inter_connect_hub_local_offset bc);
                      f_ext = Ve - V_ic
                  in VecSetValue_ADD f (bc_global_offset bc) f_ext)
            else (let f1 = (if is_voltage_driven (ext_circuit bc)
                            then (let Vapp' = Vapp (ext_circuit bc);
                                      R = ckt_R (ext_circuit bc);
                                      C = ckt_C (ext_circuit bc);
                                      L = ckt_L (ext_circuit bc);
                                      I = ckt_current (ext_circuit bc);
                                      Ic = cap_current (ext_circuit bc);
                                      P = ckt_potential (ext_circuit bc);
                                      dt' = dt (env_specify env);
                                      f_ext = (Ve - Vapp') + (L / dt' + R) * C / dt' * Ve
                                              - (L / dt' + R) * C / dt' * P - L / dt' * (I + Ic)
                                  in VecSetValue_ADD f (bc_global_offset bc) f_ext)
                            else f)
                  in if is_current_driven (ext_circuit bc)
                     then (let Iapp' = Iapp (ext_circuit bc);
                               Ic = cap_current (ext_circuit bc);
                               f_ext = Ic - Iapp'
                           in VecSetValue_ADD f1 (bc_global_offset bc) f_ext)
                     else f1))
      else f)"

text \<open>The whole of \<open>EBM3_Function\<close>: \<open>current_buffer\<close> is \<open>_current_buffer\<close> as the
  preprocessing left it. The result is the residual and the circuit with the current and
  the potential of the running iteration saved.\<close>

definition EBM3_Function ::
  "OhmicEnv \<Rightarrow> OhmicContactBC \<Rightarrow> real list \<Rightarrow> (nat \<Rightarrow> PetscScalar) \<Rightarrow> Vec
     \<Rightarrow> error + Vec \<times> ExternalCircuit" where
  "EBM3_Function env bc current_buffer x f =
     (case bc_local_offset bc of
        None \<Rightarrow> Inl AssertionFailure
      | Some lo \<Rightarrow>
          (let current_scale = z_width bc;
               Ve = x lo
           in case EBM3_Function_nodes env bc x Ve (ohmic_nodes bc) ([], current_buffer) of
                Inl err \<Rightarrow> Inl err
              | Inr (iy, current_buffer') \<Rightarrow>
                  (let f1 = VecSetValues_ADD f iy;
                       current = current_scale * sum_list current_buffer';
                       f2 = ohmic_current_term env bc current f1;
                       f3 = ohmic_circuit_term env bc x Ve f2
                   in Inr (f3, (ext_circuit bc)\<lparr>current_itering := current,
                                                 potential_itering := Ve\<rparr>))))"

subsection \<open>The Jacobian of the Ohmic contact\<close>

text \<open>A matrix is a total store from row and column to value; \<open>MatSetValues\<close> with
  \<open>ADD_VALUES\<close> adds every value to its entry.\<close>

type_synonym Mat = "nat \<Rightarrow> nat \<Rightarrow> PetscScalar"

definition MatSetValue_ADD :: "Mat \<Rightarrow> nat \<Rightarrow> nat \<Rightarrow> PetscScalar \<Rightarrow> Mat" where
  "MatSetValue_ADD J r c v = J(r := (J r)(c := J r c + v))"

definition MatSetValues_ADD_row :: "Mat \<Rightarrow> nat \<Rightarrow> nat list \<Rightarrow> PetscScalar list \<Rightarrow> Mat" where
  "MatSetValues_ADD_row J r cols vals = fold (\<lambda>(c, v) J'. MatSetValue_ADD J' r c v) (zip cols vals) J"

text \<open>Modelled from the spec: the dual-number type \<open>adtl::AutoDScalar\<close> is declared in a
  header that is not among the sources. The spec describes it as forward-mode automatic
  differentiation: a value together with its derivative in every seeded direction,
  propagated through each arithmetic operation. Only the operations that the
  displacement current and the continuity equations use are given.\<close>

record AutoDScalar =
  ad_value :: real
  ad_deriv :: "nat \<Rightarrow> real"

definition AD_const :: "real \<Rightarrow> AutoDScalar" where
  "AD_const v = \<lparr>ad_value = v, ad_deriv = (\<lambda>_. 0)\<rparr>"

definition setADValue :: "AutoDScalar \<Rightarrow> nat \<Rightarrow> real \<Rightarrow> AutoDScalar" where
  "setADValue a i v = a\<lparr>ad_deriv := (ad_deriv a)(i := v)\<rparr>"

definition getADValue :: "AutoDScalar \<Rightarrow> nat \<Rightarrow> real" where
  "getADValue a i = ad_deriv a i"

definition AD_minus :: "AutoDScalar \<Rightarrow> AutoDScalar \<Rightarrow> AutoDScalar" where
  "AD_minus a b = \<lparr>ad_value = ad_value a - ad_value b,
                   ad_deriv = (\<lambda>i. ad_deriv a i - ad_deriv b i)\<rparr>"

definition AD_plus :: "AutoDScalar \<Rightarrow> AutoDScalar \<Rightarrow> AutoDScalar" where
  "AD_plus a b = \<lparr>ad_value = ad_value a + ad_value b,
                  ad_deriv = (\<lambda>i. ad_deriv a i + ad_deriv b i)\<rparr>"

definition AD_scale :: "real \<Rightarrow> AutoDScalar \<Rightarrow> AutoDScalar" where
  "AD_scale c a = \<lparr>ad_value = c * ad_value a, ad_deriv = (\<lambda>i. c * ad_deriv a i)\<rparr>"

definition AD_times :: "AutoDScalar \<Rightarrow> real \<Rightarrow> AutoDScalar" where
  "AD_times a c = \<lparr>ad_value = ad_value a * c, ad_deriv = (\<lambda>i. ad_deriv a i * c)\<rparr>"

definition AD_divide :: "AutoDScalar \<Rightarrow> real \<Rightarrow> AutoDScalar" where
  "AD_divide a c = \<lparr>ad_value = ad_value a / c, ad_deriv = (\<lambda>i. ad_deriv a i / c)\<rparr>"

text \<open>\<open>OhmicContactBC::EBM3_Jacobian_Preprocess\<close>, first loop: the derivative of the
  electrode current with respect to the unknowns of every semiconductor node of the
  contact and of its neighbours, read from the rows of the electron and hole continuity
  equations and buffered in \<open>_buffer_cols\<close> and \<open>_buffer_jacobian_entries\<close>. The vectors
  \<open>JM\<close> and \<open>JN\<close> are created filled with zeros and keep them when no drive applies.
  \<open>get_region_fvm_node(n, SemiconductorRegion)\<close> asserts that the node has exactly one
  semiconductor pair.\<close>

definition ohmic_JM_entry :: "OhmicEnv \<Rightarrow> OhmicContactBC \<Rightarrow> real \<Rightarrow> real" where
  "ohmic_JM_entry env bc d =
     (let current_scale = z_width bc;
          R = ckt_R (ext_circuit bc);
          L = ckt_L (ext_circuit bc);
          dt' = dt (env_specify env)
      in if is_inter_connect_bc bc then R * d * current_scale
         else (let v1 = (if is_voltage_driven (ext_circuit bc)
                         then (L / dt' + R) * d * current_scale else 0)
               in if is_current_driven (ext_circuit bc) then d * current_scale else v1))"

definition get_region_fvm_node ::
  "OhmicBoundaryNode \<Rightarrow> SimulationRegionType \<Rightarrow> error + OhmicRegionNode" where
  "get_region_fvm_node nd t =
     (case filter (\<lambda>rn. region_type (orn_region rn) = t) (obn_region_node nd) of
        [rn] \<Rightarrow> Inr rn
      | _ \<Rightarrow> Inl AssertionFailure)"

definition ohmic_current_buffers ::
  "OhmicEnv \<Rightarrow> OhmicContactBC \<Rightarrow> Mat \<Rightarrow> OhmicRegionNode \<Rightarrow> (nat list \<times> real list) list" where
  "ohmic_current_buffers env bc jac rn =
     (let region = orn_region rn;
          n_node_var = ebm_n_variables region;
          node_n_offset = ebm_variable_offset region ELECTRON;
          node_p_offset = ebm_variable_offset region HOLE;
          go = global_offset (orn_fvm_node rn);
          row = map (\<lambda>nv. go + nv) [0..<n_node_var];
          JM = map (\<lambda>c. ohmic_JM_entry env bc
                            (jac (go + node_n_offset) c - jac (go + node_p_offset) c)) row
      in map (\<lambda>nb. (let col = map (\<lambda>i. global_offset (nb_fvm_node nb) + i) [0..<n_node_var];
                         JN = map (\<lambda>c. ohmic_JM_entry env bc
                                     (jac (go + node_n_offset) c - jac (go + node_p_offset) c))
                                col
                     in (col, JN)))
           (orn_neighbors rn)
         @ [(row, JM)])"

fun EBM3_Jacobian_Preprocess_currents ::
  "OhmicEnv \<Rightarrow> OhmicContactBC \<Rightarrow> Mat \<Rightarrow> OhmicBoundaryNode list
     \<Rightarrow> (nat list \<times> real list) list \<Rightarrow> error + (nat list \<times> real list) list"
where
  "EBM3_Jacobian_Preprocess_currents env bc jac [] buf = Inr buf"
| "EBM3_Jacobian_Preprocess_currents env bc jac (nd # nds) buf =
     (if \<not> obn_on_this_processor nd then EBM3_Jacobian_Preprocess_currents env bc jac nds buf
      else case get_region_fvm_node nd SemiconductorRegion of
             Inl err \<Rightarrow> Inl err
           | Inr rn \<Rightarrow>
               EBM3_Jacobian_Preprocess_currents env bc jac nds
                 (buf @ ohmic_current_buffers env bc jac rn))"

text \<open>Second loop: the rows to clear and to merge.\<close>

definition ohmic_jacobian_insulator_rows ::
  "OhmicRegionNode \<Rightarrow> OhmicRegionNode \<Rightarrow> row_buffers \<Rightarrow> row_buffers" where
  "ohmic_jacobian_insulator_rows first rn rows =
     (case rows of (src_row, dst_row, clear_row) \<Rightarrow>
        (let row = global_offset (orn_fvm_node rn)
         in if enable_Tl (orn_region rn)
            then (src_row @ [global_offset (orn_fvm_node rn)
                              + ebm_variable_offset (orn_region rn) TEMPERATURE],
                  dst_row @ [global_offset (orn_fvm_node first)
                              + ebm_variable_offset (orn_region first) TEMPERATURE],
                  clear_row @ [row + ebm_variable_offset (orn_region rn) POTENTIAL,
                               row + ebm_variable_offset (orn_region rn) TEMPERATURE])
            else (src_row, dst_row,
                  clear_row @ [row + ebm_variable_offset (orn_region rn) POTENTIAL])))"

fun EBM3_Jacobian_Preprocess_regions ::
  "OhmicRegionNode \<Rightarrow> OhmicRegionNode list \<Rightarrow> row_buffers \<Rightarrow> error + row_buffers"
where
  "EBM3_Jacobian_Preprocess_regions first [] rows = Inr rows"
| "EBM3_Jacobian_Preprocess_regions first (rn # rest) rows =
     (case region_type (orn_region rn) of
        SemiconductorRegion \<Rightarrow>
          (case rows of (src_row, dst_row, clear_row) \<Rightarrow>
             (let row = global_offset (orn_fvm_node rn)
              in EBM3_Jacobian_Preprocess_regions first rest
                   (src_row, dst_row,
                    clear_row
                      @ [row + ebm_variable_offset (orn_region rn) POTENTIAL,
                         row + ebm_variable_offset (orn_region rn) ELECTRON,
                         row + ebm_variable_offset (orn_region rn) HOLE]
                      @ (if enable_Tn (orn_region rn)
                         then [row + ebm_variable_offset (orn_region rn) E_TEMP] else [])
                      @ (if enable_Tp (orn_region rn)
                         then [row + ebm_variable_offset (orn_region rn) H_TEMP] else []))))
      | ElectrodeRegion \<Rightarrow>
          EBM3_Jacobian_Preprocess_regions first rest (ohmic_jacobian_insulator_rows first rn rows)
      | InsulatorRegion \<Rightarrow>
          EBM3_Jacobian_Preprocess_regions first rest (ohmic_jacobian_insulator_rows first rn rows)
      | VacuumRegion \<Rightarrow> EBM3_Jacobian_Preprocess_regions first rest rows
      | _ \<Rightarrow> Inl GeniusError)"

fun EBM3_Jacobian_Preprocess_rows ::
  "OhmicBoundaryNode list \<Rightarrow> row_buffers \<Rightarrow> error + row_buffers"
where
  "EBM3_Jacobian_Preprocess_rows [] rows = Inr rows"
| "EBM3_Jacobian_Preprocess_rows (nd # nds) rows =
     (if \<not> obn_on_this_processor nd then EBM3_Jacobian_Preprocess_rows nds rows
      else case obn_region_node nd of
             [] \<Rightarrow> EBM3_Jacobian_Preprocess_rows nds rows
           | first # rest \<Rightarrow>
               (case EBM3_Jacobian_Preprocess_regions first (first # rest) rows of
                  Inl err \<Rightarrow> Inl err
                | Inr rows' \<Rightarrow> EBM3_Jacobian_Preprocess_rows nds rows'))"

definition EBM3_Jacobian_Preprocess ::
  "OhmicEnv \<Rightarrow> OhmicContactBC \<Rightarrow> Mat \<Rightarrow> row_buffers
     \<Rightarrow> error + row_buffers \<times> (nat list \<times> real list) list" where
  "EBM3_Jacobian_Preprocess env bc jac rows =
     (case EBM3_Jacobian_Preprocess_currents env bc jac (ohmic_nodes bc) [] of
        Inl err \<Rightarrow> Inl err
      | Inr buf \<Rightarrow>
          (case EBM3_Jacobian_Preprocess_rows (ohmic_nodes bc) rows of
             Inl err \<Rightarrow> Inl err
           | Inr rows' \<Rightarrow> Inr (rows', buf)))"

text \<open>\<open>OhmicContactBC::EBM3_Jacobian\<close>. The derivatives of the governing equations of a
  semiconductor node go through the material library with automatic differentiation;
  they are the parameter \<open>semi_AD\<close>, which gives, for a node and the number of an
  equation (0 potential, 1 electrons, 2 holes, 3 lattice, 4 electron, 5 hole
  temperature), the derivative vector \<open>getADValue()\<close> that is added to the row of that
  equation at the columns of the node and of the electrode. The displacement current and
  the continuity equations of a conductor or insulator node are differentiated here. The
  semiconductor case asserts that it is the first pair and that the electrode has a local
  offset.\<close>

definition ohmic_dEdt_AD ::
  "SolverSpecify \<Rightarrow> AutoDScalar \<Rightarrow> AutoDScalar \<Rightarrow> FVM_NodeData \<Rightarrow> NeighborNode \<Rightarrow> AutoDScalar"
where
  "ohmic_dEdt_AD S V V_nb node_data nb =
     (if TS_type S = BDF2 \<and> BDF2_restart S = False
      then (let r = dt_last S / (dt_last S + dt S)
            in AD_divide
                 (AD_divide
                    (AD_plus
                       (AD_minus (AD_scale ((2 - r) / (1 - r)) (AD_minus V V_nb))
                          (AD_const (1.0 / (r * (1 - r))
                                       * (nd_psi node_data - nd_psi (nb_node_data nb)))))
                       (AD_const ((1 - r) / r
                                    * (nd_psi_last node_data - nd_psi_last (nb_node_data nb)))))
                    (nb_distance nb))
                 (dt_last S + dt S))
      else AD_divide
             (AD_divide
                (AD_minus (AD_minus V V_nb)
                   (AD_const (nd_psi node_data - nd_psi (nb_node_data nb))))
                (nb_distance nb))
             (dt S))"

definition ohmic_displacement_jacobian ::
  "OhmicEnv \<Rightarrow> OhmicContactBC \<Rightarrow> (nat \<Rightarrow> PetscScalar) \<Rightarrow> OhmicRegionNode \<Rightarrow> Mat \<Rightarrow> Mat" where
  "ohmic_displacement_jacobian env bc x rn jac =
     (if TimeDependent (env_specify env) = True
      then fold (\<lambda>nb jac'.
                   (let node_psi_offset = ebm_variable_offset (orn_region rn) POTENTIAL;
                        V = setADValue
                              (AD_const (x (local_offset (orn_fvm_node rn) + node_psi_offset)))
                              node_psi_offset 1.0;
                        V_nb = setADValue
                                 (AD_const (x (local_offset (nb_fvm_node nb) + 0))) 1 1.0;
                        dEdt = ohmic_dEdt_AD (env_specify env) V V_nb (orn_node_data rn) nb;
                        current_disp0 =
                          AD_times (AD_scale (nb_cv_surface_area nb * nd_eps (orn_node_data rn))
                                      dEdt)
                            (z_width bc);
                        current_disp1 =
                          (if is_inter_connect_bc bc
                           then AD_scale (ckt_R (ext_circuit bc)) current_disp0
                           else current_disp0);
                        current_disp =
                          (if is_voltage_driven (ext_circuit bc)
                           then AD_scale (ckt_L (ext_circuit bc) / dt (env_specify env)
                                            + ckt_R (ext_circuit bc)) current_disp1
                           else current_disp1);
                        jac1 = MatSetValue_ADD jac' (bc_global_offset bc)
                                 (global_offset (orn_fvm_node rn) + 0) (getADValue current_disp 0)
                    in MatSetValue_ADD jac1 (bc_global_offset bc)
                         (global_offset (nb_fvm_node nb) + 0) (getADValue current_disp 1)))
             (orn_neighbors rn) jac
      else jac)"

definition ohmic_semiconductor_jacobian ::
  "(OhmicRegionNode \<Rightarrow> nat \<Rightarrow> real list) \<Rightarrow> OhmicContactBC \<Rightarrow> OhmicBoundaryNode
     \<Rightarrow> OhmicRegionNode \<Rightarrow> Mat \<Rightarrow> Mat" where
  "ohmic_semiconductor_jacobian semi_AD bc nd rn jac =
     (let semi_region = orn_region rn;
          n_node_var = ebm_n_variables semi_region;
          go = global_offset (orn_fvm_node rn);
          row = (\<lambda>v. go + ebm_variable_offset semi_region v);
          col = map (\<lambda>nv. go + nv) [0..<n_node_var] @ [bc_global_offset bc];
          jac1 = MatSetValues_ADD_row jac (row POTENTIAL) col (semi_AD rn 0);
          jac2 = MatSetValues_ADD_row jac1 (row ELECTRON) col (semi_AD rn 1);
          jac3 = MatSetValues_ADD_row jac2 (row HOLE) col (semi_AD rn 2);
          jac4 = (if enable_Tl semi_region
                     \<and> (obn_node_on_boundary nd
                          \<or> list_ex (\<lambda>r. region_type (orn_region r) = VacuumRegion)
                               (obn_region_node nd))
                  then MatSetValues_ADD_row jac3 (row TEMPERATURE) col (semi_AD rn 3)
                  else jac3);
          jac5 = (if enable_Tn semi_region
                  then MatSetValues_ADD_row jac4 (row E_TEMP) col (semi_AD rn 4) else jac4);
          jac6 = (if enable_Tp semi_region
                  then MatSetValues_ADD_row jac5 (row H_TEMP) col (semi_AD rn 5) else jac5)
      in jac6)"

definition ohmic_insulator_jacobian ::
  "(nat \<Rightarrow> PetscScalar) \<Rightarrow> OhmicRegionNode \<Rightarrow> OhmicRegionNode \<Rightarrow> Mat \<Rightarrow> Mat" where
  "ohmic_insulator_jacobian x first rn jac =
     (let node_psi_offset = ebm_variable_offset (orn_region rn) POTENTIAL;
          node_Tl_offset = ebm_variable_offset (orn_region rn) TEMPERATURE;
          semiregion_node_psi_offset = ebm_variable_offset (orn_region first) POTENTIAL;
          semiregion_node_Tl_offset = ebm_variable_offset (orn_region first) TEMPERATURE;
          V = setADValue (AD_const (x (local_offset (orn_fvm_node rn) + node_psi_offset))) 0 1.0;
          V_semi = setADValue
                     (AD_const (x (local_offset (orn_fvm_node first)
                                     + semiregion_node_psi_offset))) 1 1.0;
          ff1 = AD_minus V V_semi;
          jac1 = MatSetValues_ADD_row jac (global_offset (orn_fvm_node rn) + node_psi_offset)
                   [global_offset (orn_fvm_node rn) + node_psi_offset,
                    global_offset (orn_fvm_node first) + semiregion_node_psi_offset]
                   [getADValue ff1 0, getADValue ff1 1]
      in if enable_Tl (orn_region rn)
         then (let T = setADValue
                         (AD_const (x (local_offset (orn_fvm_node rn) + node_Tl_offset))) 0 1.0;
                   T_semi = setADValue
                              (AD_const (x (local_offset (orn_fvm_node first)
                                              + semiregion_node_Tl_offset))) 1 1.0;
                   ff2 = AD_minus T T_semi
               in MatSetValues_ADD_row jac1 (global_offset (orn_fvm_node rn) + node_Tl_offset)
                    [global_offset (orn_fvm_node rn) + node_Tl_offset,
                     global_offset (orn_fvm_node first) + semiregion_node_Tl_offset]
                    [getADValue ff2 0, getADValue ff2 1])
         else jac1)"

fun EBM3_Jacobian_regions ::
  "OhmicEnv \<Rightarrow> (OhmicRegionNode \<Rightarrow> nat \<Rightarrow> real list) \<Rightarrow> OhmicContactBC \<Rightarrow> OhmicBoundaryNode
     \<Rightarrow> (nat \<Rightarrow> PetscScalar) \<Rightarrow> OhmicRegionNode \<Rightarrow> nat \<Rightarrow> OhmicRegionNode list \<Rightarrow> Mat
     \<Rightarrow> error + Mat"
where
  "EBM3_Jacobian_regions env semi_AD bc nd x first i [] jac = Inr jac"
| "EBM3_Jacobian_regions env semi_AD bc nd x first i (rn # rest) jac =
     (case region_type (orn_region rn) of
        SemiconductorRegion \<Rightarrow>
          if i \<noteq> 0 \<or> bc_local_offset bc = None then Inl AssertionFailure
          else EBM3_Jacobian_regions env semi_AD bc nd x first (Suc i) rest
                 (ohmic_displacement_jacobian env bc x rn
                    (ohmic_semiconductor_jacobian semi_AD bc nd rn jac))
      | ElectrodeRegion \<Rightarrow>
          EBM3_Jacobian_regions env semi_AD bc nd x first (Suc i) rest
            (ohmic_insulator_jacobian x first rn jac)
      | InsulatorRegion \<Rightarrow>
          EBM3_Jacobian_regions env semi_AD bc nd x first (Suc i) rest
            (ohmic_insulator_jacobian x first rn jac)
      | VacuumRegion \<Rightarrow> EBM3_Jacobian_regions env semi_AD bc nd x first (Suc i) rest jac
      | _ \<Rightarrow> Inl GeniusError)"

fun EBM3_Jacobian_nodes ::
  "OhmicEnv \<Rightarrow> (OhmicRegionNode \<Rightarrow> nat \<Rightarrow> real list) \<Rightarrow> OhmicContactBC
     \<Rightarrow> (nat \<Rightarrow> PetscScalar) \<Rightarrow> OhmicBoundaryNode list \<Rightarrow> Mat \<Rightarrow> error + Mat"
where
  "EBM3_Jacobian_nodes env semi_AD bc x [] jac = Inr jac"
| "EBM3_Jacobian_nodes env semi_AD bc x (nd # nds) jac =
     (if \<not> obn_on_this_processor nd then EBM3_Jacobian_nodes env semi_AD bc x nds jac
      else case obn_region_node nd of
             [] \<Rightarrow> EBM3_Jacobian_nodes env semi_AD bc x nds jac
           | first # rest \<Rightarrow>
               (case EBM3_Jacobian_regions env semi_AD bc nd x first 0 (first # rest) jac of
                  Inl err \<Rightarrow> Inl err
                | Inr jac' \<Rightarrow> EBM3_Jacobian_nodes env semi_AD bc x nds jac'))"

definition ohmic_circuit_jacobian :: "OhmicEnv \<Rightarrow> OhmicContactBC \<Rightarrow> Mat \<Rightarrow> Mat" where
  "ohmic_circuit_jacobian env bc jac =
     (let bc_global_offset' = bc_global_offset bc;
          R = ckt_R (ext_circuit bc);
          C = ckt_C (ext_circuit bc);
          L = ckt_L (ext_circuit bc);
          dt' = dt (env_specify env)
      in if env_is_last_processor env
         then (if is_inter_connect_bc bc
               then MatSetValue_ADD
                      (MatSetValue_ADD jac bc_global_offset' bc_global_offset' 1.0)
                      bc_global_offset' (inter_connect_hub_global_offset bc) (- 1.0)
               else if is_voltage_driven (ext_circuit bc)
                    then MatSetValue_ADD jac bc_global_offset' bc_global_offset'
                           (1 + (L / dt' + R) * C / dt')
                    else jac)
         else jac)"

definition EBM3_Jacobian ::
  "OhmicEnv \<Rightarrow> (OhmicRegionNode \<Rightarrow> nat \<Rightarrow> real list) \<Rightarrow> OhmicContactBC
     \<Rightarrow> (nat list \<times> real list) list \<Rightarrow> (nat \<Rightarrow> PetscScalar) \<Rightarrow> Mat \<Rightarrow> error + Mat" where
  "EBM3_Jacobian env semi_AD bc buffers x jac =
     (let jac1 = fold (\<lambda>(cols, entries) jac'.
                         MatSetValues_ADD_row jac' (bc_global_offset bc) cols entries)
                   buffers jac
      in case EBM3_Jacobian_nodes env semi_AD bc x (ohmic_nodes bc) jac1 of
           Inl err \<Rightarrow> Inl err
         | Inr jac2 \<Rightarrow> Inr (ohmic_circuit_jacobian env bc jac2))"

text \<open>The rows of the mesh nodes of the contact: every row that the assembly of the
  boundary writes for one of its nodes.\<close>

definition ohmic_node_rows :: "OhmicContactBC \<Rightarrow> nat list" where
  "ohmic_node_rows bc =
     concat (map (\<lambda>nd. concat (map (\<lambda>rn. map (\<lambda>v. global_offset (orn_fvm_node rn)
                                                   + ebm_variable_offset (orn_region rn) v)
                                          [POTENTIAL, ELECTRON, HOLE, TEMPERATURE, E_TEMP, H_TEMP])
                                 (obn_region_node nd)))
                 (ohmic_nodes bc))"

text \<open>A concrete contact for the scenarios: one semiconductor node (rows 0 to 2) with
  one neighbour (rows 3 to 5), the electrode at row 6, a steady-state solve on one rank,
  and a circuit that is a plain voltage source of 5 V or a plain current source.\<close>

definition example_node_data :: FVM_NodeData where
  "example_node_data =
     \<lparr>nd_psi = 0, nd_psi_last = 0, nd_eps = 1, nd_affinity = 0, nd_Net_doping = 0,
      band_nie = (\<lambda>p n T. 1), band_Nc = (\<lambda>T. 1), band_Nv = (\<lambda>T. 1), band_Eg = (\<lambda>T. 0)\<rparr>"

definition example_contact_node :: OhmicBoundaryNode where
  "example_contact_node =
     \<lparr>obn_on_this_processor = True, obn_node_on_boundary = False,
      obn_region_node =
        [\<lparr>orn_region = plain_region SemiconductorRegion, orn_Fermi = False,
          orn_fvm_node = node_at 0, orn_node_data = example_node_data,
          orn_outside_boundary_surface_area = 0,
          orn_neighbors = [\<lparr>nb_fvm_node = node_at 3, nb_node_data = example_node_data,
                            nb_distance = 1, nb_cv_surface_area = 1\<rparr>]\<rparr>]\<rparr>"

definition example_contact :: "ExternalCircuit \<Rightarrow> OhmicContactBC" where
  "example_contact ckt =
     \<lparr>ohmic_nodes = [example_contact_node], z_width = 1, Heat_Transfer = 0,
      bc_global_offset = 6, bc_local_offset = Some 6, ext_circuit = ckt,
      is_inter_connect_bc = False, inter_connect_hub_local_offset = 0,
      inter_connect_hub_global_offset = 0\<rparr>"

definition voltage_source_5V :: ExternalCircuit where
  "voltage_source_5V =
     \<lparr>ckt_R = 0, ckt_L = 0, ckt_C = 0, Vapp = 5, Iapp = 0, ckt_current = 0, cap_current = 0,
      ckt_potential = 0, is_voltage_driven = True, is_current_driven = False,
      current_itering = 0, potential_itering = 0\<rparr>"

definition current_source :: ExternalCircuit where
  "current_source =
     \<lparr>ckt_R = 0, ckt_L = 0, ckt_C = 0, Vapp = 0, Iapp = 1, ckt_current = 0, cap_current = 0,
      ckt_potential = 0, is_voltage_driven = False, is_current_driven = True,
      current_itering = 0, potential_itering = 0\<rparr>"

definition steady_env :: OhmicEnv where
  "steady_env =
     \<lparr>env_unit = unit_system, env_specify = default_specify, env_T_external = 300,
      env_fermi_half = (\<lambda>x. x), env_is_last_processor = True\<rparr>"

text \<open>The displacement currents of all semiconductor nodes of the contact on this
  processor, in the order of the node loop.\<close>

definition ohmic_all_displacement_currents ::
  "OhmicEnv \<Rightarrow> OhmicContactBC \<Rightarrow> (nat \<Rightarrow> PetscScalar) \<Rightarrow> real list" where
  "ohmic_all_displacement_currents env bc x =
     concat (map (\<lambda>nd. if \<not> obn_on_this_processor nd then []
                        else concat (map (\<lambda>rn.
                               if region_type (orn_region rn) = SemiconductorRegion
                               then ohmic_displacement_currents (env_specify env) x
                                      (x (local_offset (orn_fvm_node rn)
                                            + ebm_variable_offset (orn_region rn) POTENTIAL)) rn
                               else [])
                             (obn_region_node nd)))
                 (ohmic_nodes bc))"

text \<open>The rows of one (region, node) pair.\<close>

definition region_node_rows :: "OhmicRegionNode \<Rightarrow> nat set" where
  "region_node_rows rn =
     (\<lambda>v. global_offset (orn_fvm_node rn) + ebm_variable_offset (orn_region rn) v)
       ` {POTENTIAL, ELECTRON, HOLE, TEMPERATURE, E_TEMP, H_TEMP}"

text \<open>A stand-alone voltage-driven electrode without series resistance and
  inductance.\<close>

definition ideal_voltage_drive :: "OhmicContactBC \<Rightarrow> bool" where
  "ideal_voltage_drive bc \<longleftrightarrow>
     is_voltage_driven (ext_circuit bc) \<and> \<not> is_current_driven (ext_circuit bc)
     \<and> \<not> is_inter_connect_bc bc \<and> ckt_R (ext_circuit bc) = 0 \<and> ckt_L (ext_circuit bc) = 0"

text \<open>\<open>MatZeroEntries(J)\<close>, and derivative vectors with every entry 1 for the scenarios.\<close>

definition MatZeroEntries :: Mat where
  "MatZeroEntries = (\<lambda>_ _. 0)"

definition unit_AD :: "OhmicRegionNode \<Rightarrow> nat \<Rightarrow> real list" where
  "unit_AD rn k = replicate (ebm_n_variables (orn_region rn) + 1) 1"

text \<open>The boundary part of \<open>EBM3Solver::build_petsc_sens_residual\<close> (\<open>ebm3.cc\<close>) for
  one contact: preprocessing on the residual of the region pass, row surgery, assembly.\<close>

definition EBM3_boundary_residual ::
  "OhmicEnv \<Rightarrow> OhmicContactBC \<Rightarrow> (nat \<Rightarrow> PetscScalar) \<Rightarrow> Vec \<Rightarrow> error + Vec \<times> ExternalCircuit"
where
  "EBM3_boundary_residual env bc lxx r =
     (case EBM3_Function_Preprocess bc r ([], [], []) of
        Inl err \<Rightarrow> Inl err
      | Inr ((src_row, dst_row, clear_row), current_buffer) \<Rightarrow>
          EBM3_Function env bc current_buffer lxx (VecAddClearRow r src_row dst_row clear_row))"

text \<open>The rows that the preprocessing of the contact may name: the rows of the mesh nodes
  by the layout of their region, and the first three rows of every node, which the
  preprocessing addresses by number.\<close>

definition ohmic_contact_rows :: "OhmicContactBC \<Rightarrow> nat list" where
  "ohmic_contact_rows bc =
     ohmic_node_rows bc
     @ concat (map (\<lambda>nd. concat (map (\<lambda>rn. [global_offset (orn_fvm_node rn) + 0,
                                               global_offset (orn_fvm_node rn) + 1,
                                               global_offset (orn_fvm_node rn) + 2])
                                   (obn_region_node nd)))
                   (ohmic_nodes bc))"

text \<open>The current across the contact in the words of the spec, "the net conduction plus
  displacement current accumulated across the boundary", written as sums over the
  semiconductor nodes of the contact on this processor. The conduction current of a node
  is the electron current minus the hole current that the region pass left in the two
  continuity rows of the residual \<open>r\<close>; the displacement current of a node is, for every
  neighbour, the face area times the permittivity times the time derivative of the field
  along the edge, in a transient solve.\<close>

definition net_conduction_current :: "OhmicContactBC \<Rightarrow> Vec \<Rightarrow> real" where
  "net_conduction_current bc r =
     (\<Sum>nd\<leftarrow>ohmic_nodes bc.
        if obn_on_this_processor nd
        then (\<Sum>rn\<leftarrow>obn_region_node nd.
                if region_type (orn_region rn) = SemiconductorRegion
                then r (global_offset (orn_fvm_node rn) + 1)
                     - r (global_offset (orn_fvm_node rn) + 2)
                else 0)
        else 0)"

definition net_displacement_current ::
  "OhmicEnv \<Rightarrow> OhmicContactBC \<Rightarrow> (nat \<Rightarrow> PetscScalar) \<Rightarrow> real" where
  "net_displacement_current env bc x =
     (\<Sum>nd\<leftarrow>ohmic_nodes bc.
        if obn_on_this_processor nd
        then (\<Sum>rn\<leftarrow>obn_region_node nd.
                if region_type (orn_region rn) = SemiconductorRegion
                   \<and> TimeDependent (env_specify env)
                then (\<Sum>nb\<leftarrow>orn_neighbors rn.
                        nb_cv_surface_area nb * nd_eps (orn_node_data rn)
                        * (let S = env_specify env;
                               V = x (local_offset (orn_fvm_node rn)
                                        + ebm_variable_offset (orn_region rn) POTENTIAL);
                               V_nb = x (local_offset (nb_fvm_node nb) + 0);
                               psi = nd_psi (orn_node_data rn);
                               psi_nb = nd_psi (nb_node_data nb);
                               psi_last = nd_psi_last (orn_node_data rn);
                               psi_last_nb = nd_psi_last (nb_node_data nb)
                           in if TS_type S = BDF2 \<and> \<not> BDF2_restart S
                              then (let r = dt_last S / (dt_last S + dt S)
                                    in ((2 - r) / (1 - r) * (V - V_nb)
                                        - 1.0 / (r * (1 - r)) * (psi - psi_nb)
                                        + (1 - r) / r * (psi_last - psi_last_nb))
                                       / nb_distance nb / (dt_last S + dt S))
                              else ((V - V_nb) - (psi - psi_nb)) / nb_distance nb / dt S))
                else 0)
        else 0)"

text \<open>A first-order transient step on one rank, and a voltage source of 5 V behind a series
  resistance 2 and inductance 3 with a capacitance 5 to ground; in the previous step the
  current was 1, the capacitor current 4 and the electrode potential 6.\<close>

definition transient_env :: OhmicEnv where
  "transient_env = steady_env\<lparr>env_specify := transient_BDF1\<rparr>"

definition series_RLC_source :: ExternalCircuit where
  "series_RLC_source =
     \<lparr>ckt_R = 2, ckt_L = 3, ckt_C = 5, Vapp = 5, Iapp = 0, ckt_current = 1, cap_current = 4,
      ckt_potential = 6, is_voltage_driven = True, is_current_driven = False,
      current_itering = 0, potential_itering = 0\<rparr>"

section \<open>Semiconductor region, drift-diffusion level 1: the edge-wise fluxes\<close>

text \<open>\<open>SemiconductorSimulationRegion::DDM1_Function\<close> (\<open>ddm1_semiconductor.cc\<close>) first
  walks over the edges of the region, computes the Scharfetter-Gummel currents of every
  edge into two buffers and adds the flux of Poisson's equation to the two end nodes; then
  it walks over the cells and, for every edge of a cell, adds the electron and hole current
  through the part of the control-volume surface that lies in the cell. These two blocks
  are modelled. The generation terms that the cell loop adds after the currents
  (band-to-band tunnelling, impact ionization) and the loop over the nodes (charge,
  recombination, traps) are sources, not fluxes, and are not part of the model.

  A node of the region with what the flux blocks read from its data: the identifier of
  its mesh node, the node data, and the values \<open>Nc()\<close>, \<open>Nv()\<close>, \<open>mun()\<close>, \<open>mup()\<close> stored
  there. The discretised currents \<open>In_dd\<close>, \<open>Ip_dd\<close> and the function \<open>gamma_f\<close> come
  from \<open>mathfunc.h\<close>, which is not among the sources; they are parameters.\<close>

record DDM1_Node =
  ddm_fvm_node :: FVM_Node
  ddm_root_node_id :: nat
  ddm_node_data :: FVM_NodeData
  ddm_Nc :: real
  ddm_Nv :: real
  ddm_mun :: real
  ddm_mup :: real

record RegionEdge =
  edge_first :: DDM1_Node
  edge_second :: DDM1_Node
  edge_distance :: real
  edge_cv_surface_area :: real

record MathFunc =
  In_dd :: "real \<Rightarrow> real \<Rightarrow> real \<Rightarrow> real \<Rightarrow> real \<Rightarrow> real"
  Ip_dd :: "real \<Rightarrow> real \<Rightarrow> real \<Rightarrow> real \<Rightarrow> real \<Rightarrow> real"
  gamma_f :: "real \<Rightarrow> real"

text \<open>An edge of a cell: its two nodes in the orientation of the cell, the index of the
  edge in the region, and the geometry of the control-volume surface inside the cell. The
  high-field mobilities are evaluated by the material library from the fields in the
  cell; they are a parameter of the edge that depends on the unknowns.\<close>

record ElemEdge =
  ee_first :: DDM1_Node
  ee_second :: DDM1_Node
  ee_edge_index :: nat
  ee_partial_area :: real
  ee_highfield_mobility :: "(nat \<Rightarrow> PetscScalar) \<Rightarrow> (real \<times> real) \<times> (real \<times> real)"

record Elem =
  elem_edges :: "ElemEdge list"
  elem_on_boundary :: bool
  elem_on_interface :: bool

datatype VoronoiTruncationFlag =
  VoronoiTruncationAlways | VoronoiTruncationBoundary | VoronoiTruncationNo

record SemiconductorSimulationRegion =
  ssr_edges :: "RegionEdge list"
  ssr_elements :: "Elem list"
  ssr_Fermi :: bool
  ssr_highfield_mob :: bool
  ssr_T_external :: real
  ssr_VoronoiTruncation :: VoronoiTruncationFlag

text \<open>The body of the loop over the edges: the two currents along the edge and the
  entries of Poisson's equation. A ghost node receives no entry.\<close>

definition DDM1_Function_edge ::
  "PhysicalUnit \<Rightarrow> MathFunc \<Rightarrow> SemiconductorSimulationRegion \<Rightarrow> (nat \<Rightarrow> PetscScalar)
     \<Rightarrow> RegionEdge \<Rightarrow> (real \<times> real) \<times> (nat \<times> PetscScalar) list" where
  "DDM1_Function_edge U M region x edge =
     (let kb = PU_kb U;
          ee = PU_e U;
          T = ssr_T_external region;
          Vt = kb * T / ee;
          fvm_n1 = edge_first edge;
          fvm_n2 = edge_second edge;
          n1_data = ddm_node_data fvm_n1;
          n2_data = ddm_node_data fvm_n2;
          n1_local_offset = local_offset (ddm_fvm_node fvm_n1);
          n2_local_offset = local_offset (ddm_fvm_node fvm_n2);
          length = edge_distance edge;
          V1 = x (n1_local_offset + 0);
          n1 = x (n1_local_offset + 1);
          p1 = x (n1_local_offset + 2);
          Ec1 = - (ee * V1 + nd_affinity n1_data + kb * T * ln (band_nie n1_data p1 n1 T));
          Ev1 = - (ee * V1 + nd_affinity n1_data - kb * T * ln (band_nie n1_data p1 n1 T));
          Ec1' = (if ssr_Fermi region
                  then Ec1 - ee * Vt * ln (gamma_f M (\<bar>n1\<bar> / ddm_Nc fvm_n1)) else Ec1);
          Ev1' = (if ssr_Fermi region
                  then Ev1 + ee * Vt * ln (gamma_f M (\<bar>p1\<bar> / ddm_Nv fvm_n1)) else Ev1);
          eps1 = nd_eps n1_data;
          V2 = x (n2_local_offset + 0);
          n2 = x (n2_local_offset + 1);
          p2 = x (n2_local_offset + 2);
          Ec2 = - (ee * V2 + nd_affinity n2_data + kb * T * ln (band_nie n2_data p2 n2 T));
          Ev2 = - (ee * V2 + nd_affinity n2_data - kb * T * ln (band_nie n2_data p2 n2 T));
          Ec2' = (if ssr_Fermi region
                  then Ec2 - ee * Vt * ln (gamma_f M (\<bar>n2\<bar> / ddm_Nc fvm_n2)) else Ec2);
          Ev2' = (if ssr_Fermi region
                  then Ev2 + ee * Vt * ln (gamma_f M (\<bar>p2\<bar> / ddm_Nv fvm_n2)) else Ev2);
          eps2 = nd_eps n2_data;
          Jn_edge = In_dd M Vt ((Ec2' - Ec1') / ee) n1 n2 length;
          Jp_edge = Ip_dd M Vt ((Ev2' - Ev1') / ee) p1 p2 length;
          eps = 0.5 * (eps1 + eps2);
          f = eps * edge_cv_surface_area edge * (V2 - V1) / edge_distance edge
      in ((Jn_edge, Jp_edge),
          (if on_processor (ddm_fvm_node fvm_n1)
           then [(global_offset (ddm_fvm_node fvm_n1), f)] else [])
          @ (if on_processor (ddm_fvm_node fvm_n2)
             then [(global_offset (ddm_fvm_node fvm_n2), - f)] else [])))"

text \<open>The loop over the edges: the buffers \<open>Jn_edge_buffer\<close> and \<open>Jp_edge_buffer\<close> receive
  one value per edge, the buffer of entries grows by the entries of the edge.\<close>

definition DDM1_Function_edges ::
  "PhysicalUnit \<Rightarrow> MathFunc \<Rightarrow> SemiconductorSimulationRegion \<Rightarrow> (nat \<Rightarrow> PetscScalar)
     \<Rightarrow> (real list \<times> real list) \<times> (nat \<times> PetscScalar) list" where
  "DDM1_Function_edges U M region x =
     fold (\<lambda>edge acc.
             case acc of ((Jn_edge_buffer, Jp_edge_buffer), iy) \<Rightarrow>
               (case DDM1_Function_edge U M region x edge of
                  ((Jn_edge, Jp_edge), entries) \<Rightarrow>
                    ((Jn_edge_buffer @ [Jn_edge], Jp_edge_buffer @ [Jp_edge]), iy @ entries)))
          (ssr_edges region) (([], []), [])"

text \<open>The current block of the body of the loop over the edges of a cell. The buffered
  current of the edge is used with the sign of the orientation of the edge in the cell and
  multiplied by the mobility at the mid point; \<open>partial_area_with_edge_truncated\<close> is
  \<open>std::max(0.0, partial_area_with_edge)\<close> (\<open>elem.h\<close>).\<close>

definition DDM1_Function_elem_edge ::
  "SemiconductorSimulationRegion \<Rightarrow> real list \<times> real list \<Rightarrow> (nat \<Rightarrow> PetscScalar) \<Rightarrow> Elem
     \<Rightarrow> ElemEdge \<Rightarrow> (nat \<times> PetscScalar) list" where
  "DDM1_Function_elem_edge region buffers x elem edge =
     (case buffers of (Jn_edge_buffer, Jp_edge_buffer) \<Rightarrow>
       (let truncation =
              (ssr_VoronoiTruncation region = VoronoiTruncationAlways
               \<or> (ssr_VoronoiTruncation region = VoronoiTruncationBoundary
                   \<and> (elem_on_boundary elem \<or> elem_on_interface elem)));
            edge_index = ee_edge_index edge;
            partial_area = ee_partial_area edge;
            truncated_partial_area = (if truncation then max 0.0 partial_area else partial_area);
            fvm_n1 = ee_first edge;
            fvm_n2 = ee_second edge;
            inverse = (ddm_root_node_id fvm_n1 > ddm_root_node_id fvm_n2);
            n1_global_offset = global_offset (ddm_fvm_node fvm_n1);
            n2_global_offset = global_offset (ddm_fvm_node fvm_n2);
            mobilities = (if ssr_highfield_mob region then ee_highfield_mobility edge x
                          else ((ddm_mun fvm_n1, ddm_mup fvm_n1),
                                (ddm_mun fvm_n2, ddm_mup fvm_n2)));
            mun1 = fst (fst mobilities);
            mup1 = snd (fst mobilities);
            mun2 = fst (snd mobilities);
            mup2 = snd (snd mobilities);
            mun = 0.5 * (mun1 + mun2);
            mup = 0.5 * (mup1 + mup2);
            Jn = mun * (if inverse then - (Jn_edge_buffer ! edge_index)
                        else Jn_edge_buffer ! edge_index);
            Jp = mup * (if inverse then - (Jp_edge_buffer ! edge_index)
                        else Jp_edge_buffer ! edge_index)
        in (if on_processor (ddm_fvm_node fvm_n1)
            then [(n1_global_offset + 1, Jn * truncated_partial_area),
                  (n1_global_offset + 2, - Jp * truncated_partial_area)]
            else [])
           @ (if on_processor (ddm_fvm_node fvm_n2)
              then [(n2_global_offset + 1, - Jn * truncated_partial_area),
                    (n2_global_offset + 2, Jp * truncated_partial_area)]
              else [])))"

definition DDM1_Function_elements ::
  "SemiconductorSimulationRegion \<Rightarrow> real list \<times> real list \<Rightarrow> (nat \<Rightarrow> PetscScalar)
     \<Rightarrow> (nat \<times> PetscScalar) list \<Rightarrow> (nat \<times> PetscScalar) list" where
  "DDM1_Function_elements region buffers x iy =
     fold (\<lambda>elem iy'.
             fold (\<lambda>edge iy''. iy'' @ DDM1_Function_elem_edge region buffers x elem edge)
                  (elem_edges elem) iy')
          (ssr_elements region) iy"

text \<open>The flux entries of the region in the order in which the code pushes them, and the
  vector that \<open>VecSetValues\<close> with \<open>ADD_VALUES\<close> makes of them.\<close>

definition DDM1_Function_flux_entries ::
  "PhysicalUnit \<Rightarrow> MathFunc \<Rightarrow> SemiconductorSimulationRegion \<Rightarrow> (nat \<Rightarrow> PetscScalar)
     \<Rightarrow> (nat \<times> PetscScalar) list" where
  "DDM1_Function_flux_entries U M region x =
     (case DDM1_Function_edges U M region x of
        (buffers, iy) \<Rightarrow> DDM1_Function_elements region buffers x iy)"

definition DDM1_Function_flux ::
  "PhysicalUnit \<Rightarrow> MathFunc \<Rightarrow> SemiconductorSimulationRegion \<Rightarrow> (nat \<Rightarrow> PetscScalar) \<Rightarrow> Vec
     \<Rightarrow> Vec" where
  "DDM1_Function_flux U M region x f =
     VecSetValues_ADD f (DDM1_Function_flux_entries U M region x)"

text \<open>All end nodes of the edges of the region and of its cells belong to this
  processor.\<close>

definition all_nodes_on_processor :: "SemiconductorSimulationRegion \<Rightarrow> bool" where
  "all_nodes_on_processor region \<longleftrightarrow>
     list_all (\<lambda>edge. on_processor (ddm_fvm_node (edge_first edge))
                      \<and> on_processor (ddm_fvm_node (edge_second edge))) (ssr_edges region)
     \<and> list_all (\<lambda>elem. list_all (\<lambda>edge. on_processor (ddm_fvm_node (ee_first edge))
                                          \<and> on_processor (ddm_fvm_node (ee_second edge)))
                          (elem_edges elem)) (ssr_elements region)"

text \<open>Modelled from the spec: the discretised currents \<open>In_dd\<close>, \<open>Ip_dd\<close> of \<open>mathfunc.h\<close>
  are not among the sources. For the example mesh they are exponentially fitted currents
  built from the Bernoulli function, and \<open>gamma_f\<close> is constant.\<close>

definition bernoulli :: "real \<Rightarrow> real" where
  "bernoulli t = (if t = 0 then 1 else t / (exp t - 1))"

definition example_MathFunc :: MathFunc where
  "example_MathFunc =
     \<lparr>In_dd = (\<lambda>Vt dV n1 n2 h. Vt / h * (n2 * bernoulli (- dV / Vt) - n1 * bernoulli (dV / Vt))),
      Ip_dd = (\<lambda>Vt dV p1 p2 h. Vt / h * (p1 * bernoulli (- dV / Vt) - p2 * bernoulli (dV / Vt))),
      gamma_f = (\<lambda>t. 1)\<rparr>"

text \<open>A mesh of two nodes (rows 0 to 2 and rows 3 to 5), one edge and one cell that
  consists of this edge, all on this processor.\<close>

definition ddm1_node_at :: "nat \<Rightarrow> DDM1_Node" where
  "ddm1_node_at k =
     \<lparr>ddm_fvm_node = node_at k, ddm_root_node_id = k, ddm_node_data = example_node_data,
      ddm_Nc = 1, ddm_Nv = 1, ddm_mun = 1, ddm_mup = 1\<rparr>"

definition two_node_mesh :: SemiconductorSimulationRegion where
  "two_node_mesh =
     \<lparr>ssr_edges = [\<lparr>edge_first = ddm1_node_at 0, edge_second = ddm1_node_at 3,
                    edge_distance = 1, edge_cv_surface_area = 1\<rparr>],
      ssr_elements =
        [\<lparr>elem_edges = [\<lparr>ee_first = ddm1_node_at 0, ee_second = ddm1_node_at 3,
                         ee_edge_index = 0, ee_partial_area = 1,
                         ee_highfield_mobility = (\<lambda>x. ((1, 1), (1, 1)))\<rparr>],
          elem_on_boundary = True, elem_on_interface = False\<rparr>],
      ssr_Fermi = False, ssr_highfield_mob = False, ssr_T_external = 1,
      ssr_VoronoiTruncation = VoronoiTruncationAlways\<rparr>"

section \<open>Properties of the row surgery\<close>

lemma zero_rows_in: "c \<in> set rows \<Longrightarrow> zero_rows v rows c = 0"
  unfolding zero_rows_def
proof (induction rows arbitrary: v rule: rev_induct)
  case Nil
  then show ?case by simp
next
  case (snoc r rows)
  then show ?case by (cases "c = r") auto
qed

lemma zero_rows_out: "c \<notin> set rows \<Longrightarrow> zero_rows v rows c = v c"
  unfolding zero_rows_def
  by (induction rows arbitrary: v) auto

lemma add_pairs_src_unchanged:
  "s \<notin> snd ` set ps \<Longrightarrow> fold (\<lambda>(s, d) u. add_row_to_row u s d) ps v s = v s"
  by (induction ps arbitrary: v) (auto simp: add_row_to_row_def)

lemma add_pairs_merged:
  "fst ` set ps \<inter> snd ` set ps = {} \<Longrightarrow>
   fold (\<lambda>(s, d) u. add_row_to_row u s d) ps v d = v d + merged_into v ps d"
proof (induction ps arbitrary: v rule: rev_induct)
  case Nil
  then show ?case by (simp add: merged_into_def)
next
  case (snoc p ps)
  obtain s d' where p: "p = (s, d')" by (cases p)
  define u where "u = fold (\<lambda>(s, d) u. add_row_to_row u s d) ps v"
  from snoc.prems have disj: "fst ` set ps \<inter> snd ` set ps = {}" by auto
  from snoc.prems p have s_out: "s \<notin> snd ` set ps" by auto
  have src: "u s = v s"
    unfolding u_def using add_pairs_src_unchanged [OF s_out] .
  have ih: "u d = v d + merged_into v ps d"
    unfolding u_def using snoc.IH [OF disj] .
  have step: "fold (\<lambda>(s, d) u. add_row_to_row u s d) (ps @ [p]) v = add_row_to_row u s d'"
    by (simp add: u_def p)
  have m: "merged_into v (ps @ [p]) d = merged_into v ps d + (if d' = d then v s else 0)"
    by (simp add: merged_into_def p)
  show ?case
    unfolding step m using src ih by (auto simp: add_row_to_row_def)
qed

text \<open>C1 (row-surgery soundness, as amended). When no destination row is also a source
  row or a cleared row, every row that is neither a source nor cleared holds its original
  value plus the sum of the original source rows sent to it (for a destination that one
  pair alone targets: \<open>original[dst] + original[src]\<close>), and every cleared row is
  zero.\<close>

theorem row_surgery_sound:
  assumes "set src_row \<inter> set dst_row = {}"
    and "set dst_row \<inter> set clear_row = {}"
    and "length src_row = length dst_row"
  shows "(\<forall>d \<in> set dst_row.
            VecAddClearRow v src_row dst_row clear_row d
              = v d + merged_into v (zip src_row dst_row) d)
       \<and> (\<forall>c \<in> set clear_row. VecAddClearRow v src_row dst_row clear_row c = 0)"
proof -
  let ?ps = "zip src_row dst_row"
  have "fst ` set ?ps \<subseteq> set src_row" "snd ` set ?ps \<subseteq> set dst_row"
    by (auto dest: set_zip_leftD set_zip_rightD)
  with assms(1) have disj: "fst ` set ?ps \<inter> snd ` set ?ps = {}" by blast
  have dst: "VecAddClearRow v src_row dst_row clear_row d = v d + merged_into v ?ps d"
    if "d \<in> set dst_row" for d
  proof -
    from that assms(2) have "d \<notin> set clear_row" by blast
    then show ?thesis
      using add_pairs_merged [OF disj, of v d]
      by (simp add: VecAddClearRow_def VecAddRowToRow_def zero_rows_out)
  qed
  have clr: "VecAddClearRow v src_row dst_row clear_row c = 0" if "c \<in> set clear_row" for c
    using that by (simp add: VecAddClearRow_def zero_rows_in)
  show ?thesis using dst clr by blast
qed

theorem row_surgery_sound_witness:
  "VecAddClearRow (VecZeroEntries(0 := 1, 1 := 2, 3 := 4, 4 := 5)) [3, 4] [0, 1] [3, 4] 0 = 5
   \<and> VecAddClearRow (VecZeroEntries(0 := 1, 1 := 2, 3 := 4, 4 := 5)) [3, 4] [0, 1] [3, 4] 3 = 0"
  using row_surgery_sound [of "[3, 4]" "[0, 1]" "[3, 4]"
      "VecZeroEntries(0 := 1, 1 := 2, 3 := 4, 4 := 5)"]
  by (simp add: merged_into_def)

text \<open>Two source rows sent to one destination (three regions meeting at a node): the
  destination receives both, so it is not \<open>original[dst] + original[src]\<close> for either
  pair.\<close>

theorem row_surgery_shared_destination:
  "VecAddClearRow (VecZeroEntries(0 := 1, 1 := 1, 2 := 1)) [1, 2] [0, 0] [1, 2] 0 = 3
   \<and> (VecZeroEntries(0 := 1, 1 := 1, 2 := 1)) 0 + (VecZeroEntries(0 := 1, 1 := 1, 2 := 1)) 1 = 2"
  by (simp add: VecAddClearRow_def VecAddRowToRow_def zero_rows_def add_row_to_row_def
      VecZeroEntries_def)

section \<open>Properties of the homogeneous interface\<close>

lemma VecSetValues_ADD_row:
  "VecSetValues_ADD f iy k = f k + sum_list (map (\<lambda>(i, v). if i = k then v else 0) iy)"
  unfolding VecSetValues_ADD_def
  by (induction iy arbitrary: f) (auto simp: VecSetValue_ADD_def)

lemma two_semiconductor_regions_pairs:
  assumes "two_semiconductor_regions nd"
  obtains r0 r1 where "region_node nd = [(r0, reference_node nd), (r1, coupled_node nd)]"
    and "region_type r0 = SemiconductorRegion" and "region_type r1 = SemiconductorRegion"
proof -
  from assms have len: "length (region_node nd) = 2"
    by (simp add: two_semiconductor_regions_def)
  then obtain a b where ab: "region_node nd = [a, b]"
    by (cases "region_node nd"; cases "tl (region_node nd)") auto
  obtain r0 n0 where a: "a = (r0, n0)" by (cases a)
  obtain r1 n1 where b: "b = (r1, n1)" by (cases b)
  from assms ab a b have "region_type r0 = SemiconductorRegion"
    "region_type r1 = SemiconductorRegion"
    by (simp_all add: two_semiconductor_regions_def)
  moreover have "region_node nd = [(r0, reference_node nd), (r1, coupled_node nd)]"
    by (simp add: ab a b reference_node_def coupled_node_def)
  ultimately show thesis using that by blast
qed

lemma coupled_rows_append: "coupled_rows (a @ b) = coupled_rows a @ coupled_rows b"
  by (simp add: coupled_rows_def)

lemma reference_rows_append:
  "reference_rows (a @ b) = reference_rows a @ reference_rows b"
  by (simp add: reference_rows_def)

lemma coupling_entries_append:
  "coupling_entries x (a @ b) = coupling_entries x a @ coupling_entries x b"
  by (simp add: coupling_entries_def)

lemma interface_rows_append:
  "interface_rows (a @ b) = interface_rows a @ interface_rows b"
  by (simp add: interface_rows_def)

lemma local_interface_nodes_Cons:
  "local_interface_nodes (bc # bcs) = filter on_this_processor bc @ local_interface_nodes bcs"
  by (simp add: local_interface_nodes_def)

lemma Preprocess_node_two_semiconductor:
  assumes "on_this_processor nd \<longrightarrow> two_semiconductor_regions nd"
  shows "DDM1_Function_Preprocess_node nd (s, d, c)
           = Inr (s @ coupled_rows (filter on_this_processor [nd]),
                  d @ reference_rows (filter on_this_processor [nd]),
                  c @ coupled_rows (filter on_this_processor [nd]))"
proof (cases "on_this_processor nd")
  case False
  then show ?thesis
    by (simp add: DDM1_Function_Preprocess_node_def coupled_rows_def reference_rows_def)
next
  case True
  with assms have "two_semiconductor_regions nd" by simp
  then obtain r0 r1 where "region_node nd = [(r0, reference_node nd), (r1, coupled_node nd)]"
    and "region_type r0 = SemiconductorRegion" and "region_type r1 = SemiconductorRegion"
    by (rule two_semiconductor_regions_pairs)
  with True show ?thesis
    by (simp add: DDM1_Function_Preprocess_node_def coupled_rows_def reference_rows_def)
qed

lemma Preprocess_two_semiconductor:
  assumes "list_all two_semiconductor_regions (filter on_this_processor bc)"
  shows "DDM1_Function_Preprocess bc (s, d, c)
           = Inr (s @ coupled_rows (filter on_this_processor bc),
                  d @ reference_rows (filter on_this_processor bc),
                  c @ coupled_rows (filter on_this_processor bc))"
  using assms
proof (induction bc arbitrary: s d c)
  case Nil
  then show ?case by (simp add: coupled_rows_def reference_rows_def)
next
  case (Cons nd bc)
  from Cons.prems have here: "on_this_processor nd \<longrightarrow> two_semiconductor_regions nd"
    and rest: "list_all two_semiconductor_regions (filter on_this_processor bc)"
    by (auto split: if_splits)
  have split: "filter on_this_processor (nd # bc)
                 = filter on_this_processor [nd] @ filter on_this_processor bc"
    by simp
  show ?case
    unfolding split coupled_rows_append reference_rows_append
    by (simp add: Preprocess_node_two_semiconductor [OF here] Cons.IH [OF rest]
        del: filter.simps)
qed

lemma preprocess_each_bc_two_semiconductor:
  assumes "list_all two_semiconductor_regions (local_interface_nodes bcs)"
  shows "preprocess_each_bc bcs (s, d, c)
           = Inr (s @ coupled_rows (local_interface_nodes bcs),
                  d @ reference_rows (local_interface_nodes bcs),
                  c @ coupled_rows (local_interface_nodes bcs))"
  using assms
proof (induction bcs arbitrary: s d c)
  case Nil
  then show ?case
    by (simp add: local_interface_nodes_def coupled_rows_def reference_rows_def)
next
  case (Cons bc bcs)
  from Cons.prems have here: "list_all two_semiconductor_regions (filter on_this_processor bc)"
    and rest: "list_all two_semiconductor_regions (local_interface_nodes bcs)"
    by (simp_all add: local_interface_nodes_Cons)
  show ?case
    unfolding local_interface_nodes_Cons coupled_rows_append reference_rows_append
    by (simp add: Preprocess_two_semiconductor [OF here] Cons.IH [OF rest])
qed

lemma Function_node_two_semiconductor:
  assumes "on_this_processor nd \<longrightarrow> two_semiconductor_regions nd"
  shows "DDM1_Function_node x nd iy
           = Inr (iy @ coupling_entries x (filter on_this_processor [nd]))"
proof (cases "on_this_processor nd")
  case False
  then show ?thesis
    by (simp add: DDM1_Function_node_def coupling_entries_def)
next
  case True
  with assms have "two_semiconductor_regions nd" by simp
  then obtain r0 r1 where "region_node nd = [(r0, reference_node nd), (r1, coupled_node nd)]"
    and "region_type r0 = SemiconductorRegion" and "region_type r1 = SemiconductorRegion"
    by (rule two_semiconductor_regions_pairs)
  with True show ?thesis
    by (simp add: DDM1_Function_node_def coupling_entries_def Let_def)
qed

lemma Function_nodes_two_semiconductor:
  assumes "list_all two_semiconductor_regions (filter on_this_processor bc)"
  shows "DDM1_Function_nodes x bc iy
           = Inr (iy @ coupling_entries x (filter on_this_processor bc))"
  using assms
proof (induction bc arbitrary: iy)
  case Nil
  then show ?case by (simp add: coupling_entries_def)
next
  case (Cons nd bc)
  from Cons.prems have here: "on_this_processor nd \<longrightarrow> two_semiconductor_regions nd"
    and rest: "list_all two_semiconductor_regions (filter on_this_processor bc)"
    by (auto split: if_splits)
  have split: "filter on_this_processor (nd # bc)
                 = filter on_this_processor [nd] @ filter on_this_processor bc"
    by simp
  show ?case
    unfolding split coupling_entries_append
    by (simp add: Function_node_two_semiconductor [OF here] Cons.IH [OF rest]
        del: filter.simps)
qed

lemma VecSetValues_ADD_append:
  "VecSetValues_ADD (VecSetValues_ADD f a) b = VecSetValues_ADD f (a @ b)"
  by (simp add: VecSetValues_ADD_def)

lemma function_each_bc_two_semiconductor:
  assumes "list_all two_semiconductor_regions (local_interface_nodes bcs)"
  shows "function_each_bc bcs x f
           = Inr (VecSetValues_ADD f (coupling_entries x (local_interface_nodes bcs)))"
  using assms
proof (induction bcs arbitrary: f)
  case Nil
  then show ?case
    by (simp add: local_interface_nodes_def coupling_entries_def VecSetValues_ADD_def)
next
  case (Cons bc bcs)
  from Cons.prems have here: "list_all two_semiconductor_regions (filter on_this_processor bc)"
    and rest: "list_all two_semiconductor_regions (local_interface_nodes bcs)"
    by (simp_all add: local_interface_nodes_Cons)
  show ?case
    unfolding local_interface_nodes_Cons coupling_entries_append
    by (simp add: DDM1_Function_def Function_nodes_two_semiconductor [OF here]
        Cons.IH [OF rest] VecSetValues_ADD_append)
qed

lemma boundary_assembly_two_semiconductor:
  assumes "list_all two_semiconductor_regions (local_interface_nodes bcs)"
  shows "boundary_assembly bcs x r
           = Inr (VecSetValues_ADD
                    (VecAddClearRow r (coupled_rows (local_interface_nodes bcs))
                       (reference_rows (local_interface_nodes bcs))
                       (coupled_rows (local_interface_nodes bcs)))
                    (coupling_entries x (local_interface_nodes bcs)))"
  unfolding boundary_assembly_def
  using preprocess_each_bc_two_semiconductor [OF assms, of "[]" "[]" "[]"]
    function_each_bc_two_semiconductor [OF assms]
  by simp

lemma interface_rows_node:
  assumes "two_semiconductor_regions nd"
  shows "interface_rows [nd] = reference_rows [nd] @ coupled_rows [nd]"
proof -
  from assms obtain r0 r1 where
    "region_node nd = [(r0, reference_node nd), (r1, coupled_node nd)]"
    by (rule two_semiconductor_regions_pairs)
  then show ?thesis
    by (simp add: interface_rows_def reference_rows_def coupled_rows_def)
qed

lemma interface_rows_facts:
  assumes "list_all two_semiconductor_regions ns" and "distinct (interface_rows ns)"
  shows "distinct (coupled_rows ns) \<and> distinct (reference_rows ns)
       \<and> set (coupled_rows ns) \<inter> set (reference_rows ns) = {}
       \<and> set (interface_rows ns) = set (reference_rows ns) \<union> set (coupled_rows ns)"
  using assms
proof (induction ns)
  case Nil
  then show ?case by (simp add: interface_rows_def coupled_rows_def reference_rows_def)
next
  case (Cons a ns)
  from Cons.prems(1) have a: "two_semiconductor_regions a"
    and rest: "list_all two_semiconductor_regions ns" by simp_all
  have i: "interface_rows (a # ns) = (reference_rows [a] @ coupled_rows [a]) @ interface_rows ns"
    using interface_rows_append [of "[a]" ns] interface_rows_node [OF a] by simp
  have c: "coupled_rows (a # ns) = coupled_rows [a] @ coupled_rows ns"
    using coupled_rows_append [of "[a]" ns] by simp
  have d: "reference_rows (a # ns) = reference_rows [a] @ reference_rows ns"
    using reference_rows_append [of "[a]" ns] by simp
  from Cons.prems(2) have big:
    "distinct ((reference_rows [a] @ coupled_rows [a]) @ interface_rows ns)"
    unfolding i .
  then have dist: "distinct (interface_rows ns)"
    and here: "distinct (reference_rows [a] @ coupled_rows [a])"
    and apart: "set (reference_rows [a] @ coupled_rows [a]) \<inter> set (interface_rows ns) = {}"
    by (metis distinct_append)+
  from Cons.IH [OF rest dist] have ih1: "distinct (coupled_rows ns)"
    and ih2: "distinct (reference_rows ns)"
    and ih3: "set (coupled_rows ns) \<inter> set (reference_rows ns) = {}"
    and ih4: "set (interface_rows ns) = set (reference_rows ns) \<union> set (coupled_rows ns)"
    by simp_all
  from here have h1: "distinct (reference_rows [a])" and h2: "distinct (coupled_rows [a])"
    and h3: "set (reference_rows [a]) \<inter> set (coupled_rows [a]) = {}"
    by (metis distinct_append)+
  from apart ih4 have a1: "set (reference_rows [a]) \<inter> set (reference_rows ns) = {}"
    and a2: "set (reference_rows [a]) \<inter> set (coupled_rows ns) = {}"
    and a3: "set (coupled_rows [a]) \<inter> set (reference_rows ns) = {}"
    and a4: "set (coupled_rows [a]) \<inter> set (coupled_rows ns) = {}"
    by auto
  have "distinct (coupled_rows (a # ns))"
    unfolding c using h2 ih1 a4 by simp
  moreover have "distinct (reference_rows (a # ns))"
    unfolding d using h1 ih2 a1 by simp
  moreover have "set (coupled_rows (a # ns)) \<inter> set (reference_rows (a # ns)) = {}"
    unfolding c d using h3 ih3 a2 a3 by auto
  moreover have "set (interface_rows (a # ns))
                   = set (reference_rows (a # ns)) \<union> set (coupled_rows (a # ns))"
    unfolding i c d using ih4 by auto
  ultimately show ?case by blast
qed

lemma row_sum_other:
  "j \<notin> fst ` set iy \<Longrightarrow> sum_list (map (\<lambda>(i, v). if i = j then v else 0) iy) = (0::real)"
  by (induction iy) auto

lemma merged_into_other: "j \<notin> snd ` set ps \<Longrightarrow> merged_into v ps j = 0"
  unfolding merged_into_def by (induction ps) auto

lemma merged_into_append:
  "merged_into v (ps @ qs) j = merged_into v ps j + merged_into v qs j"
  by (simp add: merged_into_def)

lemma coupling_entries_rows: "fst ` set (coupling_entries x ns) = set (coupled_rows ns)"
  by (induction ns) (auto simp: coupling_entries_def coupled_rows_def)

lemma surgery_pairs_rows:
  "snd ` set (zip (coupled_rows ns) (reference_rows ns)) = set (reference_rows ns)"
  "fst ` set (zip (coupled_rows ns) (reference_rows ns)) = set (coupled_rows ns)"
  by (induction ns) (auto simp: coupled_rows_def reference_rows_def)

lemma coupling_entries_at:
  assumes "nd \<in> set ns" and "distinct (coupled_rows ns)" and "k < 3"
  shows "sum_list (map (\<lambda>(i, v). if i = global_offset (coupled_node nd) + k then v else 0)
                    (coupling_entries x ns))
           = x (local_offset (coupled_node nd) + k) - x (local_offset (reference_node nd) + k)"
  using assms(1,2)
proof (induction ns)
  case Nil
  then show ?case by simp
next
  case (Cons a ns)
  have c: "coupled_rows (a # ns) = coupled_rows [a] @ coupled_rows ns"
    using coupled_rows_append [of "[a]" ns] by simp
  have e: "coupling_entries x (a # ns) = coupling_entries x [a] @ coupling_entries x ns"
    using coupling_entries_append [of x "[a]" ns] by simp
  from Cons.prems(2) have dist: "distinct (coupled_rows ns)"
    and apart: "set (coupled_rows [a]) \<inter> set (coupled_rows ns) = {}"
    unfolding c by simp_all
  have mine: "global_offset (coupled_node m) + k \<in> set (coupled_rows [m])" for m
    using assms(3) by (auto simp: coupled_rows_def)
  show ?case
  proof (cases "nd = a")
    case True
    from apart mine [of a] have "global_offset (coupled_node a) + k
                                   \<notin> fst ` set (coupling_entries x ns)"
      unfolding coupling_entries_rows by blast
    then have tail: "sum_list (map (\<lambda>(i, v). if i = global_offset (coupled_node a) + k
                                              then v else 0) (coupling_entries x ns)) = 0"
      by (rule row_sum_other)
    have head: "sum_list (map (\<lambda>(i, v). if i = global_offset (coupled_node a) + k
                                         then v else 0) (coupling_entries x [a]))
                  = x (local_offset (coupled_node a) + k)
                    - x (local_offset (reference_node a) + k)"
      using assms(3) by (auto simp: coupling_entries_def less_Suc_eq numeral_3_eq_3)
    show ?thesis
      unfolding e True map_append sum_list_append head tail by simp
  next
    case False
    with Cons.prems(1) have in_ns: "nd \<in> set ns" by simp
    then have "set (coupled_rows [nd]) \<subseteq> set (coupled_rows ns)"
      by (auto simp: coupled_rows_def)
    with mine [of nd] apart have "global_offset (coupled_node nd) + k
                                    \<notin> fst ` set (coupling_entries x [a])"
      unfolding coupling_entries_rows by blast
    from row_sum_other [OF this] Cons.IH [OF in_ns dist] show ?thesis
      unfolding e by simp
  qed
qed

lemma surgery_pairs_at:
  assumes "nd \<in> set ns" and "distinct (reference_rows ns)" and "k < 3"
  shows "merged_into r (zip (coupled_rows ns) (reference_rows ns))
           (global_offset (reference_node nd) + k)
           = r (global_offset (coupled_node nd) + k)"
  using assms(1,2)
proof (induction ns)
  case Nil
  then show ?case by simp
next
  case (Cons a ns)
  have c: "coupled_rows (a # ns) = coupled_rows [a] @ coupled_rows ns"
    using coupled_rows_append [of "[a]" ns] by simp
  have d: "reference_rows (a # ns) = reference_rows [a] @ reference_rows ns"
    using reference_rows_append [of "[a]" ns] by simp
  have z: "zip (coupled_rows (a # ns)) (reference_rows (a # ns))
             = zip (coupled_rows [a]) (reference_rows [a])
               @ zip (coupled_rows ns) (reference_rows ns)"
    unfolding c d by (simp add: coupled_rows_def reference_rows_def)
  from Cons.prems(2) have dist: "distinct (reference_rows ns)"
    and apart: "set (reference_rows [a]) \<inter> set (reference_rows ns) = {}"
    unfolding d by simp_all
  have mine: "global_offset (reference_node m) + k \<in> set (reference_rows [m])" for m
    using assms(3) by (auto simp: reference_rows_def)
  show ?case
  proof (cases "nd = a")
    case True
    from apart mine [of a] have "global_offset (reference_node a) + k
                                   \<notin> snd ` set (zip (coupled_rows ns) (reference_rows ns))"
      unfolding surgery_pairs_rows by blast
    then have tail: "merged_into r (zip (coupled_rows ns) (reference_rows ns))
                       (global_offset (reference_node a) + k) = 0"
      by (rule merged_into_other)
    have head: "merged_into r (zip (coupled_rows [a]) (reference_rows [a]))
                  (global_offset (reference_node a) + k)
                  = r (global_offset (coupled_node a) + k)"
      using assms(3)
      by (auto simp: merged_into_def coupled_rows_def reference_rows_def less_Suc_eq
          numeral_3_eq_3)
    show ?thesis
      unfolding z True merged_into_append head tail by simp
  next
    case False
    with Cons.prems(1) have in_ns: "nd \<in> set ns" by simp
    then have "set (reference_rows [nd]) \<subseteq> set (reference_rows ns)"
      by (auto simp: reference_rows_def)
    with mine [of nd] apart have "global_offset (reference_node nd) + k
                                    \<notin> snd ` set (zip (coupled_rows [a]) (reference_rows [a]))"
      unfolding surgery_pairs_rows by blast
    from merged_into_other [OF this] Cons.IH [OF in_ns dist] show ?thesis
      unfolding z merged_into_append by simp
  qed
qed

text \<open>C2 (boundary equality, as amended). Let every node of this processor on the
  homogeneous interfaces be shared by two semiconductor regions, and let no two of the
  rows of these nodes coincide. Then boundary assembly succeeds, and at every such node
  each of the three rows of the second region holds "its unknown minus the reference
  region's unknown" (zero when the unknowns are equal), each row of the reference region
  holds the sum of the two regions' conservation equations, which the boundary assembly
  does not write, and every other row of the residual is as the region pass left it.\<close>

theorem homo_interface_coupling_rows:
  assumes "list_all two_semiconductor_regions (local_interface_nodes bcs)"
    and "distinct (interface_rows (local_interface_nodes bcs))"
  shows "\<exists>r'. boundary_assembly bcs x r = Inr r'
          \<and> (\<forall>nd \<in> set (local_interface_nodes bcs). \<forall>k<3.
                r' (global_offset (coupled_node nd) + k)
                  = x (local_offset (coupled_node nd) + k)
                    - x (local_offset (reference_node nd) + k)
                \<and> r' (global_offset (reference_node nd) + k)
                  = r (global_offset (reference_node nd) + k)
                    + r (global_offset (coupled_node nd) + k))
          \<and> (\<forall>j. j \<notin> set (interface_rows (local_interface_nodes bcs)) \<longrightarrow> r' j = r j)"
proof -
  define ns where "ns = local_interface_nodes bcs"
  define S where "S = coupled_rows ns"
  define D where "D = reference_rows ns"
  define E where "E = coupling_entries x ns"
  define r1 where "r1 = VecAddClearRow r S D S"
  from interface_rows_facts [OF assms] have dS: "distinct S" and dD: "distinct D"
    and SD: "set S \<inter> set D = {}"
    and rows: "set (interface_rows ns) = set D \<union> set S"
    unfolding ns_def S_def D_def by simp_all
  have res: "boundary_assembly bcs x r = Inr (VecSetValues_ADD r1 E)"
    unfolding r1_def S_def D_def E_def ns_def
    by (rule boundary_assembly_two_semiconductor [OF assms(1)])
  have disj: "fst ` set (zip S D) \<inter> snd ` set (zip S D) = {}"
    unfolding S_def D_def surgery_pairs_rows using SD unfolding S_def D_def .
  have r1_in: "r1 j = 0" if "j \<in> set S" for j
    using that by (simp add: r1_def VecAddClearRow_def zero_rows_in)
  have r1_out: "r1 j = r j + merged_into r (zip S D) j" if "j \<notin> set S" for j
    using that add_pairs_merged [OF disj, of r j]
    by (simp add: r1_def VecAddClearRow_def VecAddRowToRow_def zero_rows_out)
  have E_out: "sum_list (map (\<lambda>(i, v). if i = j then v else 0) E) = 0" if "j \<notin> set S" for j
    by (rule row_sum_other) (use that in \<open>simp add: E_def S_def coupling_entries_rows\<close>)
  have coupled: "VecSetValues_ADD r1 E (global_offset (coupled_node nd) + k)
                   = x (local_offset (coupled_node nd) + k)
                     - x (local_offset (reference_node nd) + k)"
    if "nd \<in> set ns" "k < 3" for nd k
  proof -
    from that have "global_offset (coupled_node nd) + k \<in> set S"
      by (auto simp: S_def coupled_rows_def less_Suc_eq numeral_3_eq_3)
    from r1_in [OF this] coupling_entries_at [OF that(1) dS [unfolded S_def] that(2), of x]
    show ?thesis by (simp add: VecSetValues_ADD_row E_def)
  qed
  have reference: "VecSetValues_ADD r1 E (global_offset (reference_node nd) + k)
                     = r (global_offset (reference_node nd) + k)
                       + r (global_offset (coupled_node nd) + k)"
    if "nd \<in> set ns" "k < 3" for nd k
  proof -
    from that have "global_offset (reference_node nd) + k \<in> set D"
      by (auto simp: D_def reference_rows_def less_Suc_eq numeral_3_eq_3)
    with SD have out: "global_offset (reference_node nd) + k \<notin> set S" by blast
    from r1_out [OF out] E_out [OF out]
      surgery_pairs_at [OF that(1) dD [unfolded D_def] that(2), of r]
    show ?thesis by (simp add: VecSetValues_ADD_row S_def D_def)
  qed
  have frame: "VecSetValues_ADD r1 E j = r j" if "j \<notin> set (interface_rows ns)" for j
  proof -
    from that rows have out: "j \<notin> set S" and "j \<notin> set D" by simp_all
    then have "j \<notin> snd ` set (zip S D)"
      unfolding S_def D_def surgery_pairs_rows by simp
    from r1_out [OF out] E_out [OF out] merged_into_other [OF this]
    show ?thesis by (simp add: VecSetValues_ADD_row)
  qed
  from res coupled reference frame show ?thesis
    unfolding ns_def by blast
qed

text \<open>An interface of two nodes. At the first the potentials are equal and the coupling
  row 3 is zero; at the second the potentials are 2 and 5, the coupling row 9 holds
  \<open>5 - 2\<close> and the reference row 6 the sum \<open>4 + 3\<close> of the two region equations; row 12
  belongs to no interface node and keeps its value.\<close>

theorem homo_interface_coupling_rows_witness:
  "projr (boundary_assembly [[two_region_node, far_region_node]]
            (VecZeroEntries(0 := 1, 3 := 1, 6 := 2, 9 := 5))
            (VecZeroEntries(6 := 4, 9 := 3, 12 := 8))) 3 = 0
   \<and> projr (boundary_assembly [[two_region_node, far_region_node]]
            (VecZeroEntries(0 := 1, 3 := 1, 6 := 2, 9 := 5))
            (VecZeroEntries(6 := 4, 9 := 3, 12 := 8))) 9 = 3
   \<and> projr (boundary_assembly [[two_region_node, far_region_node]]
            (VecZeroEntries(0 := 1, 3 := 1, 6 := 2, 9 := 5))
            (VecZeroEntries(6 := 4, 9 := 3, 12 := 8))) 6 = 7
   \<and> projr (boundary_assembly [[two_region_node, far_region_node]]
            (VecZeroEntries(0 := 1, 3 := 1, 6 := 2, 9 := 5))
            (VecZeroEntries(6 := 4, 9 := 3, 12 := 8))) 12 = 8"
proof -
  define x where "x = VecZeroEntries(0 := 1, 3 := 1, 6 := 2, 9 := (5::real))"
  define r where "r = VecZeroEntries(6 := 4, 9 := 3, 12 := (8::real))"
  have ns: "local_interface_nodes [[two_region_node, far_region_node]]
              = [two_region_node, far_region_node]"
    by (simp add: local_interface_nodes_def two_region_node_def far_region_node_def)
  have two: "list_all two_semiconductor_regions
               (local_interface_nodes [[two_region_node, far_region_node]])"
    unfolding ns
    by (simp add: two_semiconductor_regions_def two_region_node_def far_region_node_def
        plain_region_def)
  have rows: "interface_rows [two_region_node, far_region_node]
                = [0, 1, 2, 3, 4, 5, 6, 7, 8, 9, 10, 11]"
    by (simp add: interface_rows_def two_region_node_def far_region_node_def node_at_def)
  have dist: "distinct (interface_rows
                          (local_interface_nodes [[two_region_node, far_region_node]]))"
    unfolding ns rows by simp
  from homo_interface_coupling_rows [OF two dist, of x r]
  obtain r' where r': "boundary_assembly [[two_region_node, far_region_node]] x r = Inr r'"
    and v: "\<forall>nd \<in> set [two_region_node, far_region_node]. \<forall>k<3.
                r' (global_offset (coupled_node nd) + k)
                  = x (local_offset (coupled_node nd) + k)
                    - x (local_offset (reference_node nd) + k)
                \<and> r' (global_offset (reference_node nd) + k)
                  = r (global_offset (reference_node nd) + k)
                    + r (global_offset (coupled_node nd) + k)"
    and fr: "\<forall>j. j \<notin> set [0, 1, 2, 3, 4, 5, 6, 7, 8, 9, 10, 11::nat] \<longrightarrow> r' j = r j"
    unfolding ns rows by blast
  have c0: "coupled_node two_region_node = node_at 3"
    and c1: "coupled_node far_region_node = node_at 9"
    and f0: "reference_node two_region_node = node_at 0"
    and f1: "reference_node far_region_node = node_at 6"
    by (simp_all add: coupled_node_def reference_node_def two_region_node_def
        far_region_node_def)
  from v [rule_format, of two_region_node 0]
  have a: "r' (global_offset (coupled_node two_region_node) + 0)
             = x (local_offset (coupled_node two_region_node) + 0)
               - x (local_offset (reference_node two_region_node) + 0)"
    by simp
  from v [rule_format, of far_region_node 0]
  have b: "r' (global_offset (coupled_node far_region_node) + 0)
             = x (local_offset (coupled_node far_region_node) + 0)
               - x (local_offset (reference_node far_region_node) + 0)"
    and c: "r' (global_offset (reference_node far_region_node) + 0)
              = r (global_offset (reference_node far_region_node) + 0)
                + r (global_offset (coupled_node far_region_node) + 0)"
    by simp_all
  from fr have d: "r' 12 = r 12" by simp
  from a b c d have "r' 3 = 0" "r' 9 = 3" "r' 6 = 7" "r' 12 = 8"
    unfolding c0 c1 f0 f1 by (simp_all add: node_at_def x_def r_def VecZeroEntries_def)
  with r' show ?thesis unfolding x_def r_def by simp
qed

lemma two_region_assembly:
  "boundary_assembly [[two_region_node]] x r
     = Inr (VecSetValues_ADD (VecAddClearRow r [3, 4, 5] [0, 1, 2] [3, 4, 5])
              [(3, x 3 - x 0), (4, x 4 - x 1), (5, x 5 - x 2)])"
  by (simp add: boundary_assembly_def DDM1_Function_Preprocess_node_def DDM1_Function_def
      DDM1_Function_node_def two_region_node_def plain_region_def node_at_def Let_def
      numeral_2_eq_2)

text \<open>The two-region scenario with region-0 potential 1.0 and region-1 potential 0.3: the
  coupling row holds 0.3 - 1.0, not 1.0 - 0.3; and with equal unknowns the reference row
  holds the merged region equations (here 1 + 1), not zero.\<close>

theorem two_region_potential_scenario:
  "projr (boundary_assembly [[two_region_node]] (VecZeroEntries(0 := 1, 3 := 3 / 10))
            VecZeroEntries) 3 = - (7 / 10)
   \<and> projr (boundary_assembly [[two_region_node]] (VecZeroEntries(0 := 1, 3 := 3 / 10))
            VecZeroEntries) 3 \<noteq> 7 / 10
   \<and> projr (boundary_assembly [[two_region_node]] VecZeroEntries
            (VecZeroEntries(0 := 1, 3 := 1))) 0 = 2"
  unfolding two_region_assembly
  by (simp add: VecSetValues_ADD_def VecSetValue_ADD_def VecAddClearRow_def VecAddRowToRow_def
      zero_rows_def add_row_to_row_def VecZeroEntries_def)



















section \<open>Properties of the local truncation error\<close>

lemma zero_below_upd0: "zero_below n ll \<Longrightarrow> zero_below n (ll(k := 0))"
  by (simp add: zero_below_def)

lemma zero_below_div: "zero_below n ll \<Longrightarrow> zero_below n (ll(k := ll k / d))"
  by (auto simp: zero_below_def)

lemma zero_below_if:
  "zero_below n a \<Longrightarrow> zero_below n b \<Longrightarrow> zero_below n (if c then a else b)"
  by simp

lemma LTE_semiconductor_node_zero':
  "zero_below n ll \<Longrightarrow> zero_below n (LTE_semiconductor_node region er ea xx nd ll)"
  unfolding LTE_semiconductor_node_def Let_def
  by (intro zero_below_if zero_below_div zero_below_upd0)

lemma LTE_insulator_node_zero':
  "zero_below n ll \<Longrightarrow> zero_below n (LTE_insulator_node region er ea xx nd ll)"
  unfolding LTE_insulator_node_def Let_def
  by (intro zero_below_if zero_below_div zero_below_upd0)

lemma LTE_semiconductor_node_zero:
  "\<forall>i<n. ll i = 0 \<Longrightarrow> \<forall>i<n. LTE_semiconductor_node region er ea xx nd ll i = 0"
  using LTE_semiconductor_node_zero' unfolding zero_below_def .

lemma LTE_insulator_node_zero:
  "\<forall>i<n. ll i = 0 \<Longrightarrow> \<forall>i<n. LTE_insulator_node region er ea xx nd ll i = 0"
  using LTE_insulator_node_zero' unfolding zero_below_def .

lemma fold_zero:
  assumes "\<And>nd ll. \<forall>i<n. ll i = (0::real) \<Longrightarrow> \<forall>i<n. f nd ll i = 0"
  shows "\<forall>i<n. ll i = 0 \<Longrightarrow> \<forall>i<n. fold f nds ll i = 0"
  by (induction nds arbitrary: ll) (simp_all add: assms)

lemma LTE_regions_result:
  assumes "\<forall>region \<in> set rs. region_type region \<noteq> InvalidRegion"
  shows "\<exists>ll'. LTE_regions rs er ea xx (ll, N) = Inr (ll', N + LTE_count rs)
               \<and> ((\<forall>i<n. ll i = 0) \<longrightarrow> (\<forall>i<n. ll' i = 0))"
  using assms
proof (induction rs arbitrary: ll N)
  case Nil
  then show ?case by (simp add: LTE_count_def)
next
  case (Cons region rs)
  from Cons.prems have valid: "\<forall>region \<in> set rs. region_type region \<noteq> InvalidRegion"
    and ok: "region_type region \<noteq> InvalidRegion" by simp_all
  have cnt: "LTE_count (region # rs)
               = (if region_type region = VacuumRegion then 0
                  else (int (ebm_n_variables region) - 1) * int (n_on_processor_node region))
                 + LTE_count rs"
    by (simp add: LTE_count_def)
  have s: "(\<forall>i<n. ll i = 0) \<longrightarrow>
           (\<forall>i<n. fold (LTE_semiconductor_node region er ea xx) (on_processor_nodes region) ll i = 0)"
    using fold_zero [of n "LTE_semiconductor_node region er ea xx"] LTE_semiconductor_node_zero
    by blast
  have t: "(\<forall>i<n. ll i = 0) \<longrightarrow>
           (\<forall>i<n. fold (LTE_insulator_node region er ea xx) (on_processor_nodes region) ll i = 0)"
    using fold_zero [of n "LTE_insulator_node region er ea xx"] LTE_insulator_node_zero
    by blast
  show ?case
  proof (cases "region_type region")
    case SemiconductorRegion
    from Cons.IH [OF valid, of "fold (LTE_semiconductor_node region er ea xx)
        (on_processor_nodes region) ll"
        "N + (int (ebm_n_variables region) - 1) * int (n_on_processor_node region)"] s
    show ?thesis unfolding cnt by (auto simp: SemiconductorRegion add.assoc)
  next
    case InsulatorRegion
    from Cons.IH [OF valid, of "fold (LTE_insulator_node region er ea xx)
        (on_processor_nodes region) ll"
        "N + (int (ebm_n_variables region) - 1) * int (n_on_processor_node region)"] t
    show ?thesis unfolding cnt by (auto simp: InsulatorRegion add.assoc)
  next
    case ElectrodeRegion
    from Cons.IH [OF valid, of "fold (LTE_insulator_node region er ea xx)
        (on_processor_nodes region) ll"
        "N + (int (ebm_n_variables region) - 1) * int (n_on_processor_node region)"] t
    show ?thesis unfolding cnt by (auto simp: ElectrodeRegion add.assoc)
  next
    case MetalRegion
    from Cons.IH [OF valid, of "fold (LTE_insulator_node region er ea xx)
        (on_processor_nodes region) ll"
        "N + (int (ebm_n_variables region) - 1) * int (n_on_processor_node region)"] t
    show ?thesis unfolding cnt by (auto simp: MetalRegion add.assoc)
  next
    case VacuumRegion
    from Cons.IH [OF valid, of ll N]
    show ?thesis unfolding cnt by (auto simp: VacuumRegion)
  next
    case InvalidRegion
    with ok show ?thesis by simp
  qed
qed

lemma LTE_bcs_zero: "\<forall>i<n. ll i = 0 \<Longrightarrow> \<forall>i<n. LTE_bcs b offs ll i = 0"
proof -
  have "\<forall>i<n. ll i = 0 \<Longrightarrow>
        \<forall>i<n. fold (\<lambda>array_offset ll'. case array_offset of None \<Rightarrow> ll' | Some a \<Rightarrow> ll'(a := 0))
                 offs ll i = 0"
    by (induction offs arbitrary: ll) (auto split: option.splits)
  then show "\<forall>i<n. ll i = 0 \<Longrightarrow> \<forall>i<n. LTE_bcs b offs ll i = 0"
    by (simp add: LTE_bcs_def)
qed

lemma LTE_estimate_result:
  assumes "\<forall>region \<in> set (regions sys). region_type region \<noteq> InvalidRegion"
  shows "\<exists>ll'. LTE_estimate S sys b x x_n x_n1 x_n2 = Inr (ll', LTE_count (regions sys))
               \<and> ((\<forall>i<n. LTE_vector S x (LTE_predictor S x_n x_n1 x_n2) i = 0)
                    \<longrightarrow> (\<forall>i<n. ll' i = 0))"
proof -
  from LTE_regions_result [OF assms, of "TS_rtol S" "TS_atol S" x
      "LTE_vector S x (LTE_predictor S x_n x_n1 x_n2)" 0 n]
  obtain ll' where r: "LTE_regions (regions sys) (TS_rtol S) (TS_atol S) x
                         (LTE_vector S x (LTE_predictor S x_n x_n1 x_n2), 0)
                       = Inr (ll', LTE_count (regions sys))"
    and z: "(\<forall>i<n. LTE_vector S x (LTE_predictor S x_n x_n1 x_n2) i = 0) \<longrightarrow> (\<forall>i<n. ll' i = 0)"
    by auto
  show ?thesis
    using r z LTE_bcs_zero [of n ll' b "bcs_array_offset sys"]
    by (auto simp: LTE_estimate_def Let_def)
qed

text \<open>C10 (no error-carrying unknowns). When every region has a type the switch knows and the
  count \<open>N\<close> of error-carrying unknowns is zero, \<open>LTE_norm\<close> does not fail and returns
  exactly 1.0, whatever the vectors are.\<close>

theorem LTE_norm_no_unknowns:
  assumes "\<forall>region \<in> set (regions sys). region_type region \<noteq> InvalidRegion"
    and "LTE_count (regions sys) = 0"
  shows "LTE_estimate S sys is_last_processor x x_n x_n1 x_n2 \<noteq> Inl GeniusError
       \<and> LTE_norm S sys is_last_processor n_local_dofs x x_n x_n1 x_n2 = Inr 1"
  using LTE_estimate_result [OF assms(1), of S is_last_processor x x_n x_n1 x_n2 0] assms(2)
  by (auto simp: LTE_norm_def)

text \<open>An insulator region whose nodes carry the potential only: the count is zero and the
  norm is 1.0 although the corrector differs from the predictor.\<close>

theorem LTE_norm_no_unknowns_witness:
  "LTE_norm transient_BDF1 insulator_system True 1 (VecZeroEntries(0 := 2)) VecZeroEntries
     VecZeroEntries VecZeroEntries = Inr 1"
proof -
  have v: "\<forall>region \<in> set (regions insulator_system). region_type region \<noteq> InvalidRegion"
    by (simp add: insulator_system_def plain_region_def)
  have c: "LTE_count (regions insulator_system) = 0"
    by (simp add: insulator_system_def plain_region_def LTE_count_def)
  from LTE_norm_no_unknowns [OF v c] show ?thesis by blast
qed

lemma LTE_vector_zero:
  assumes "\<forall>i<n. x i = xp i"
  shows "\<forall>i<n. LTE_vector S x xp i = 0"
  using assms
  by (cases "TS_type S") (simp_all add: LTE_vector_def VecAXPY_def VecZeroEntries_def Let_def)

text \<open>C8 (LTE acceptance, as amended). When the corrector equals the extrapolated predictor on
  all \<open>n_local_dofs\<close> entries and at least one error-carrying unknown is counted, the
  norm is exactly 0.\<close>

theorem LTE_norm_predictor_equals_corrector:
  assumes "\<forall>region \<in> set (regions sys). region_type region \<noteq> InvalidRegion"
    and "0 < LTE_count (regions sys)"
    and "\<forall>i<n_local_dofs. x i = LTE_predictor S x_n x_n1 x_n2 i"
  shows "LTE_norm S sys is_last_processor n_local_dofs x x_n x_n1 x_n2 = Inr 0"
proof -
  from LTE_estimate_result [OF assms(1), of S is_last_processor x x_n x_n1 x_n2 n_local_dofs]
    LTE_vector_zero [OF assms(3)]
  obtain ll' where r: "LTE_estimate S sys is_last_processor x x_n x_n1 x_n2
                         = Inr (ll', LTE_count (regions sys))"
    and z: "\<forall>i<n_local_dofs. ll' i = 0"
    by blast
  from z have "VecNorm_2 n_local_dofs ll' = 0" by (simp add: VecNorm_2_def)
  with r assms(2) show ?thesis by (simp add: LTE_norm_def)
qed

text \<open>A semiconductor node whose electron density moved from 1 to 2 in the last step and is 3
  now: the first-order predictor with equal steps gives 3 as well.\<close>

theorem LTE_norm_predictor_equals_corrector_witness:
  "LTE_norm transient_BDF1 semiconductor_system True 4 (VecZeroEntries(1 := 3))
     (VecZeroEntries(1 := 2)) (VecZeroEntries(1 := 1)) VecZeroEntries = Inr 0"
proof -
  have v: "\<forall>region \<in> set (regions semiconductor_system). region_type region \<noteq> InvalidRegion"
    by (simp add: semiconductor_system_def plain_region_def)
  have c: "0 < LTE_count (regions semiconductor_system)"
    by (simp add: semiconductor_system_def plain_region_def LTE_count_def
        n_on_processor_node_def)
  have p: "\<forall>i<4. (VecZeroEntries(1 := 3)) i
             = LTE_predictor transient_BDF1 (VecZeroEntries(1 := 2)) (VecZeroEntries(1 := 1))
                 VecZeroEntries i"
    by (simp add: LTE_predictor_def transient_BDF1_def VecAXPY_def VecZeroEntries_def)
  from LTE_norm_predictor_equals_corrector [OF v c p] show ?thesis .
qed

text \<open>Predictor and corrector are equal (all zero) in a system without error-carrying
  unknowns: the norm is 1.0, not 0.\<close>

theorem LTE_norm_is_one_without_unknowns:
  "LTE_norm transient_BDF1 insulator_system True 1 VecZeroEntries VecZeroEntries
     VecZeroEntries VecZeroEntries = Inr 1
   \<and> LTE_predictor transient_BDF1 VecZeroEntries VecZeroEntries VecZeroEntries 0
       = VecZeroEntries 0"
  by (simp add: LTE_norm_def LTE_estimate_def LTE_predictor_def LTE_vector_def
      transient_BDF1_def insulator_system_def plain_region_def VecAXPY_def VecZeroEntries_def
      n_on_processor_node_def LTE_bcs_def Let_def)

section \<open>Properties of the positive-density projection\<close>

lemma raise_to_ge: "x k \<le> raise_to ic x k"
  by (cases ic) (auto simp: raise_to_def)

lemma fold_raise_to_ge: "x k \<le> fold raise_to ops x k"
proof (induction ops arbitrary: x)
  case Nil
  then show ?case by simp
next
  case (Cons ic ops)
  have "x k \<le> raise_to ic x k" by (rule raise_to_ge)
  also have "\<dots> \<le> fold raise_to ops (raise_to ic x) k" by (rule Cons.IH)
  finally show ?case by simp
qed

lemma fold_raise_to_floor: "(i, c) \<in> set ops \<Longrightarrow> c \<le> fold raise_to ops x i"
proof (induction ops arbitrary: x)
  case Nil
  then show ?case by simp
next
  case (Cons ic ops)
  show ?case
  proof (cases "(i, c) = ic")
    case True
    then have "c \<le> raise_to ic x i" by (auto simp: raise_to_def)
    also have "\<dots> \<le> fold raise_to ops (raise_to ic x) i" by (rule fold_raise_to_ge)
    finally show ?thesis by simp
  next
    case False
    with Cons.prems have "(i, c) \<in> set ops" by auto
    from Cons.IH [OF this] show ?thesis by simp
  qed
qed

lemma fold_raise_to_fixed: "\<forall>(i, c) \<in> set ops. c \<le> x i \<Longrightarrow> fold raise_to ops x = x"
proof (induction ops)
  case Nil
  then show ?case by simp
next
  case (Cons ic ops)
  then have "raise_to ic x = x" by (cases ic) (auto simp: raise_to_def)
  with Cons show ?case by simp
qed

lemma fold_raise_to_idem: "fold raise_to ops (fold raise_to ops x) = fold raise_to ops x"
  by (rule fold_raise_to_fixed) (auto intro: fold_raise_to_floor)

lemma projection_node_as_floors:
  assumes "\<not> enable_Tn region" and "\<not> enable_Tp region"
  shows "projection_node U T_ext region oo fvm_node xx
           = fold raise_to (projection_node_floors U T_ext region fvm_node) xx"
  using assms
  by (simp add: projection_node_def projection_node_floors_def raise_to_def Let_def)

lemma fold_fold_concat:
  "fold (\<lambda>a. fold f (g a)) as x = fold f (concat (map g as)) x"
  by (induction as arbitrary: x) simp_all

lemma projection_region_as_floors:
  assumes "region_type region = SemiconductorRegion \<longrightarrow> \<not> enable_Tn region \<and> \<not> enable_Tp region"
  shows "projection_region U T_ext oo region xx
           = fold raise_to (projection_region_floors U T_ext region) xx"
proof (cases "region_type region = SemiconductorRegion")
  case True
  with assms have "projection_node U T_ext region oo
                     = (\<lambda>a. fold raise_to (projection_node_floors U T_ext region a))"
    by (auto simp: fun_eq_iff projection_node_as_floors)
  with True show ?thesis
    by (simp add: projection_region_def projection_region_floors_def fold_fold_concat)
next
  case False
  then show ?thesis by (simp add: projection_region_def projection_region_floors_def)
qed

lemma projection_as_floors:
  assumes "\<forall>region \<in> set rs. region_type region = SemiconductorRegion
             \<longrightarrow> \<not> enable_Tn region \<and> \<not> enable_Tp region"
  shows "fold (projection_region U T_ext oo) rs xx
           = fold raise_to (concat (map (projection_region_floors U T_ext) rs)) xx"
  using assms
proof (induction rs arbitrary: xx)
  case Nil
  then show ?case by simp
next
  case (Cons region rs)
  then show ?case by (simp add: projection_region_as_floors)
qed

text \<open>C7 (projection idempotence, as amended). When no semiconductor region has the electron
  or the hole temperature switched on, projecting twice against the same previous iterate
  gives the same vector as projecting once.\<close>

theorem projection_idempotent:
  assumes "\<forall>region \<in> set (regions sys). region_type region = SemiconductorRegion
             \<longrightarrow> \<not> enable_Tn region \<and> \<not> enable_Tp region"
  shows "projection_positive_density_check U sys
           (projection_positive_density_check U sys x xo) xo
         = projection_positive_density_check U sys x xo"
  unfolding projection_positive_density_check_def projection_as_floors [OF assms]
  by (rule fold_raise_to_idem)

text \<open>A node with a negative electron density and a lattice temperature below the bound: one
  projection raises them to the floors, and a second one changes nothing.\<close>

theorem projection_idempotent_witness:
  "projection_positive_density_check unit_system lattice_only_system
     (projection_positive_density_check unit_system lattice_only_system
        (VecZeroEntries(1 := - 5, 2 := 7, 3 := 100)) VecZeroEntries) VecZeroEntries
   = projection_positive_density_check unit_system lattice_only_system
        (VecZeroEntries(1 := - 5, 2 := 7, 3 := 100)) VecZeroEntries
   \<and> projection_positive_density_check unit_system lattice_only_system
        (VecZeroEntries(1 := - 5, 2 := 7, 3 := 100)) VecZeroEntries 1 = 1
   \<and> projection_positive_density_check unit_system lattice_only_system
        (VecZeroEntries(1 := - 5, 2 := 7, 3 := 100)) VecZeroEntries 3 = 250"
proof -
  have h: "\<forall>region \<in> set (regions lattice_only_system).
             region_type region = SemiconductorRegion
             \<longrightarrow> \<not> enable_Tn region \<and> \<not> enable_Tp region"
    by (simp add: lattice_only_system_def plain_region_def)
  have v1: "projection_positive_density_check unit_system lattice_only_system
             (VecZeroEntries(1 := - 5, 2 := 7, 3 := 100)) VecZeroEntries 1 = 1"
    by code_simp
  have v3: "projection_positive_density_check unit_system lattice_only_system
             (VecZeroEntries(1 := - 5, 2 := 7, 3 := 100)) VecZeroEntries 3 = 250"
    by code_simp
  from projection_idempotent [OF h] v1 v3 show ?thesis by simp
qed

text \<open>With the electron temperature switched on the entry \<open>n*Tn\<close> is recomputed from the
  previous iterate and the entry itself: the electron density doubled, the first
  projection writes 1400, the second 2200.\<close>

theorem projection_not_idempotent_with_carrier_temperature:
  "projection_positive_density_check unit_system energy_balance_system
     (VecZeroEntries(1 := 2, 2 := 1, 3 := 300, 4 := 1000, 5 := 300))
     (VecZeroEntries(1 := 1, 2 := 1, 3 := 300, 4 := 300, 5 := 300)) 4 = 1400
   \<and> projection_positive_density_check unit_system energy_balance_system
       (projection_positive_density_check unit_system energy_balance_system
          (VecZeroEntries(1 := 2, 2 := 1, 3 := 300, 4 := 1000, 5 := 300))
          (VecZeroEntries(1 := 1, 2 := 1, 3 := 300, 4 := 300, 5 := 300)))
       (VecZeroEntries(1 := 1, 2 := 1, 3 := 300, 4 := 300, 5 := 300)) 4 = 2200"
  by code_simp

section \<open>Properties of the potential damping\<close>

lemma damping_find_node_fst:
  "fst (damping_find_node U T_ext region xx yy fvm_node (d, w))
     = max \<bar>yy (local_offset fvm_node + ebm_variable_offset region POTENTIAL)\<bar> d"
  by (simp add: damping_find_node_def Let_def max_def)

lemma damping_find_nodes_fst:
  "fst (fold (damping_find_node U T_ext region xx yy) nds acc)
     = fold max (map (\<lambda>fvm_node. \<bar>yy (local_offset fvm_node
                                         + ebm_variable_offset region POTENTIAL)\<bar>) nds)
         (fst acc)"
proof (induction nds arbitrary: acc)
  case Nil
  then show ?case by simp
next
  case (Cons nd nds)
  obtain d w where acc: "acc = (d, w)" by (cases acc)
  show ?case
    unfolding acc using Cons.IH [of "damping_find_node U T_ext region xx yy nd (d, w)"]
    by (simp add: damping_find_node_fst)
qed

lemma damping_find_regions_fst:
  "fst (fold (\<lambda>region acc.
               if region_type region \<noteq> SemiconductorRegion then acc
               else fold (damping_find_node U T_ext region xx yy)
                      (on_processor_nodes region) acc) rs acc)
     = fold max (map (\<lambda>k. \<bar>yy k\<bar>) (semiconductor_psi_slots rs)) (fst acc)"
proof (induction rs arbitrary: acc)
  case Nil
  then show ?case by (simp add: semiconductor_psi_slots_def)
next
  case (Cons region rs)
  have split: "semiconductor_psi_slots (region # rs)
                 = (if region_type region \<noteq> SemiconductorRegion then []
                    else map (\<lambda>fvm_node. local_offset fvm_node
                                + ebm_variable_offset region POTENTIAL)
                           (on_processor_nodes region))
                   @ semiconductor_psi_slots rs"
    by (simp add: semiconductor_psi_slots_def)
  show ?case
    unfolding split
    by (simp add: Cons.IH damping_find_nodes_fst comp_def)
qed

lemma damping_find_fst:
  "fst (damping_find U sys xx yy ww)
     = Max (set (0 # map (\<lambda>k. \<bar>yy k\<bar>) (semiconductor_psi_slots (regions sys))))"
  unfolding damping_find_def damping_find_regions_fst
  by (simp only: Max.set_eq_fold fst_conv) simp

lemma fold_write_in:
  "k \<in> set ks \<Longrightarrow> fold (\<lambda>j w. w(j := g j)) ks w k = g k"
  by (induction ks arbitrary: w rule: rev_induct) auto

lemma fold_write_cases:
  "fold (\<lambda>j w. w(j := g j)) ks w k = g k \<or> fold (\<lambda>j w. w(j := g j)) ks w k = w k"
  by (induction ks arbitrary: w rule: rev_induct) auto

lemma damping_apply_regions_flat:
  "damping_apply_regions f rs xx yy ww
     = fold (\<lambda>j w. w(j := xx j - f * yy j)) (semiconductor_psi_slots rs) ww"
proof (induction rs arbitrary: ww)
  case Nil
  then show ?case by (simp add: damping_apply_regions_def semiconductor_psi_slots_def)
next
  case (Cons region rs)
  have nodes: "fold (\<lambda>fvm_node ww''.
                  ww''(local_offset fvm_node + ebm_variable_offset region POTENTIAL :=
                         xx (local_offset fvm_node + ebm_variable_offset region POTENTIAL)
                         - f * yy (local_offset fvm_node + ebm_variable_offset region POTENTIAL)))
                 nds w
               = fold (\<lambda>j w. w(j := xx j - f * yy j))
                   (map (\<lambda>fvm_node. local_offset fvm_node
                           + ebm_variable_offset region POTENTIAL) nds) w" for nds w
    by (induction nds arbitrary: w) simp_all
  have split: "semiconductor_psi_slots (region # rs)
                 = (if region_type region \<noteq> SemiconductorRegion then []
                    else map (\<lambda>fvm_node. local_offset fvm_node
                                + ebm_variable_offset region POTENTIAL)
                           (on_processor_nodes region))
                   @ semiconductor_psi_slots rs"
    by (simp add: semiconductor_psi_slots_def)
  have step: "damping_apply_regions f (region # rs) xx yy ww
                = damping_apply_regions f rs xx yy
                    (if region_type region \<noteq> SemiconductorRegion then ww
                     else fold (\<lambda>fvm_node ww''.
                            ww''(local_offset fvm_node + ebm_variable_offset region POTENTIAL :=
                              xx (local_offset fvm_node + ebm_variable_offset region POTENTIAL)
                              - f * yy (local_offset fvm_node
                                          + ebm_variable_offset region POTENTIAL)))
                           (on_processor_nodes region) ww)"
    by (simp add: damping_apply_regions_def Let_def)
  define g where "g = (\<lambda>j (w::nat \<Rightarrow> real). w(j := xx j - f * yy j))"
  define first where "first = (if region_type region \<noteq> SemiconductorRegion then []
                    else map (\<lambda>fvm_node. local_offset fvm_node
                                + ebm_variable_offset region POTENTIAL)
                           (on_processor_nodes region))"
  have W: "(if region_type region \<noteq> SemiconductorRegion then ww
            else fold (\<lambda>fvm_node ww''.
                   ww''(local_offset fvm_node + ebm_variable_offset region POTENTIAL :=
                     xx (local_offset fvm_node + ebm_variable_offset region POTENTIAL)
                     - f * yy (local_offset fvm_node
                                 + ebm_variable_offset region POTENTIAL)))
                  (on_processor_nodes region) ww)
           = fold g first ww"
    unfolding first_def g_def nodes by (cases "region_type region \<noteq> SemiconductorRegion") simp_all
  have "damping_apply_regions f (region # rs) xx yy ww = fold g (semiconductor_psi_slots rs) (fold g first ww)"
    unfolding step W Cons.IH g_def ..
  also have "\<dots> = fold g (semiconductor_psi_slots (region # rs)) ww"
    unfolding split first_def [symmetric] by simp
  finally show ?case unfolding g_def .
qed

lemma damping_apply_bcs_in:
  "Some a \<in> set offs \<Longrightarrow> damping_apply_bcs f offs xx yy ww a = xx a - f * yy a"
  unfolding damping_apply_bcs_def
  by (induction offs arbitrary: ww rule: rev_induct) (auto split: option.splits)

lemma damping_apply_bcs_cases:
  "damping_apply_bcs f offs xx yy ww k = xx k - f * yy k
   \<or> damping_apply_bcs f offs xx yy ww k = ww k"
  unfolding damping_apply_bcs_def
  by (induction offs arbitrary: ww rule: rev_induct) (auto split: option.splits)

lemma damping_find_node_snd_other:
  assumes "k \<notin> set ([local_offset fvm_node + ebm_variable_offset region ELECTRON,
                       local_offset fvm_node + ebm_variable_offset region HOLE]
                      @ (if enable_Tl region
                         then [local_offset fvm_node + ebm_variable_offset region TEMPERATURE]
                         else [])
                      @ (if enable_Tn region
                         then [local_offset fvm_node + ebm_variable_offset region E_TEMP]
                         else [])
                      @ (if enable_Tp region
                         then [local_offset fvm_node + ebm_variable_offset region H_TEMP]
                         else []))"
  shows "snd (damping_find_node U T_ext region xx yy fvm_node (d, w)) k = w k"
proof -
  from assms have n: "k \<noteq> local_offset fvm_node + ebm_variable_offset region ELECTRON"
    and p: "k \<noteq> local_offset fvm_node + ebm_variable_offset region HOLE"
    and tl: "enable_Tl region
             \<Longrightarrow> k \<noteq> local_offset fvm_node + ebm_variable_offset region TEMPERATURE"
    and tn: "enable_Tn region
             \<Longrightarrow> k \<noteq> local_offset fvm_node + ebm_variable_offset region E_TEMP"
    and tp: "enable_Tp region
             \<Longrightarrow> k \<noteq> local_offset fvm_node + ebm_variable_offset region H_TEMP"
    by (auto split: if_splits)
  define lo where "lo = local_offset fvm_node"
  define ww1 where "ww1 = (if w (lo + ebm_variable_offset region ELECTRON) < onePerCMC U
                           then w(lo + ebm_variable_offset region ELECTRON := onePerCMC U)
                           else w)"
  define ww2 where "ww2 = (if ww1 (lo + ebm_variable_offset region HOLE) < onePerCMC U
                           then ww1(lo + ebm_variable_offset region HOLE := onePerCMC U)
                           else ww1)"
  define ww3 where "ww3 = (if enable_Tl region
                              \<and> ww2 (lo + ebm_variable_offset region TEMPERATURE)
                                  < T_ext - 50 * PU_K U
                           then ww2(lo + ebm_variable_offset region TEMPERATURE :=
                                      T_ext - 50 * PU_K U)
                           else ww2)"
  define ww4 where "ww4 = (if enable_Tn region
                   then (let n0 = xx (lo + ebm_variable_offset region ELECTRON);
                             n1 = ww3 (lo + ebm_variable_offset region ELECTRON);
                             T0 = xx (lo + ebm_variable_offset region E_TEMP) / n0;
                             T1 = T0 * (1 - min (n1 / n0) 2.0)
                                  + ww3 (lo + ebm_variable_offset region E_TEMP) / n0;
                             T1' = (if T1 < 0.9 * T_ext then 0.9 * T_ext else T1)
                         in ww3(lo + ebm_variable_offset region E_TEMP := T1' * n1))
                   else ww3)"
  define ww5 where "ww5 = (if enable_Tp region
                   then (let p0 = xx (lo + ebm_variable_offset region HOLE);
                             p1 = ww4 (lo + ebm_variable_offset region HOLE);
                             T0 = xx (lo + ebm_variable_offset region H_TEMP) / p0;
                             T1 = T0 * (1 - min (p1 / p0) 2.0)
                                  + ww4 (lo + ebm_variable_offset region H_TEMP) / p0;
                             T1' = (if T1 < 0.9 * T_ext then 0.9 * T_ext else T1)
                         in ww4(lo + ebm_variable_offset region H_TEMP := T1' * p1))
                   else ww4)"
  have res: "snd (damping_find_node U T_ext region xx yy fvm_node (d, w)) = ww5"
    unfolding damping_find_node_def Let_def prod.case snd_conv ww5_def ww4_def ww3_def
      ww2_def ww1_def lo_def ..
  have "ww5 k = ww4 k" using tp by (simp add: ww5_def Let_def lo_def)
  also have "\<dots> = ww3 k" using tn by (simp add: ww4_def Let_def lo_def)
  also have "\<dots> = ww2 k" using tl by (simp add: ww3_def lo_def)
  also have "\<dots> = ww1 k" using p by (simp add: ww2_def lo_def)
  also have "\<dots> = w k" using n by (simp add: ww1_def lo_def)
  finally show ?thesis unfolding res .
qed

lemma damping_find_nodes_snd_other:
  assumes "k \<notin> set (concat (map (\<lambda>fvm_node.
                   [local_offset fvm_node + ebm_variable_offset region ELECTRON,
                    local_offset fvm_node + ebm_variable_offset region HOLE]
                   @ (if enable_Tl region
                      then [local_offset fvm_node + ebm_variable_offset region TEMPERATURE]
                      else [])
                   @ (if enable_Tn region
                      then [local_offset fvm_node + ebm_variable_offset region E_TEMP]
                      else [])
                   @ (if enable_Tp region
                      then [local_offset fvm_node + ebm_variable_offset region H_TEMP]
                      else [])) nds))"
  shows "snd (fold (damping_find_node U T_ext region xx yy) nds acc) k = snd acc k"
  using assms
proof (induction nds arbitrary: acc)
  case Nil
  then show ?case by simp
next
  case (Cons nd nds)
  obtain d w where acc: "acc = (d, w)" by (cases acc)
  from Cons.prems have here: "k \<notin> set ([local_offset nd + ebm_variable_offset region ELECTRON,
                       local_offset nd + ebm_variable_offset region HOLE]
                      @ (if enable_Tl region
                         then [local_offset nd + ebm_variable_offset region TEMPERATURE]
                         else [])
                      @ (if enable_Tn region
                         then [local_offset nd + ebm_variable_offset region E_TEMP]
                         else [])
                      @ (if enable_Tp region
                         then [local_offset nd + ebm_variable_offset region H_TEMP]
                         else []))"
    and rest: "k \<notin> set (concat (map (\<lambda>fvm_node.
                   [local_offset fvm_node + ebm_variable_offset region ELECTRON,
                    local_offset fvm_node + ebm_variable_offset region HOLE]
                   @ (if enable_Tl region
                      then [local_offset fvm_node + ebm_variable_offset region TEMPERATURE]
                      else [])
                   @ (if enable_Tn region
                      then [local_offset fvm_node + ebm_variable_offset region E_TEMP]
                      else [])
                   @ (if enable_Tp region
                      then [local_offset fvm_node + ebm_variable_offset region H_TEMP]
                      else [])) nds))"
    by simp_all
  have "snd (fold (damping_find_node U T_ext region xx yy) (nd # nds) acc) k
          = snd (damping_find_node U T_ext region xx yy nd (d, w)) k"
    using Cons.IH [OF rest, of "damping_find_node U T_ext region xx yy nd (d, w)"]
    by (simp add: acc)
  also have "\<dots> = w k" by (rule damping_find_node_snd_other [OF here])
  finally show ?case by (simp add: acc)
qed

lemma damping_find_regions_snd_other:
  assumes "k \<notin> set (semiconductor_clamp_slots rs)"
  shows "snd (fold (\<lambda>region acc.
               if region_type region \<noteq> SemiconductorRegion then acc
               else fold (damping_find_node U T_ext region xx yy)
                      (on_processor_nodes region) acc) rs acc) k = snd acc k"
  using assms
proof (induction rs arbitrary: acc)
  case Nil
  then show ?case by simp
next
  case (Cons region rs)
  have split: "semiconductor_clamp_slots (region # rs)
                 = semiconductor_clamp_slots [region] @ semiconductor_clamp_slots rs"
    by (simp add: semiconductor_clamp_slots_def)
  from Cons.prems have here: "k \<notin> set (semiconductor_clamp_slots [region])"
    and rest: "k \<notin> set (semiconductor_clamp_slots rs)"
    unfolding split by simp_all
  show ?case
  proof (cases "region_type region = SemiconductorRegion")
    case False
    then show ?thesis using Cons.IH [OF rest] by simp
  next
    case True
    with here have "snd (fold (damping_find_node U T_ext region xx yy)
                           (on_processor_nodes region) acc) k = snd acc k"
      by (intro damping_find_nodes_snd_other) (simp add: semiconductor_clamp_slots_def)
    with True show ?thesis using Cons.IH [OF rest] by simp
  qed
qed

lemma damping_find_snd_other:
  "k \<notin> set (semiconductor_clamp_slots (regions sys))
   \<Longrightarrow> snd (damping_find U sys xx yy ww) k = ww k"
  unfolding damping_find_def by (simp add: damping_find_regions_snd_other)

lemma Parallel_max_Max: "Parallel_max others v = Max (set (v # others))"
  unfolding Parallel_max_def by (simp only: Max.set_eq_fold)

lemma fold_write_out:
  "k \<notin> set ks \<Longrightarrow> fold (\<lambda>j w. w(j := g j)) ks w k = w k"
  by (induction ks arbitrary: w) auto

lemma damping_apply_bcs_out:
  "Some k \<notin> set offs \<Longrightarrow> damping_apply_bcs f offs xx yy ww k = ww k"
  unfolding damping_apply_bcs_def
  by (induction offs arbitrary: ww) (auto split: option.splits)

text \<open>C5 (potential damping, as amended). \<open>dV_max\<close> is the global maximum of the absolute
  potential update: the largest over the potential unknowns of the on-processor nodes of
  the semiconductor regions of this rank and over the maxima of the other ranks (0 when
  there are none); potential unknowns of other regions are not looked at. When it
  exceeds \<open>1e-6\<close>, one factor \<open>f = ln(1 + dV_max/Vut) / (dV_max/Vut)\<close> with
  \<open>Vut = kb*T_external/e * potential_update\<close> is applied to all these unknowns of the
  rank, \<open>w = x - f*y\<close>, and on the last processor to the slot of every boundary condition
  that has one, and every other entry is as the clamps of the first loop left it.
  Otherwise the whole candidate is as the clamps of the first loop left it. These clamps
  change density and temperature slots only, so in that case no potential is changed.\<close>

theorem potential_damping_rule:
  assumes "dV_max = Parallel_max others (fst (damping_find U sys xx yy ww))"
    and "Vut = PU_kb U * T_external sys / PU_e U * potential_update S"
    and "f = ln (1 + dV_max / Vut) / (dV_max / Vut)"
    and "w1 = snd (damping_find U sys xx yy ww)"
    and "w' = potential_damping U S sys others is_last_processor xx yy ww"
  shows "dV_max = Max (set (0 # map (\<lambda>k. \<bar>yy k\<bar>) (semiconductor_psi_slots (regions sys))
                           @ others))
       \<and> (dV_max > 0.000001 \<longrightarrow>
            (\<forall>k \<in> set (semiconductor_psi_slots (regions sys)). w' k = xx k - f * yy k)
          \<and> (is_last_processor \<longrightarrow>
               (\<forall>a. Some a \<in> set (bcs_array_offset sys) \<longrightarrow> w' a = xx a - f * yy a))
          \<and> (\<forall>k. k \<notin> set (semiconductor_psi_slots (regions sys))
                  \<and> \<not> (is_last_processor \<and> Some k \<in> set (bcs_array_offset sys))
                  \<longrightarrow> w' k = w1 k))
       \<and> (\<not> dV_max > 0.000001 \<longrightarrow>
            w' = w1
            \<and> (\<forall>k. k \<notin> set (semiconductor_clamp_slots (regions sys)) \<longrightarrow> w' k = ww k))
       \<and> (\<forall>k. k \<notin> set (semiconductor_clamp_slots (regions sys)) \<longrightarrow> w1 k = ww k)"
proof -
  obtain d where df: "damping_find U sys xx yy ww = (d, w1)"
    using assms(4) by (cases "damping_find U sys xx yy ww") simp
  with assms(1) have d: "Parallel_max others d = dV_max" by simp
  have ff: "damping_factor U S (T_external sys) dV_max = f"
    by (simp add: damping_factor_def assms(2,3) Let_def)
  define w2 where "w2 = damping_apply_regions f (regions sys) xx yy w1"
  have big: "w' = (if is_last_processor
                   then damping_apply_bcs f (bcs_array_offset sys) xx yy w2 else w2)"
    if "dV_max > 0.000001"
    using that by (simp add: assms(5) potential_damping_def df d ff w2_def Let_def)
  have small: "w' = w1" if "\<not> dV_max > 0.000001"
    using that by (simp add: assms(5) potential_damping_def df d Let_def)
  have slots: "w2 k = xx k - f * yy k" if "k \<in> set (semiconductor_psi_slots (regions sys))"
    for k
    unfolding w2_def damping_apply_regions_flat using that by (rule fold_write_in)
  have others_w2: "w2 k = w1 k" if "k \<notin> set (semiconductor_psi_slots (regions sys))" for k
    unfolding w2_def damping_apply_regions_flat using that by (rule fold_write_out)
  have a: "w' k = xx k - f * yy k"
    if "dV_max > 0.000001" "k \<in> set (semiconductor_psi_slots (regions sys))" for k
    using big [OF that(1)] slots [OF that(2)]
      damping_apply_bcs_cases [of f "bcs_array_offset sys" xx yy w2 k]
    by auto
  have b: "w' a = xx a - f * yy a"
    if "dV_max > 0.000001" "is_last_processor" "Some a \<in> set (bcs_array_offset sys)" for a
    using big [OF that(1)] that(2) damping_apply_bcs_in [OF that(3)] by simp
  have c: "w' k = w1 k"
    if "dV_max > 0.000001" "k \<notin> set (semiconductor_psi_slots (regions sys))"
      "\<not> (is_last_processor \<and> Some k \<in> set (bcs_array_offset sys))" for k
  proof (cases is_last_processor)
    case True
    with that(3) have "Some k \<notin> set (bcs_array_offset sys)" by simp
    from damping_apply_bcs_out [OF this] big [OF that(1)] True others_w2 [OF that(2)]
    show ?thesis by simp
  next
    case False
    with big [OF that(1)] others_w2 [OF that(2)] show ?thesis by simp
  qed
  have m: "dV_max = Max (set (0 # map (\<lambda>k. \<bar>yy k\<bar>) (semiconductor_psi_slots (regions sys))
                               @ others))"
  proof -
    have "dV_max = Max (set (fst (damping_find U sys xx yy ww) # others))"
      unfolding assms(1) by (rule Parallel_max_Max)
    also have "\<dots> = max (Max (set (0 # map (\<lambda>k. \<bar>yy k\<bar>)
                                          (semiconductor_psi_slots (regions sys)))))
                         (Max (set (fst (damping_find U sys xx yy ww) # others)))"
      unfolding damping_find_fst by (simp add: max_def)
    also have "\<dots> = Max (set (0 # map (\<lambda>k. \<bar>yy k\<bar>) (semiconductor_psi_slots (regions sys)))
                            \<union> set (fst (damping_find U sys xx yy ww) # others))"
      by (rule Max_Un [symmetric]) simp_all
    also have "set (0 # map (\<lambda>k. \<bar>yy k\<bar>) (semiconductor_psi_slots (regions sys)))
                 \<union> set (fst (damping_find U sys xx yy ww) # others)
               = insert (fst (damping_find U sys xx yy ww))
                   (set (0 # map (\<lambda>k. \<bar>yy k\<bar>) (semiconductor_psi_slots (regions sys))
                         @ others))"
      by auto
    also have "Max \<dots> = max (fst (damping_find U sys xx yy ww))
                           (Max (set (0 # map (\<lambda>k. \<bar>yy k\<bar>)
                                            (semiconductor_psi_slots (regions sys)) @ others)))"
      by (rule Max_insert) simp_all
    also have "\<dots> = Max (set (0 # map (\<lambda>k. \<bar>yy k\<bar>) (semiconductor_psi_slots (regions sys))
                            @ others))"
    proof -
      have "fst (damping_find U sys xx yy ww)
              \<le> Max (set (0 # map (\<lambda>k. \<bar>yy k\<bar>) (semiconductor_psi_slots (regions sys))
                          @ others))"
        unfolding damping_find_fst by (rule Max_mono) auto
      then show ?thesis by (simp add: max_def)
    qed
    finally show ?thesis .
  qed
  have e: "w1 k = ww k" if "k \<notin> set (semiconductor_clamp_slots (regions sys))" for k
    unfolding assms(4) using that by (rule damping_find_snd_other)
  have small': "w' k = ww k"
    if "\<not> dV_max > 0.000001" "k \<notin> set (semiconductor_clamp_slots (regions sys))" for k
    using small [OF that(1)] e [OF that(2)] by simp
  from a b c m small small' e show ?thesis by blast
qed

text \<open>One semiconductor node with a potential update of 1, another rank that found a
  maximum of 2, and an electrode slot with an update of 2, at 300 K in units where
  \<open>kb = e = 1\<close>: \<open>dV_max = 2\<close>, \<open>Vut = 300\<close>, both candidates are \<open>x - f*y\<close> with the
  one factor \<open>f\<close>, and entry 7, which is neither, keeps its value. With a potential
  update of \<open>1e-7\<close> and no other rank the candidate potential 5 is not changed.\<close>

theorem potential_damping_rule_witness:
  "Parallel_max [2] (fst (damping_find unit_system semiconductor_system VecZeroEntries
          (VecZeroEntries(0 := 1, 3 := 2)) (VecZeroEntries(0 := - 1, 3 := - 2, 7 := 9)))) = 2
   \<and> potential_damping unit_system default_specify semiconductor_system [2] True VecZeroEntries
         (VecZeroEntries(0 := 1, 3 := 2)) (VecZeroEntries(0 := - 1, 3 := - 2, 7 := 9)) 0
       = - (ln (1 + 2 / 300) / (2 / 300))
   \<and> potential_damping unit_system default_specify semiconductor_system [2] True VecZeroEntries
         (VecZeroEntries(0 := 1, 3 := 2)) (VecZeroEntries(0 := - 1, 3 := - 2, 7 := 9)) 3
       = - (ln (1 + 2 / 300) / (2 / 300) * 2)
   \<and> potential_damping unit_system default_specify semiconductor_system [2] True VecZeroEntries
         (VecZeroEntries(0 := 1, 3 := 2)) (VecZeroEntries(0 := - 1, 3 := - 2, 7 := 9)) 7
       = 9
   \<and> potential_damping unit_system default_specify semiconductor_system [] True VecZeroEntries
         (VecZeroEntries(0 := 1 / 10000000)) (VecZeroEntries(0 := 5)) 0 = 5"
proof -
  define yy where "yy = VecZeroEntries(0 := 1, 3 := (2::real))"
  define ww where "ww = VecZeroEntries(0 := - 1, 3 := - 2, 7 := (9::real))"
  have s: "semiconductor_psi_slots (regions semiconductor_system) = [0]"
    by (simp add: semiconductor_psi_slots_def semiconductor_system_def plain_region_def
        node_at_def)
  have cl: "semiconductor_clamp_slots (regions semiconductor_system) = [1, 2]"
    by (simp add: semiconductor_clamp_slots_def semiconductor_system_def plain_region_def
        node_at_def)
  have b: "bcs_array_offset semiconductor_system = [Some 3]"
    by (simp add: semiconductor_system_def)
  have v: "(300::real) = PU_kb unit_system * T_external semiconductor_system / PU_e unit_system
                  * potential_update default_specify"
    by (simp add: unit_system_def semiconductor_system_def default_specify_def)
  note rule = potential_damping_rule [OF refl v refl refl refl, of "[2]" VecZeroEntries yy ww True]
  from rule have d: "Parallel_max [2] (fst (damping_find unit_system semiconductor_system
                                              VecZeroEntries yy ww)) = 2"
    unfolding s by (simp add: yy_def VecZeroEntries_def)
  from rule d have
    "potential_damping unit_system default_specify semiconductor_system [2] True VecZeroEntries
       yy ww 0 = VecZeroEntries 0 - ln (1 + 2 / 300) / (2 / 300) * yy 0"
    "potential_damping unit_system default_specify semiconductor_system [2] True VecZeroEntries
       yy ww 3 = VecZeroEntries 3 - ln (1 + 2 / 300) / (2 / 300) * yy 3"
    "potential_damping unit_system default_specify semiconductor_system [2] True VecZeroEntries
       yy ww 7 = ww 7"
    unfolding s b cl by simp_all
  with d have large:
    "Parallel_max [2] (fst (damping_find unit_system semiconductor_system VecZeroEntries
          (VecZeroEntries(0 := 1, 3 := 2)) (VecZeroEntries(0 := - 1, 3 := - 2, 7 := 9)))) = 2
     \<and> potential_damping unit_system default_specify semiconductor_system [2] True
           VecZeroEntries (VecZeroEntries(0 := 1, 3 := 2))
           (VecZeroEntries(0 := - 1, 3 := - 2, 7 := 9)) 0
         = - (ln (1 + 2 / 300) / (2 / 300))
     \<and> potential_damping unit_system default_specify semiconductor_system [2] True
           VecZeroEntries (VecZeroEntries(0 := 1, 3 := 2))
           (VecZeroEntries(0 := - 1, 3 := - 2, 7 := 9)) 3
         = - (ln (1 + 2 / 300) / (2 / 300) * 2)
     \<and> potential_damping unit_system default_specify semiconductor_system [2] True
           VecZeroEntries (VecZeroEntries(0 := 1, 3 := 2))
           (VecZeroEntries(0 := - 1, 3 := - 2, 7 := 9)) 7
         = 9"
    unfolding yy_def ww_def by (simp add: VecZeroEntries_def)
  define ys where "ys = VecZeroEntries(0 := 1 / (10000000::real))"
  note small = potential_damping_rule [OF refl v refl refl refl,
      of "[]" VecZeroEntries ys "VecZeroEntries(0 := 5)" True]
  from small have "Parallel_max [] (fst (damping_find unit_system semiconductor_system
                     VecZeroEntries ys (VecZeroEntries(0 := 5)))) = 1 / 10000000"
    unfolding s by (simp add: ys_def VecZeroEntries_def)
  with small have
    "potential_damping unit_system default_specify semiconductor_system [] True VecZeroEntries
       ys (VecZeroEntries(0 := 5)) 0 = (VecZeroEntries(0 := 5)) 0"
    unfolding cl by simp
  with large show ?thesis unfolding ys_def by simp
qed

text \<open>One insulator node with a potential update of 1 and no other rank: the maximum that
  the code finds is 0, and the candidate potential stays \<open>x - y = -1\<close>; no factor is
  applied to it.\<close>

theorem potential_damping_skips_insulator:
  "Parallel_max [] (fst (damping_find unit_system insulator_node_system VecZeroEntries
          (VecZeroEntries(0 := 1)) (VecZeroEntries(0 := - 1)))) = 0
   \<and> potential_damping unit_system default_specify insulator_node_system [] True VecZeroEntries
         (VecZeroEntries(0 := 1)) (VecZeroEntries(0 := - 1)) 0 = - 1"
  by (simp add: potential_damping_def Parallel_max_def damping_find_def
      insulator_node_system_def plain_region_def)

section \<open>Properties of the Ohmic contact\<close>

lemma VecSetValues_ADD_other_row:
  "k \<notin> fst ` set iy \<Longrightarrow> VecSetValues_ADD f iy k = f k"
  unfolding VecSetValues_ADD_def
  by (induction iy arbitrary: f) (auto simp: VecSetValue_ADD_def)

lemma ohmic_semiconductor_equations_rows:
  "fst ` set (ohmic_semiconductor_equations env bc nd x Ve rn)
     \<subseteq> (\<lambda>v. global_offset (orn_fvm_node rn) + ebm_variable_offset (orn_region rn) v)
         ` {POTENTIAL, ELECTRON, HOLE, TEMPERATURE, E_TEMP, H_TEMP}"
proof -
  have z: "fst ` set (zip [a, b, c] (ys::real list)) \<subseteq> {a, b, c}" for a b c :: nat and ys
    by (auto dest: set_zip_leftD)
  show ?thesis
    unfolding ohmic_semiconductor_equations_def Let_def set_append image_Un
    using z by (auto split: if_splits dest!: set_zip_leftD)
qed

lemma ohmic_node_rows_set:
  "set (ohmic_node_rows bc)
     = (\<Union>nd \<in> set (ohmic_nodes bc). \<Union>rn \<in> set (obn_region_node nd). region_node_rows rn)"
  by (auto simp: ohmic_node_rows_def region_node_rows_def)

lemma ohmic_insulator_equations_rows:
  "fst ` set (ohmic_insulator_equations env x first rn) \<subseteq> region_node_rows rn"
  by (auto simp: ohmic_insulator_equations_def region_node_rows_def Let_def)

lemma subset_step: "Y \<subseteq> X \<union> E \<union> U \<Longrightarrow> E \<subseteq> R \<Longrightarrow> Y \<subseteq> X \<union> (R \<union> U)"
  by blast

lemma subset_skip: "Y \<subseteq> X \<union> U \<Longrightarrow> Y \<subseteq> X \<union> (R \<union> U)"
  by blast

lemma subset_chain: "Y1 \<subseteq> X \<union> R \<Longrightarrow> Y \<subseteq> Y1 \<union> U \<Longrightarrow> Y \<subseteq> X \<union> (R \<union> U)"
  by blast

lemma UN_Cons: "(\<Union>a \<in> set (b # bs). F a) = F b \<union> (\<Union>a \<in> set bs. F a)"
  by simp

lemma EBM3_Function_regions_rows:
  assumes "EBM3_Function_regions env bc nd x Ve first i rns (iy, cb) = Inr (iy', cb')"
  shows "fst ` set iy' \<subseteq> fst ` set iy \<union> (\<Union>rn \<in> set rns. region_node_rows rn)"
  using assms
proof (induction rns arbitrary: i iy cb)
  case Nil
  then show ?case by simp
next
  case (Cons rn rns)
  have semi: "fst ` set (ohmic_semiconductor_equations env bc nd x Ve rn) \<subseteq> region_node_rows rn"
    using ohmic_semiconductor_equations_rows unfolding region_node_rows_def .
  have ins: "fst ` set (ohmic_insulator_equations env x first rn) \<subseteq> region_node_rows rn"
    by (rule ohmic_insulator_equations_rows)
  from Cons.prems consider
    (s) cb1 where "EBM3_Function_regions env bc nd x Ve first (Suc i) rns
                     (iy @ ohmic_semiconductor_equations env bc nd x Ve rn, cb1) = Inr (iy', cb')"
    | (n) "EBM3_Function_regions env bc nd x Ve first (Suc i) rns
             (iy @ ohmic_insulator_equations env x first rn, cb) = Inr (iy', cb')"
    | (v) "EBM3_Function_regions env bc nd x Ve first (Suc i) rns (iy, cb) = Inr (iy', cb')"
    by (cases "region_type (orn_region rn)") (auto split: if_splits)
  then show ?case
  proof cases
    case s
    from Cons.IH [OF s] have
      "fst ` set iy' \<subseteq> fst ` set iy
         \<union> fst ` set (ohmic_semiconductor_equations env bc nd x Ve rn)
         \<union> (\<Union>rn \<in> set rns. region_node_rows rn)"
      by (simp only: set_append image_Un)
    then show ?thesis unfolding UN_Cons using semi by (rule subset_step)
  next
    case n
    from Cons.IH [OF n] have
      "fst ` set iy' \<subseteq> fst ` set iy
         \<union> fst ` set (ohmic_insulator_equations env x first rn)
         \<union> (\<Union>rn \<in> set rns. region_node_rows rn)"
      by (simp only: set_append image_Un)
    then show ?thesis unfolding UN_Cons using ins by (rule subset_step)
  next
    case v
    from Cons.IH [OF v] show ?thesis unfolding UN_Cons by (rule subset_skip)
  qed
qed

lemma EBM3_Function_regions_buffer:
  assumes "EBM3_Function_regions env bc nd x Ve first i rns (iy, cb) = Inr (iy', cb')"
  shows "cb' = cb @ concat (map (\<lambda>rn.
                    if region_type (orn_region rn) = SemiconductorRegion
                    then ohmic_displacement_currents (env_specify env) x
                           (x (local_offset (orn_fvm_node rn)
                                 + ebm_variable_offset (orn_region rn) POTENTIAL)) rn
                    else []) rns)"
  using assms
proof (induction rns arbitrary: i iy cb)
  case Nil
  then show ?case by simp
next
  case (Cons rn rns)
  show ?case
  proof (cases "region_type (orn_region rn)")
    case SemiconductorRegion
    with Cons.prems have
      r: "EBM3_Function_regions env bc nd x Ve first (Suc i) rns
                (iy @ ohmic_semiconductor_equations env bc nd x Ve rn,
                 cb @ ohmic_displacement_currents (env_specify env) x
                        (x (local_offset (orn_fvm_node rn)
                              + ebm_variable_offset (orn_region rn) POTENTIAL)) rn)
              = Inr (iy', cb')"
      by (auto split: if_splits)
    from Cons.IH [OF r] SemiconductorRegion show ?thesis by simp
  next
    case InsulatorRegion
    with Cons.prems have
      r: "EBM3_Function_regions env bc nd x Ve first (Suc i) rns
            (iy @ ohmic_insulator_equations env x first rn, cb) = Inr (iy', cb')"
      by (auto split: if_splits)
    from Cons.IH [OF r] InsulatorRegion show ?thesis by simp
  next
    case ElectrodeRegion
    with Cons.prems have
      r: "EBM3_Function_regions env bc nd x Ve first (Suc i) rns
            (iy @ ohmic_insulator_equations env x first rn, cb) = Inr (iy', cb')"
      by (auto split: if_splits)
    from Cons.IH [OF r] ElectrodeRegion show ?thesis by simp
  next
    case MetalRegion
    with Cons.prems show ?thesis by simp
  next
    case VacuumRegion
    with Cons.prems have
      r: "EBM3_Function_regions env bc nd x Ve first (Suc i) rns (iy, cb) = Inr (iy', cb')"
      by simp
    from Cons.IH [OF r] VacuumRegion show ?thesis by simp
  next
    case InvalidRegion
    with Cons.prems show ?thesis by simp
  qed
qed

lemma EBM3_Function_nodes_step:
  assumes "EBM3_Function_nodes env bc x Ve (nd # nds) (iy, cb) = Inr (iy', cb')"
  obtains (skip) "\<not> obn_on_this_processor nd \<or> obn_region_node nd = []"
      "EBM3_Function_nodes env bc x Ve nds (iy, cb) = Inr (iy', cb')"
  | (run) iy1 cb1 where "obn_on_this_processor nd"
      "EBM3_Function_regions env bc nd x Ve (hd (obn_region_node nd)) 0 (obn_region_node nd)
         (iy, cb) = Inr (iy1, cb1)"
      "EBM3_Function_nodes env bc x Ve nds (iy1, cb1) = Inr (iy', cb')"
proof (cases "\<not> obn_on_this_processor nd \<or> obn_region_node nd = []")
  case True
  with assms have "EBM3_Function_nodes env bc x Ve nds (iy, cb) = Inr (iy', cb')"
    by (auto split: if_splits)
  with True show ?thesis by (rule skip)
next
  case False
  then obtain first rest where l: "obn_region_node nd = first # rest"
    by (cases "obn_region_node nd") auto
  with False assms obtain iy1 cb1 where
    a: "EBM3_Function_regions env bc nd x Ve first 0 (first # rest) (iy, cb) = Inr (iy1, cb1)"
    and b: "EBM3_Function_nodes env bc x Ve nds (iy1, cb1) = Inr (iy', cb')"
    by (auto split: sum.splits)
  from False a b l show ?thesis by (intro run [of iy1 cb1]) simp_all
qed

lemma EBM3_Function_nodes_rows:
  assumes "EBM3_Function_nodes env bc x Ve nds (iy, cb) = Inr (iy', cb')"
  shows "fst ` set iy' \<subseteq> fst ` set iy
           \<union> (\<Union>nd \<in> set nds. \<Union>rn \<in> set (obn_region_node nd). region_node_rows rn)"
  using assms
proof (induction nds arbitrary: iy cb)
  case Nil
  then show ?case by simp
next
  case (Cons nd nds)
  from Cons.prems show ?case
  proof (cases rule: EBM3_Function_nodes_step)
    case skip
    from Cons.IH [OF skip(2)] show ?thesis unfolding UN_Cons by (rule subset_skip)
  next
    case (run iy1 cb1)
    from EBM3_Function_regions_rows [OF run(2)] Cons.IH [OF run(3)]
    show ?thesis unfolding UN_Cons by (rule subset_chain)
  qed
qed

lemma EBM3_Function_nodes_buffer:
  assumes "EBM3_Function_nodes env bc x Ve nds (iy, cb) = Inr (iy', cb')"
  shows "cb' = cb @ concat (map (\<lambda>nd. if \<not> obn_on_this_processor nd then []
                        else concat (map (\<lambda>rn.
                               if region_type (orn_region rn) = SemiconductorRegion
                               then ohmic_displacement_currents (env_specify env) x
                                      (x (local_offset (orn_fvm_node rn)
                                            + ebm_variable_offset (orn_region rn) POTENTIAL)) rn
                               else [])
                             (obn_region_node nd))) nds)"
  using assms
proof (induction nds arbitrary: iy cb)
  case Nil
  then show ?case by simp
next
  case (Cons nd nds)
  from Cons.prems show ?case
  proof (cases rule: EBM3_Function_nodes_step)
    case skip
    from Cons.IH [OF skip(2)] skip(1) show ?thesis by auto
  next
    case (run iy1 cb1)
    from EBM3_Function_regions_buffer [OF run(2)] Cons.IH [OF run(3)] run(1)
    show ?thesis by simp
  qed
qed

lemma EBM3_Function_cases:
  assumes "EBM3_Function env bc cb x f = Inr (f', ckt')"
  obtains lo iy cb' where "bc_local_offset bc = Some lo"
    and "EBM3_Function_nodes env bc x (x lo) (ohmic_nodes bc) ([], cb) = Inr (iy, cb')"
    and "f' = ohmic_circuit_term env bc x (x lo)
                (ohmic_current_term env bc (z_width bc * sum_list cb') (VecSetValues_ADD f iy))"
    and "ckt' = (ext_circuit bc)\<lparr>current_itering := z_width bc * sum_list cb',
                                  potential_itering := x lo\<rparr>"
  using assms
  by (auto simp: EBM3_Function_def Let_def split: option.splits sum.splits)

lemma EBM3_Function_electrode_row:
  assumes "EBM3_Function env bc cb x f = Inr (f', ckt')"
    and "bc_global_offset bc \<notin> set (ohmic_node_rows bc)"
  obtains lo f1 where "bc_local_offset bc = Some lo"
    and "f1 (bc_global_offset bc) = f (bc_global_offset bc)"
    and "f' = ohmic_circuit_term env bc x (x lo)
                (ohmic_current_term env bc (current_itering ckt') f1)"
    and "current_itering ckt'
           = z_width bc * (sum_list cb + sum_list (ohmic_all_displacement_currents env bc x))"
    and "potential_itering ckt' = x lo"
proof -
  from assms(1) obtain lo iy cb' where lo: "bc_local_offset bc = Some lo"
    and nodes: "EBM3_Function_nodes env bc x (x lo) (ohmic_nodes bc) ([], cb) = Inr (iy, cb')"
    and f': "f' = ohmic_circuit_term env bc x (x lo)
                (ohmic_current_term env bc (z_width bc * sum_list cb') (VecSetValues_ADD f iy))"
    and ckt': "ckt' = (ext_circuit bc)\<lparr>current_itering := z_width bc * sum_list cb',
                                  potential_itering := x lo\<rparr>"
    by (rule EBM3_Function_cases)
  from EBM3_Function_nodes_rows [OF nodes] assms(2)
  have "bc_global_offset bc \<notin> fst ` set iy"
    unfolding ohmic_node_rows_set by auto
  then have row: "VecSetValues_ADD f iy (bc_global_offset bc) = f (bc_global_offset bc)"
    by (rule VecSetValues_ADD_other_row)
  have buf: "cb' = cb @ ohmic_all_displacement_currents env bc x"
    using EBM3_Function_nodes_buffer [OF nodes]
    by (simp add: ohmic_all_displacement_currents_def)
  show thesis
    by (rule that [of lo "VecSetValues_ADD f iy"]) (simp_all add: lo row f' ckt' buf)
qed

lemma circuit_algebra:
  fixes k :: real
  shows "g + k * I + ((Ve - Va) + k * C / d * Ve - k * C / d * P - l * J)
           = g + (k * I + (Ve - Va) + k * (C / d) * (Ve - P) - l * J)"
  by (simp add: algebra_simps diff_divide_distrib)

lemma voltage_driven_terms:
  assumes "is_voltage_driven (ext_circuit bc)" and "\<not> is_current_driven (ext_circuit bc)"
    and "\<not> is_inter_connect_bc bc" and "env_is_last_processor env"
  shows "ohmic_circuit_term env bc x Ve (ohmic_current_term env bc I f1) (bc_global_offset bc)
           = f1 (bc_global_offset bc)
             + ((ckt_L (ext_circuit bc) / dt (env_specify env) + ckt_R (ext_circuit bc)) * I
                + (Ve - Vapp (ext_circuit bc))
                + (ckt_L (ext_circuit bc) / dt (env_specify env) + ckt_R (ext_circuit bc))
                    * (ckt_C (ext_circuit bc) / dt (env_specify env))
                    * (Ve - ckt_potential (ext_circuit bc))
                - ckt_L (ext_circuit bc) / dt (env_specify env)
                    * (ckt_current (ext_circuit bc) + cap_current (ext_circuit bc)))"
proof -
  have "ohmic_circuit_term env bc x Ve (ohmic_current_term env bc I f1) (bc_global_offset bc)
          = f1 (bc_global_offset bc)
            + (ckt_L (ext_circuit bc) / dt (env_specify env) + ckt_R (ext_circuit bc)) * I
            + ((Ve - Vapp (ext_circuit bc))
               + (ckt_L (ext_circuit bc) / dt (env_specify env) + ckt_R (ext_circuit bc))
                   * ckt_C (ext_circuit bc) / dt (env_specify env) * Ve
               - (ckt_L (ext_circuit bc) / dt (env_specify env) + ckt_R (ext_circuit bc))
                   * ckt_C (ext_circuit bc) / dt (env_specify env) * ckt_potential (ext_circuit bc)
               - ckt_L (ext_circuit bc) / dt (env_specify env)
                   * (ckt_current (ext_circuit bc) + cap_current (ext_circuit bc)))"
    using assms
    by (simp only: ohmic_circuit_term_def ohmic_current_term_def VecSetValue_ADD_def Let_def
        if_True if_False fun_upd_same)
  then show ?thesis by (simp only: circuit_algebra)
qed

lemma current_driven_terms:
  assumes "is_current_driven (ext_circuit bc)" and "\<not> is_voltage_driven (ext_circuit bc)"
    and "\<not> is_inter_connect_bc bc" and "env_is_last_processor env"
  shows "ohmic_circuit_term env bc x Ve (ohmic_current_term env bc I f1) (bc_global_offset bc)
           = f1 (bc_global_offset bc)
             + (I + cap_current (ext_circuit bc) - Iapp (ext_circuit bc))"
  using assms
  by (simp add: ohmic_circuit_term_def ohmic_current_term_def VecSetValue_ADD_def Let_def)

lemma fold_MatSetValue_other:
  "r \<noteq> g \<Longrightarrow> fold (\<lambda>(c, v) J'. MatSetValue_ADD J' r c v) ps J g = J g"
  by (induction ps arbitrary: J) (auto simp: MatSetValue_ADD_def)

lemma MatSetValues_ADD_row_other:
  "r \<noteq> g \<Longrightarrow> MatSetValues_ADD_row J r cols vals g = J g"
  unfolding MatSetValues_ADD_row_def by (rule fold_MatSetValue_other)

lemma MatSetValue_ADD_zero: "MatSetValue_ADD J r c 0 = J"
  by (simp add: MatSetValue_ADD_def)

lemma fold_MatSetValue_zero:
  "\<forall>v \<in> snd ` set ps. v = 0 \<Longrightarrow> fold (\<lambda>(c, v) J'. MatSetValue_ADD J' r c v) ps J = J"
  by (induction ps arbitrary: J) (auto simp: MatSetValue_ADD_zero)

lemma MatSetValues_ADD_row_zero:
  "\<forall>v \<in> set vals. v = 0 \<Longrightarrow> MatSetValues_ADD_row J r cols vals = J"
  unfolding MatSetValues_ADD_row_def
  by (rule fold_MatSetValue_zero) (auto dest: set_zip_rightD)

lemma ohmic_JM_entry_ideal: "ideal_voltage_drive bc \<Longrightarrow> ohmic_JM_entry env bc d = 0"
  by (simp add: ideal_voltage_drive_def ohmic_JM_entry_def Let_def)

lemma ohmic_current_buffers_ideal:
  assumes "ideal_voltage_drive bc"
  shows "\<forall>(cols, entries) \<in> set (ohmic_current_buffers env bc jac rn). \<forall>v \<in> set entries. v = 0"
  using ohmic_JM_entry_ideal [OF assms]
  by (auto simp: ohmic_current_buffers_def Let_def)

lemma Preprocess_currents_ideal:
  assumes "ideal_voltage_drive bc"
    and "EBM3_Jacobian_Preprocess_currents env bc jac nds buf = Inr buf'"
    and "\<forall>(cols, entries) \<in> set buf. \<forall>v \<in> set entries. v = 0"
  shows "\<forall>(cols, entries) \<in> set buf'. \<forall>v \<in> set entries. v = 0"
  using assms(2,3)
proof (induction nds arbitrary: buf)
  case Nil
  then show ?case by simp
next
  case (Cons nd nds)
  show ?case
  proof (cases "obn_on_this_processor nd")
    case False
    with Cons show ?thesis by simp
  next
    case True
    with Cons.prems(1) obtain rn where
      "EBM3_Jacobian_Preprocess_currents env bc jac nds
         (buf @ ohmic_current_buffers env bc jac rn) = Inr buf'"
      by (auto split: sum.splits)
    moreover have "\<forall>(cols, entries) \<in> set (buf @ ohmic_current_buffers env bc jac rn).
                     \<forall>v \<in> set entries. v = 0"
      using Cons.prems(2) ohmic_current_buffers_ideal [OF assms(1), of env jac rn] by auto
    ultimately show ?thesis by (rule Cons.IH)
  qed
qed

lemma buffered_entries_ideal:
  assumes "\<forall>(cols, entries) \<in> set buffers. \<forall>v \<in> set entries. v = 0"
  shows "fold (\<lambda>(cols, entries) jac'. MatSetValues_ADD_row jac' g cols entries) buffers jac = jac"
  using assms
  by (induction buffers arbitrary: jac) (auto simp: MatSetValues_ADD_row_zero)

lemma ohmic_displacement_jacobian_ideal:
  assumes "ideal_voltage_drive bc"
  shows "ohmic_displacement_jacobian env bc x rn jac = jac"
proof -
  have "fold (\<lambda>nb jac'. jac') nbs jac = jac" for nbs :: "NeighborNode list"
    by (induction nbs) simp_all
  then show ?thesis
    using assms
    by (simp add: ohmic_displacement_jacobian_def ideal_voltage_drive_def Let_def
        AD_scale_def getADValue_def MatSetValue_ADD_zero)
qed

lemma ohmic_semiconductor_jacobian_other:
  assumes "g \<notin> region_node_rows rn"
  shows "ohmic_semiconductor_jacobian semi_AD bc nd rn jac g = jac g"
proof -
  have "global_offset (orn_fvm_node rn) + ebm_variable_offset (orn_region rn) v \<noteq> g" for v
    using assms by (cases v) (auto simp: region_node_rows_def)
  then show ?thesis
    by (simp add: ohmic_semiconductor_jacobian_def Let_def MatSetValues_ADD_row_other)
qed

lemma ohmic_insulator_jacobian_other:
  assumes "g \<notin> region_node_rows rn"
  shows "ohmic_insulator_jacobian x first rn jac g = jac g"
proof -
  have "global_offset (orn_fvm_node rn) + ebm_variable_offset (orn_region rn) v \<noteq> g" for v
    using assms by (cases v) (auto simp: region_node_rows_def)
  then show ?thesis
    by (simp add: ohmic_insulator_jacobian_def Let_def MatSetValues_ADD_row_other)
qed

lemma EBM3_Jacobian_regions_row:
  assumes "ideal_voltage_drive bc"
    and "EBM3_Jacobian_regions env semi_AD bc nd x first i rns jac = Inr jac'"
    and "\<forall>rn \<in> set rns. g \<notin> region_node_rows rn"
  shows "jac' g = jac g"
  using assms(2,3)
proof (induction rns arbitrary: i jac)
  case Nil
  then show ?case by simp
next
  case (Cons rn rns)
  from Cons.prems(2) have out: "g \<notin> region_node_rows rn"
    and rest: "\<forall>rn \<in> set rns. g \<notin> region_node_rows rn" by simp_all
  from Cons.prems(1) consider
    (s) "EBM3_Jacobian_regions env semi_AD bc nd x first (Suc i) rns
           (ohmic_displacement_jacobian env bc x rn
              (ohmic_semiconductor_jacobian semi_AD bc nd rn jac)) = Inr jac'"
    | (n) "EBM3_Jacobian_regions env semi_AD bc nd x first (Suc i) rns
             (ohmic_insulator_jacobian x first rn jac) = Inr jac'"
    | (v) "EBM3_Jacobian_regions env semi_AD bc nd x first (Suc i) rns jac = Inr jac'"
    by (cases "region_type (orn_region rn)") (auto split: if_splits)
  then show ?case
  proof cases
    case s
    from Cons.IH [OF s rest] show ?thesis
      by (simp add: ohmic_displacement_jacobian_ideal [OF assms(1)]
          ohmic_semiconductor_jacobian_other [OF out])
  next
    case n
    from Cons.IH [OF n rest] show ?thesis
      by (simp add: ohmic_insulator_jacobian_other [OF out])
  next
    case v
    from Cons.IH [OF v rest] show ?thesis .
  qed
qed

lemma EBM3_Jacobian_nodes_row:
  assumes "ideal_voltage_drive bc"
    and "EBM3_Jacobian_nodes env semi_AD bc x nds jac = Inr jac'"
    and "\<forall>nd \<in> set nds. \<forall>rn \<in> set (obn_region_node nd). g \<notin> region_node_rows rn"
  shows "jac' g = jac g"
  using assms(2,3)
proof (induction nds arbitrary: jac)
  case Nil
  then show ?case by simp
next
  case (Cons nd nds)
  from Cons.prems(2) have here: "\<forall>rn \<in> set (obn_region_node nd). g \<notin> region_node_rows rn"
    and rest: "\<forall>nd \<in> set nds. \<forall>rn \<in> set (obn_region_node nd). g \<notin> region_node_rows rn"
    by simp_all
  show ?case
  proof (cases "\<not> obn_on_this_processor nd \<or> obn_region_node nd = []")
    case True
    with Cons.prems(1) have "EBM3_Jacobian_nodes env semi_AD bc x nds jac = Inr jac'"
      by (auto split: if_splits)
    from Cons.IH [OF this rest] show ?thesis .
  next
    case False
    then obtain first rest' where l: "obn_region_node nd = first # rest'"
      by (cases "obn_region_node nd") auto
    with False Cons.prems(1) obtain jac1 where
      a: "EBM3_Jacobian_regions env semi_AD bc nd x first 0 (first # rest') jac = Inr jac1"
      and b: "EBM3_Jacobian_nodes env semi_AD bc x nds jac1 = Inr jac'"
      by (auto split: sum.splits)
    from here l have "\<forall>rn \<in> set (first # rest'). g \<notin> region_node_rows rn" by simp
    from EBM3_Jacobian_regions_row [OF assms(1) a this] Cons.IH [OF b rest]
    show ?thesis by simp
  qed
qed

lemma ohmic_circuit_jacobian_ideal:
  assumes "ideal_voltage_drive bc" and "env_is_last_processor env"
  shows "ohmic_circuit_jacobian env bc jac (bc_global_offset bc) c
           = jac (bc_global_offset bc) c + (if c = bc_global_offset bc then 1 else 0)"
  using assms
  by (simp add: ohmic_circuit_jacobian_def ideal_voltage_drive_def MatSetValue_ADD_def Let_def)

lemma EBM3_Jacobian_electrode_row:
  assumes "ideal_voltage_drive bc" and "env_is_last_processor env"
    and "bc_global_offset bc \<notin> set (ohmic_node_rows bc)"
    and "EBM3_Jacobian_Preprocess env bc jac0 rows0 = Inr (rows, buffers)"
    and "EBM3_Jacobian env semi_AD bc buffers x jac = Inr jac'"
  shows "jac' (bc_global_offset bc) c
           = jac (bc_global_offset bc) c + (if c = bc_global_offset bc then 1 else 0)"
proof -
  from assms(4) have "EBM3_Jacobian_Preprocess_currents env bc jac0 (ohmic_nodes bc) [] = Inr buffers"
    by (auto simp: EBM3_Jacobian_Preprocess_def split: sum.splits)
  from Preprocess_currents_ideal [OF assms(1) this]
  have zero: "\<forall>(cols, entries) \<in> set buffers. \<forall>v \<in> set entries. v = 0" by simp
  from assms(5) obtain jac2 where
    nodes: "EBM3_Jacobian_nodes env semi_AD bc x (ohmic_nodes bc) jac = Inr jac2"
    and res: "jac' = ohmic_circuit_jacobian env bc jac2"
    by (auto simp: EBM3_Jacobian_def Let_def buffered_entries_ideal [OF zero] split: sum.splits)
  from assms(3) have "\<forall>nd \<in> set (ohmic_nodes bc). \<forall>rn \<in> set (obn_region_node nd).
                        bc_global_offset bc \<notin> region_node_rows rn"
    unfolding ohmic_node_rows_set by auto
  from EBM3_Jacobian_nodes_row [OF assms(1) nodes this]
  show ?thesis
    unfolding res ohmic_circuit_jacobian_ideal [OF assms(1,2)] by simp
qed

text \<open>The concrete contact: its rows, and the success of its assembly functions.\<close>

lemma example_contact_rows: "ohmic_node_rows (example_contact ckt) = [0, 1, 2, 3, 4, 5]"
  by (simp add: ohmic_node_rows_def example_contact_def example_contact_node_def
      plain_region_def node_at_def)

lemma example_contact_function:
  "\<exists>f' ckt'. EBM3_Function steady_env (example_contact ckt) cb x f = Inr (f', ckt')"
  by (simp add: EBM3_Function_def example_contact_def example_contact_node_def
      plain_region_def Let_def)

lemma example_contact_displacement:
  "ohmic_all_displacement_currents steady_env (example_contact ckt) x = []"
  by (simp add: ohmic_all_displacement_currents_def example_contact_def
      example_contact_node_def plain_region_def ohmic_displacement_currents_def
      steady_env_def default_specify_def)

lemma example_contact_preprocess:
  "\<exists>rows buffers. EBM3_Jacobian_Preprocess steady_env (example_contact ckt) jac0 ([], [], [])
                    = Inr (rows, buffers)"
  by (simp add: EBM3_Jacobian_Preprocess_def example_contact_def example_contact_node_def
      plain_region_def get_region_fvm_node_def Let_def)

lemma example_contact_jacobian:
  "\<exists>jac'. EBM3_Jacobian steady_env unit_AD (example_contact ckt) buffers x jac = Inr jac'"
  by (simp add: EBM3_Jacobian_def example_contact_def example_contact_node_def
      plain_region_def Let_def)

text \<open>The electron continuity row of the contact node holds 3 after the region pass, so the
  conduction current is 3; with \<open>I_cap = 0\<close> and \<open>I_app = 1\<close> the residual of the electrode
  is \<open>3 + 0 - 1 = 2\<close>, not \<open>I_cap - I_app = -1\<close>.\<close>

theorem current_driven_residual_includes_current:
  "fst (projr (EBM3_boundary_residual steady_env (example_contact current_source)
                 VecZeroEntries (VecZeroEntries(1 := 3)))) 6 = 2
   \<and> cap_current current_source - Iapp current_source = - 1"
proof -
  let ?bc = "example_contact current_source"
  have pre: "EBM3_Function_Preprocess ?bc (VecZeroEntries(1 := 3)) ([], [], [])
               = Inr (([], [], [0, 1, 2]), [3])"
    by (simp add: EBM3_Function_Preprocess_def example_contact_def example_contact_node_def
        plain_region_def node_at_def VecZeroEntries_def numeral_2_eq_2)
  obtain f' ckt' where
    f: "EBM3_Function steady_env ?bc [3] VecZeroEntries
          (VecAddClearRow (VecZeroEntries(1 := 3)) [] [] [0, 1, 2]) = Inr (f', ckt')"
    using example_contact_function by blast
  from f obtain lo f1 where lo: "bc_local_offset ?bc = Some lo"
    and row: "f1 (bc_global_offset ?bc)
                = VecAddClearRow (VecZeroEntries(1 := 3)) [] [] [0, 1, 2] (bc_global_offset ?bc)"
    and f': "f' = ohmic_circuit_term steady_env ?bc VecZeroEntries (VecZeroEntries lo)
                (ohmic_current_term steady_env ?bc (current_itering ckt') f1)"
    and cur: "current_itering ckt'
           = z_width ?bc * (sum_list [3]
                            + sum_list (ohmic_all_displacement_currents steady_env ?bc VecZeroEntries))"
    by (rule EBM3_Function_electrode_row)
       (simp add: example_contact_rows, simp add: example_contact_def)
  have d1: "is_current_driven (ext_circuit ?bc)" and d2: "\<not> is_voltage_driven (ext_circuit ?bc)"
    and d3: "\<not> is_inter_connect_bc ?bc" and d4: "env_is_last_processor steady_env"
    by (simp_all add: example_contact_def current_source_def steady_env_def)
  have "f' 6 = 2"
    using current_driven_terms [OF d1 d2 d3 d4, of VecZeroEntries "VecZeroEntries lo"
        "current_itering ckt'" f1] row
    unfolding f' cur example_contact_displacement
    by (simp add: example_contact_def current_source_def VecAddClearRow_def VecAddRowToRow_def
        zero_rows_def VecZeroEntries_def)
  with pre f show ?thesis
    by (simp add: EBM3_boundary_residual_def current_source_def)
qed

lemma Preprocess_regions_buffer:
  assumes "EBM3_Function_Preprocess_regions f first rns (rows, cb) = Inr (rows', cb')"
  shows "cb' = cb @ concat (map (\<lambda>rn.
                    if region_type (orn_region rn) = SemiconductorRegion
                    then [f (global_offset (orn_fvm_node rn) + 1)
                          - f (global_offset (orn_fvm_node rn) + 2)]
                    else []) rns)"
  using assms
proof (induction rns arbitrary: rows cb)
  case Nil
  then show ?case by simp
next
  case (Cons rn rns)
  obtain s d c where rows: "rows = (s, d, c)" by (cases rows)
  from Cons.prems consider
    (semi) rows1 where "region_type (orn_region rn) = SemiconductorRegion"
      "EBM3_Function_Preprocess_regions f first rns
         (rows1, cb @ [f (global_offset (orn_fvm_node rn) + 1)
                       - f (global_offset (orn_fvm_node rn) + 2)]) = Inr (rows', cb')"
    | (other) rows1 where "region_type (orn_region rn) \<noteq> SemiconductorRegion"
      "EBM3_Function_Preprocess_regions f first rns (rows1, cb) = Inr (rows', cb')"
    unfolding rows by (cases "region_type (orn_region rn)") auto
  then show ?case
  proof cases
    case semi
    from Cons.IH [OF semi(2)] semi(1) show ?thesis by simp
  next
    case other
    from Cons.IH [OF other(2)] other(1) show ?thesis by simp
  qed
qed

lemma ohmic_insulator_rows_out:
  assumes "ohmic_insulator_rows first rn (s, d, c) = (s', d', c')"
    and "g \<notin> set d" and "g \<notin> set c"
    and "g \<notin> region_node_rows first"
    and "g \<notin> {global_offset (orn_fvm_node rn), global_offset (orn_fvm_node rn) + 1,
               global_offset (orn_fvm_node rn) + 2}"
  shows "g \<notin> set d' \<and> g \<notin> set c'"
proof -
  have "global_offset (orn_fvm_node first) + ebm_variable_offset (orn_region first) TEMPERATURE
          \<in> region_node_rows first"
    by (simp add: region_node_rows_def)
  with assms(4) have "g \<noteq> global_offset (orn_fvm_node first)
                            + ebm_variable_offset (orn_region first) TEMPERATURE"
    by blast
  with assms(1,2,3,5) show ?thesis
    by (auto simp: ohmic_insulator_rows_def split: if_splits)
qed

lemma Preprocess_regions_out:
  assumes "EBM3_Function_Preprocess_regions f first rns ((s, d, c), cb) = Inr ((s', d', c'), cb')"
    and "g \<notin> set d" and "g \<notin> set c"
    and "g \<notin> region_node_rows first"
    and "\<forall>rn \<in> set rns. g \<notin> region_node_rows rn
           \<and> g \<notin> {global_offset (orn_fvm_node rn), global_offset (orn_fvm_node rn) + 1,
                     global_offset (orn_fvm_node rn) + 2}"
  shows "g \<notin> set d' \<and> g \<notin> set c'"
  using assms(1,2,3,5)
proof (induction rns arbitrary: s d c cb)
  case Nil
  then show ?case by simp
next
  case (Cons rn rns)
  from Cons.prems(4) have here: "g \<notin> region_node_rows rn"
    and lit: "g \<notin> {global_offset (orn_fvm_node rn), global_offset (orn_fvm_node rn) + 1,
                     global_offset (orn_fvm_node rn) + 2}"
    and rest: "\<forall>rn \<in> set rns. g \<notin> region_node_rows rn
           \<and> g \<notin> {global_offset (orn_fvm_node rn), global_offset (orn_fvm_node rn) + 1,
                     global_offset (orn_fvm_node rn) + 2}"
    by simp_all
  have et: "g \<noteq> global_offset (orn_fvm_node rn) + ebm_variable_offset (orn_region rn) E_TEMP"
    and ht: "g \<noteq> global_offset (orn_fvm_node rn) + ebm_variable_offset (orn_region rn) H_TEMP"
    using here by (auto simp: region_node_rows_def)
  from Cons.prems(1) consider
    (semi) cb1 where
      "EBM3_Function_Preprocess_regions f first rns
         ((s, d, c @ [global_offset (orn_fvm_node rn) + 0, global_offset (orn_fvm_node rn) + 1,
                      global_offset (orn_fvm_node rn) + 2]
                   @ (if enable_Tn (orn_region rn)
                      then [global_offset (orn_fvm_node rn)
                              + ebm_variable_offset (orn_region rn) E_TEMP] else [])
                   @ (if enable_Tp (orn_region rn)
                      then [global_offset (orn_fvm_node rn)
                              + ebm_variable_offset (orn_region rn) H_TEMP] else [])), cb1)
         = Inr ((s', d', c'), cb')"
    | (ins) "EBM3_Function_Preprocess_regions f first rns
               (ohmic_insulator_rows first rn (s, d, c), cb) = Inr ((s', d', c'), cb')"
    | (vac) "EBM3_Function_Preprocess_regions f first rns ((s, d, c), cb)
               = Inr ((s', d', c'), cb')"
    by (cases "region_type (orn_region rn)") auto
  then show ?case
  proof cases
    case semi
    have "g \<notin> set (c @ [global_offset (orn_fvm_node rn) + 0, global_offset (orn_fvm_node rn) + 1,
                      global_offset (orn_fvm_node rn) + 2]
                   @ (if enable_Tn (orn_region rn)
                      then [global_offset (orn_fvm_node rn)
                              + ebm_variable_offset (orn_region rn) E_TEMP] else [])
                   @ (if enable_Tp (orn_region rn)
                      then [global_offset (orn_fvm_node rn)
                              + ebm_variable_offset (orn_region rn) H_TEMP] else []))"
      using Cons.prems(3) lit et ht by auto
    from Cons.IH [OF semi Cons.prems(2) this rest] show ?thesis .
  next
    case ins
    obtain s1 d1 c1 where r1: "ohmic_insulator_rows first rn (s, d, c) = (s1, d1, c1)"
      by (cases "ohmic_insulator_rows first rn (s, d, c)")
    from ohmic_insulator_rows_out [OF r1 Cons.prems(2,3) assms(4) lit]
    have "g \<notin> set d1" "g \<notin> set c1" by simp_all
    from Cons.IH [OF ins [unfolded r1] this rest] show ?thesis .
  next
    case vac
    from Cons.IH [OF vac Cons.prems(2,3) rest] show ?thesis .
  qed
qed

lemma Preprocess_nodes_step:
  assumes "EBM3_Function_Preprocess_nodes f (nd # nds) acc = Inr acc'"
  obtains (skip) "\<not> obn_on_this_processor nd \<or> obn_region_node nd = []"
      "EBM3_Function_Preprocess_nodes f nds acc = Inr acc'"
  | (run) acc1 where "obn_on_this_processor nd" "obn_region_node nd \<noteq> []"
      "EBM3_Function_Preprocess_regions f (hd (obn_region_node nd)) (obn_region_node nd) acc
         = Inr acc1"
      "EBM3_Function_Preprocess_nodes f nds acc1 = Inr acc'"
proof (cases "\<not> obn_on_this_processor nd \<or> obn_region_node nd = []")
  case True
  with assms have "EBM3_Function_Preprocess_nodes f nds acc = Inr acc'"
    by (auto split: if_splits)
  with True show ?thesis by (rule skip)
next
  case False
  then obtain first rest where l: "obn_region_node nd = first # rest"
    by (cases "obn_region_node nd") auto
  with False assms obtain acc1 where
    a: "EBM3_Function_Preprocess_regions f first (first # rest) acc = Inr acc1"
    and b: "EBM3_Function_Preprocess_nodes f nds acc1 = Inr acc'"
    by (auto split: sum.splits)
  from False a b l show ?thesis by (intro run [of acc1]) simp_all
qed

lemma Preprocess_nodes_buffer:
  assumes "EBM3_Function_Preprocess_nodes f nds (rows, cb) = Inr (rows', cb')"
  shows "cb' = cb @ concat (map (\<lambda>nd. if \<not> obn_on_this_processor nd then []
                        else concat (map (\<lambda>rn.
                               if region_type (orn_region rn) = SemiconductorRegion
                               then [f (global_offset (orn_fvm_node rn) + 1)
                                     - f (global_offset (orn_fvm_node rn) + 2)]
                               else [])
                             (obn_region_node nd))) nds)"
  using assms
proof (induction nds arbitrary: rows cb)
  case Nil
  then show ?case by simp
next
  case (Cons nd nds)
  from Cons.prems show ?case
  proof (cases rule: Preprocess_nodes_step)
    case skip
    from Cons.IH [OF skip(2)] skip(1) show ?thesis by auto
  next
    case (run acc1)
    obtain rows1 cb1 where acc1: "acc1 = (rows1, cb1)" by (cases acc1)
    from Preprocess_regions_buffer [OF run(3) [unfolded acc1]]
      Cons.IH [OF run(4) [unfolded acc1]] run(1)
    show ?thesis by simp
  qed
qed

lemma Preprocess_nodes_out:
  assumes "EBM3_Function_Preprocess_nodes f nds ((s, d, c), cb) = Inr ((s', d', c'), cb')"
    and "g \<notin> set d" and "g \<notin> set c"
    and "\<forall>nd \<in> set nds. \<forall>rn \<in> set (obn_region_node nd). g \<notin> region_node_rows rn
           \<and> g \<notin> {global_offset (orn_fvm_node rn), global_offset (orn_fvm_node rn) + 1,
                     global_offset (orn_fvm_node rn) + 2}"
  shows "g \<notin> set d' \<and> g \<notin> set c'"
  using assms
proof (induction nds arbitrary: s d c cb)
  case Nil
  then show ?case by simp
next
  case (Cons nd nds)
  from Cons.prems(4) have here: "\<forall>rn \<in> set (obn_region_node nd). g \<notin> region_node_rows rn
           \<and> g \<notin> {global_offset (orn_fvm_node rn), global_offset (orn_fvm_node rn) + 1,
                     global_offset (orn_fvm_node rn) + 2}"
    and rest: "\<forall>nd \<in> set nds. \<forall>rn \<in> set (obn_region_node nd). g \<notin> region_node_rows rn
           \<and> g \<notin> {global_offset (orn_fvm_node rn), global_offset (orn_fvm_node rn) + 1,
                     global_offset (orn_fvm_node rn) + 2}"
    by simp_all
  from Cons.prems(1) show ?case
  proof (cases rule: Preprocess_nodes_step)
    case skip
    from Cons.IH [OF skip(2) Cons.prems(2,3) rest] show ?thesis .
  next
    case (run acc1)
    obtain s1 d1 c1 cb1 where acc1: "acc1 = ((s1, d1, c1), cb1)"
      by (cases acc1) (auto elim: prod_cases3)
    from run(2) have "hd (obn_region_node nd) \<in> set (obn_region_node nd)" by simp
    with here have first: "g \<notin> region_node_rows (hd (obn_region_node nd))" by blast
    from Preprocess_regions_out [OF run(3) [unfolded acc1] Cons.prems(2,3) first here]
    have "g \<notin> set d1" "g \<notin> set c1" by simp_all
    from Cons.IH [OF run(4) [unfolded acc1] this rest] show ?thesis .
  qed
qed

lemma sum_list_concat_if:
  "sum_list (concat (map (\<lambda>a. if P a then [] else g a) as))
     = (\<Sum>a\<leftarrow>as. if P a then 0 else sum_list (g a))"
  for g :: "'a \<Rightarrow> real list"
  by (induction as) simp_all

lemma sum_list_concat_if':
  "sum_list (concat (map (\<lambda>a. if P a then g a else []) as))
     = (\<Sum>a\<leftarrow>as. if P a then sum_list (g a) else 0)"
  for g :: "'a \<Rightarrow> real list"
  by (induction as) simp_all

lemma Preprocess_conduction_current:
  assumes "EBM3_Function_Preprocess bc r rows = Inr (rows', cb)"
  shows "sum_list cb = net_conduction_current bc r"
proof -
  from assms have "cb = [] @ concat (map (\<lambda>nd. if \<not> obn_on_this_processor nd then []
                        else concat (map (\<lambda>rn.
                               if region_type (orn_region rn) = SemiconductorRegion
                               then [r (global_offset (orn_fvm_node rn) + 1)
                                     - r (global_offset (orn_fvm_node rn) + 2)]
                               else [])
                             (obn_region_node nd))) (ohmic_nodes bc))"
    unfolding EBM3_Function_Preprocess_def by (rule Preprocess_nodes_buffer)
  moreover have "(if \<not> P then a else b) = (if P then b else a)" for P and a b :: real
    by simp
  ultimately show ?thesis
    unfolding net_conduction_current_def
    by (simp add: sum_list_concat_if sum_list_concat_if' cong: if_cong)
qed

lemma displacement_currents_sum:
  "sum_list (ohmic_displacement_currents S x V rn)
     = (if TimeDependent S
        then (\<Sum>nb\<leftarrow>orn_neighbors rn.
                nb_cv_surface_area nb * nd_eps (orn_node_data rn)
                * (if TS_type S = BDF2 \<and> \<not> BDF2_restart S
                   then ((2 - dt_last S / (dt_last S + dt S))
                           / (1 - dt_last S / (dt_last S + dt S))
                           * (V - x (local_offset (nb_fvm_node nb) + 0))
                         - 1.0 / (dt_last S / (dt_last S + dt S)
                                    * (1 - dt_last S / (dt_last S + dt S)))
                           * (nd_psi (orn_node_data rn) - nd_psi (nb_node_data nb))
                         + (1 - dt_last S / (dt_last S + dt S))
                             / (dt_last S / (dt_last S + dt S))
                           * (nd_psi_last (orn_node_data rn) - nd_psi_last (nb_node_data nb)))
                        / nb_distance nb / (dt_last S + dt S)
                   else ((V - x (local_offset (nb_fvm_node nb) + 0))
                         - (nd_psi (orn_node_data rn) - nd_psi (nb_node_data nb)))
                        / nb_distance nb / dt S))
        else 0)"
  unfolding ohmic_displacement_currents_def ohmic_dEdt_def Let_def
  by (simp only: if_distrib [of sum_list] sum_list.Nil simp_thms)

lemma net_displacement_current_buffer:
  "sum_list (ohmic_all_displacement_currents env bc x) = net_displacement_current env bc x"
proof -
  have sw: "(if \<not> P then a else b) = (if P then b else a)" for P and a b :: real
    by simp
  have inner: "(if region_type (orn_region rn) = SemiconductorRegion
                then sum_list (ohmic_displacement_currents (env_specify env) x
                       (x (local_offset (orn_fvm_node rn)
                             + ebm_variable_offset (orn_region rn) POTENTIAL)) rn)
                else 0)
             = (if region_type (orn_region rn) = SemiconductorRegion
                   \<and> TimeDependent (env_specify env)
                then (\<Sum>nb\<leftarrow>orn_neighbors rn.
                        nb_cv_surface_area nb * nd_eps (orn_node_data rn)
                        * (let S = env_specify env;
                               V = x (local_offset (orn_fvm_node rn)
                                        + ebm_variable_offset (orn_region rn) POTENTIAL);
                               V_nb = x (local_offset (nb_fvm_node nb) + 0);
                               psi = nd_psi (orn_node_data rn);
                               psi_nb = nd_psi (nb_node_data nb);
                               psi_last = nd_psi_last (orn_node_data rn);
                               psi_last_nb = nd_psi_last (nb_node_data nb)
                           in if TS_type S = BDF2 \<and> \<not> BDF2_restart S
                              then (let r = dt_last S / (dt_last S + dt S)
                                    in ((2 - r) / (1 - r) * (V - V_nb)
                                        - 1.0 / (r * (1 - r)) * (psi - psi_nb)
                                        + (1 - r) / r * (psi_last - psi_last_nb))
                                       / nb_distance nb / (dt_last S + dt S))
                              else ((V - V_nb) - (psi - psi_nb)) / nb_distance nb / dt S))
                else 0)" for rn
    unfolding displacement_currents_sum Let_def by simp
  show ?thesis
    unfolding ohmic_all_displacement_currents_def net_displacement_current_def
      sum_list_concat_if sum_list_concat_if' inner sw ..
qed

lemma VecAddClearRow_out:
  assumes "g \<notin> set d" and "g \<notin> set c"
  shows "VecAddClearRow r s d c g = r g"
proof -
  have "snd ` set (zip s d) \<subseteq> set d" by (auto dest: set_zip_rightD)
  with assms(1) have "g \<notin> snd ` set (zip s d)" by blast
  from add_pairs_src_unchanged [OF this] assms(2) show ?thesis
    by (simp add: VecAddClearRow_def VecAddRowToRow_def zero_rows_out)
qed

lemma ohmic_contact_rows_out:
  assumes "g \<notin> set (ohmic_contact_rows bc)"
  shows "g \<notin> set (ohmic_node_rows bc)"
    and "\<forall>nd \<in> set (ohmic_nodes bc). \<forall>rn \<in> set (obn_region_node nd).
           g \<notin> region_node_rows rn
           \<and> g \<notin> {global_offset (orn_fvm_node rn), global_offset (orn_fvm_node rn) + 1,
                     global_offset (orn_fvm_node rn) + 2}"
proof -
  from assms show a: "g \<notin> set (ohmic_node_rows bc)"
    by (simp add: ohmic_contact_rows_def)
  from assms have b: "g \<notin> set (concat (map (\<lambda>nd. concat (map (\<lambda>rn.
                               [global_offset (orn_fvm_node rn) + 0,
                                global_offset (orn_fvm_node rn) + 1,
                                global_offset (orn_fvm_node rn) + 2])
                             (obn_region_node nd))) (ohmic_nodes bc)))"
    by (simp add: ohmic_contact_rows_def)
  show "\<forall>nd \<in> set (ohmic_nodes bc). \<forall>rn \<in> set (obn_region_node nd).
           g \<notin> region_node_rows rn
           \<and> g \<notin> {global_offset (orn_fvm_node rn), global_offset (orn_fvm_node rn) + 1,
                     global_offset (orn_fvm_node rn) + 2}"
  proof (intro ballI conjI)
    fix nd rn assume nd: "nd \<in> set (ohmic_nodes bc)" and rn: "rn \<in> set (obn_region_node nd)"
    from a nd rn show "g \<notin> region_node_rows rn"
      unfolding ohmic_node_rows_set by blast
    from b nd rn show "g \<notin> {global_offset (orn_fvm_node rn),
                              global_offset (orn_fvm_node rn) + 1,
                              global_offset (orn_fvm_node rn) + 2}"
      by auto
  qed
qed

lemma EBM3_boundary_residual_electrode_row:
  assumes "EBM3_boundary_residual env bc x r = Inr (f', ckt')"
    and "bc_global_offset bc \<notin> set (ohmic_contact_rows bc)"
  obtains lo f1 where "bc_local_offset bc = Some lo"
    and "f1 (bc_global_offset bc) = r (bc_global_offset bc)"
    and "f' = ohmic_circuit_term env bc x (x lo)
                (ohmic_current_term env bc (current_itering ckt') f1)"
    and "current_itering ckt'
           = z_width bc * (net_conduction_current bc r + net_displacement_current env bc x)"
proof -
  from assms(1) obtain s d c cb where
    pre: "EBM3_Function_Preprocess bc r ([], [], []) = Inr ((s, d, c), cb)"
    and fn: "EBM3_Function env bc cb x (VecAddClearRow r s d c) = Inr (f', ckt')"
    by (auto simp: EBM3_boundary_residual_def split: sum.splits)
  note out = ohmic_contact_rows_out [OF assms(2)]
  from pre have "EBM3_Function_Preprocess_nodes r (ohmic_nodes bc) (([], [], []), [])
                   = Inr ((s, d, c), cb)"
    by (simp add: EBM3_Function_Preprocess_def)
  from Preprocess_nodes_out [OF this _ _ out(2)]
  have "bc_global_offset bc \<notin> set d" "bc_global_offset bc \<notin> set c" by simp_all
  then have surgery: "VecAddClearRow r s d c (bc_global_offset bc) = r (bc_global_offset bc)"
    by (rule VecAddClearRow_out)
  from fn out(1) obtain lo f1 where lo: "bc_local_offset bc = Some lo"
    and row: "f1 (bc_global_offset bc) = VecAddClearRow r s d c (bc_global_offset bc)"
    and f': "f' = ohmic_circuit_term env bc x (x lo)
                (ohmic_current_term env bc (current_itering ckt') f1)"
    and cur: "current_itering ckt'
           = z_width bc * (sum_list cb + sum_list (ohmic_all_displacement_currents env bc x))"
    by (rule EBM3_Function_electrode_row)
  show thesis
    by (rule that [of lo f1])
       (simp_all add: lo row surgery f' cur Preprocess_conduction_current [OF pre]
          net_displacement_current_buffer)
qed

text \<open>C4 (current-driven electrode, as amended). The boundary part of a residual evaluation
  (preprocessing on the residual \<open>r\<close> of the region pass, row surgery, assembly) of a
  stand-alone current-driven electrode whose row is not a row of a mesh node leaves at the
  electrode's slot, on the last processor, what the slot held plus \<open>I + I_cap - I_app\<close>:
  \<open>I\<close> is the net conduction plus displacement current across the contact, scaled by
  the width of the device, \<open>I_cap\<close> the capacitor current of the previous step and
  \<open>I_app\<close> the applied current.\<close>

theorem current_driven_circuit_equation:
  assumes "is_current_driven (ext_circuit bc)" and "\<not> is_voltage_driven (ext_circuit bc)"
    and "\<not> is_inter_connect_bc bc" and "env_is_last_processor env"
    and "bc_global_offset bc \<notin> set (ohmic_contact_rows bc)"
    and "EBM3_boundary_residual env bc x r = Inr (f', ckt')"
    and "I = z_width bc * (net_conduction_current bc r + net_displacement_current env bc x)"
  shows "f' (bc_global_offset bc)
           = r (bc_global_offset bc) + (I + cap_current (ext_circuit bc) - Iapp (ext_circuit bc))"
proof -
  from assms(6,5) obtain lo f1 where "bc_local_offset bc = Some lo"
    and row: "f1 (bc_global_offset bc) = r (bc_global_offset bc)"
    and f': "f' = ohmic_circuit_term env bc x (x lo)
                (ohmic_current_term env bc (current_itering ckt') f1)"
    and cur: "current_itering ckt'
           = z_width bc * (net_conduction_current bc r + net_displacement_current env bc x)"
    by (rule EBM3_boundary_residual_electrode_row)
  show ?thesis
    unfolding f' current_driven_terms [OF assms(1-4)] row cur assms(7) ..
qed

text \<open>C3 (voltage-driven electrode). The boundary part of a residual evaluation
  (preprocessing on the residual \<open>r\<close> of the region pass, row surgery, assembly) of a
  stand-alone voltage-driven electrode whose row is not a row of a mesh node leaves at the
  electrode's slot, on the last processor, what the slot held (zero after
  \<open>VecZeroEntries\<close>) plus
  \<open>(L/dt+R)*I + (Ve - Vapp) + (L/dt+R)*(C/dt)*(Ve - V_prev) - (L/dt)*(I_prev + I_cap_prev)\<close>,
  where \<open>I\<close> is the net conduction plus displacement current across the contact, scaled
  by the width of the device. Without series resistance and inductance (the scenario
  \<open>R = 0\<close>, \<open>L = 0\<close>, \<open>C = 0\<close>, \<open>Vapp = 5\<close> is such a circuit) the equation is
  \<open>Ve - Vapp\<close>, and the assembly of the Jacobian adds to the electrode's row the value
  1.0 on the diagonal and nothing else.\<close>

theorem voltage_driven_circuit_equation:
  assumes "is_voltage_driven (ext_circuit bc)" and "\<not> is_current_driven (ext_circuit bc)"
    and "\<not> is_inter_connect_bc bc" and "env_is_last_processor env"
    and "bc_global_offset bc \<notin> set (ohmic_contact_rows bc)"
    and "bc_local_offset bc = Some lo"
    and "EBM3_boundary_residual env bc x r = Inr (f', ckt')"
    and "EBM3_Jacobian_Preprocess env bc jac0 rows0 = Inr (rows, buffers)"
    and "EBM3_Jacobian env semi_AD bc buffers x jac = Inr jac'"
    and "I = z_width bc * (net_conduction_current bc r + net_displacement_current env bc x)"
    and "Ve = x lo"
  shows "f' (bc_global_offset bc)
           = r (bc_global_offset bc)
             + ((ckt_L (ext_circuit bc) / dt (env_specify env) + ckt_R (ext_circuit bc)) * I
                + (Ve - Vapp (ext_circuit bc))
                + (ckt_L (ext_circuit bc) / dt (env_specify env) + ckt_R (ext_circuit bc))
                    * (ckt_C (ext_circuit bc) / dt (env_specify env))
                    * (Ve - ckt_potential (ext_circuit bc))
                - ckt_L (ext_circuit bc) / dt (env_specify env)
                    * (ckt_current (ext_circuit bc) + cap_current (ext_circuit bc)))
       \<and> (ckt_R (ext_circuit bc) = 0 \<and> ckt_L (ext_circuit bc) = 0 \<longrightarrow>
            f' (bc_global_offset bc) = r (bc_global_offset bc) + (Ve - Vapp (ext_circuit bc))
            \<and> (\<forall>c. jac' (bc_global_offset bc) c
                      = jac (bc_global_offset bc) c + (if c = bc_global_offset bc then 1 else 0)))"
proof -
  from assms(7,5) obtain lo' f1 where lo': "bc_local_offset bc = Some lo'"
    and row: "f1 (bc_global_offset bc) = r (bc_global_offset bc)"
    and f': "f' = ohmic_circuit_term env bc x (x lo')
                (ohmic_current_term env bc (current_itering ckt') f1)"
    and cur: "current_itering ckt'
           = z_width bc * (net_conduction_current bc r + net_displacement_current env bc x)"
    by (rule EBM3_boundary_residual_electrode_row)
  from lo' assms(6) have lo_eq: "lo' = lo" by simp
  from ohmic_contact_rows_out(1) [OF assms(5)]
  have layout: "bc_global_offset bc \<notin> set (ohmic_node_rows bc)" .
  have residual: "f' (bc_global_offset bc)
           = r (bc_global_offset bc)
             + ((ckt_L (ext_circuit bc) / dt (env_specify env) + ckt_R (ext_circuit bc)) * I
                + (Ve - Vapp (ext_circuit bc))
                + (ckt_L (ext_circuit bc) / dt (env_specify env) + ckt_R (ext_circuit bc))
                    * (ckt_C (ext_circuit bc) / dt (env_specify env))
                    * (Ve - ckt_potential (ext_circuit bc))
                - ckt_L (ext_circuit bc) / dt (env_specify env)
                    * (ckt_current (ext_circuit bc) + cap_current (ext_circuit bc)))"
    unfolding f' voltage_driven_terms [OF assms(1-4)] row cur assms(10,11) lo_eq ..
  have ideal: "f' (bc_global_offset bc) = r (bc_global_offset bc) + (Ve - Vapp (ext_circuit bc))
            \<and> (\<forall>c. jac' (bc_global_offset bc) c
                      = jac (bc_global_offset bc) c + (if c = bc_global_offset bc then 1 else 0))"
    if z: "ckt_R (ext_circuit bc) = 0 \<and> ckt_L (ext_circuit bc) = 0"
  proof -
    from z assms(1-3) have i: "ideal_voltage_drive bc" by (simp add: ideal_voltage_drive_def)
    from residual z have "f' (bc_global_offset bc)
                            = r (bc_global_offset bc) + (Ve - Vapp (ext_circuit bc))"
      by simp
    with EBM3_Jacobian_electrode_row [OF i assms(4) layout assms(8,9)] show ?thesis by simp
  qed
  from residual ideal show ?thesis by blast
qed

lemma example_contact_contact_rows:
  "ohmic_contact_rows (example_contact ckt) = [0, 1, 2, 3, 4, 5, 0, 1, 2]"
  by (simp add: ohmic_contact_rows_def example_contact_rows)
     (simp add: example_contact_def example_contact_node_def node_at_def)

lemma example_contact_boundary_residual:
  "\<exists>f' ckt'. EBM3_boundary_residual env (example_contact ckt) x r = Inr (f', ckt')"
  by (simp add: EBM3_boundary_residual_def EBM3_Function_Preprocess_def EBM3_Function_def
      example_contact_def example_contact_node_def plain_region_def Let_def)

lemma example_contact_Jacobian_Preprocess:
  "\<exists>rows buffers. EBM3_Jacobian_Preprocess env (example_contact ckt) jac0 ([], [], [])
                    = Inr (rows, buffers)"
  by (simp add: EBM3_Jacobian_Preprocess_def example_contact_def example_contact_node_def
      plain_region_def get_region_fvm_node_def Let_def)

lemma example_contact_Jacobian:
  "\<exists>jac'. EBM3_Jacobian env unit_AD (example_contact ckt) buffers x jac = Inr jac'"
  by (simp add: EBM3_Jacobian_def example_contact_def example_contact_node_def
      plain_region_def Let_def)

lemma example_contact_conduction:
  "net_conduction_current (example_contact ckt) r = r 1 - r 2"
  by (simp add: net_conduction_current_def example_contact_def example_contact_node_def
      plain_region_def node_at_def numeral_2_eq_2)

lemma example_contact_transient_displacement:
  "net_displacement_current transient_env (example_contact ckt) x = x 0 - x 3"
  by (simp add: net_displacement_current_def example_contact_def example_contact_node_def
      plain_region_def node_at_def example_node_data_def transient_env_def steady_env_def
      transient_BDF1_def Let_def)

lemma example_contact_steady_displacement:
  "net_displacement_current steady_env (example_contact ckt) x = 0"
  by (simp add: net_displacement_current_def example_contact_def example_contact_node_def
      plain_region_def steady_env_def default_specify_def)

text \<open>The contact in a transient step with \<open>dt = 1\<close>: the continuity rows hold 3 and 1, so
  the conduction current is 2; the potential is 4 at the contact node and 1 at its
  neighbour, both were 0 before, so the displacement current is 3 and \<open>I = 5\<close>. With
  \<open>Ve = 7\<close> the residual of the electrode is \<open>5*5 + (7 - 5) + 5*5*(7 - 6) - 3*(1 + 4)\<close>.
  In the scenario \<open>R = 0\<close>, \<open>L = 0\<close>, \<open>C = 0\<close>, \<open>Vapp = 5\<close> with electrode potential 7 the
  residual is \<open>7 - 5\<close>, and in the row of the electrode the Jacobian holds 1 on the
  diagonal and 0 in the column of the node potential.\<close>

theorem voltage_driven_circuit_equation_witness:
  "fst (projr (EBM3_boundary_residual transient_env (example_contact series_RLC_source)
                 (VecZeroEntries(0 := 4, 3 := 1, 6 := 7)) (VecZeroEntries(1 := 3, 2 := 1)))) 6
     = 5 * 5 + (7 - 5) + 5 * 5 * (7 - 6) - 3 * (1 + 4)
   \<and> fst (projr (EBM3_boundary_residual steady_env (example_contact voltage_source_5V)
                 (VecZeroEntries(6 := 7)) (VecZeroEntries(1 := 3, 2 := 1)))) 6 = 7 - 5
   \<and> projr (EBM3_Jacobian steady_env unit_AD (example_contact voltage_source_5V)
               (snd (projr (EBM3_Jacobian_Preprocess steady_env
                              (example_contact voltage_source_5V) MatZeroEntries ([], [], []))))
               (VecZeroEntries(6 := 7)) MatZeroEntries) 6 6 = 1
   \<and> projr (EBM3_Jacobian steady_env unit_AD (example_contact voltage_source_5V)
               (snd (projr (EBM3_Jacobian_Preprocess steady_env
                              (example_contact voltage_source_5V) MatZeroEntries ([], [], []))))
               (VecZeroEntries(6 := 7)) MatZeroEntries) 6 0 = 0"
proof -
  let ?r = "VecZeroEntries(1 := 3, 2 := 1)"
  have transient: "fst (projr (EBM3_boundary_residual transient_env
                     (example_contact series_RLC_source)
                     (VecZeroEntries(0 := 4, 3 := 1, 6 := 7)) ?r)) 6
                   = 5 * 5 + (7 - 5) + 5 * 5 * (7 - 6) - 3 * (1 + 4)"
  proof -
    let ?bc = "example_contact series_RLC_source"
    let ?x = "VecZeroEntries(0 := 4, 3 := 1, 6 := 7)"
    obtain f' ckt' where f: "EBM3_boundary_residual transient_env ?bc ?x ?r = Inr (f', ckt')"
      using example_contact_boundary_residual by blast
    obtain rows buffers where
      p: "EBM3_Jacobian_Preprocess transient_env ?bc MatZeroEntries ([], [], [])
            = Inr (rows, buffers)"
      using example_contact_Jacobian_Preprocess by blast
    obtain jac' where
      j: "EBM3_Jacobian transient_env unit_AD ?bc buffers ?x MatZeroEntries = Inr jac'"
      using example_contact_Jacobian by blast
    have d1: "is_voltage_driven (ext_circuit ?bc)"
      and d2: "\<not> is_current_driven (ext_circuit ?bc)"
      and d3: "\<not> is_inter_connect_bc ?bc" and d4: "env_is_last_processor transient_env"
      and lo: "bc_local_offset ?bc = Some 6"
      by (simp_all add: example_contact_def series_RLC_source_def transient_env_def
          steady_env_def)
    have layout: "bc_global_offset ?bc \<notin> set (ohmic_contact_rows ?bc)"
      unfolding example_contact_contact_rows by (simp add: example_contact_def)
    from voltage_driven_circuit_equation [OF d1 d2 d3 d4 layout lo f p j refl refl]
    have "f' (bc_global_offset ?bc)
           = ?r (bc_global_offset ?bc)
             + ((ckt_L (ext_circuit ?bc) / dt (env_specify transient_env)
                   + ckt_R (ext_circuit ?bc))
                  * (z_width ?bc * (net_conduction_current ?bc ?r
                                     + net_displacement_current transient_env ?bc ?x))
                + (?x 6 - Vapp (ext_circuit ?bc))
                + (ckt_L (ext_circuit ?bc) / dt (env_specify transient_env)
                     + ckt_R (ext_circuit ?bc))
                    * (ckt_C (ext_circuit ?bc) / dt (env_specify transient_env))
                    * (?x 6 - ckt_potential (ext_circuit ?bc))
                - ckt_L (ext_circuit ?bc) / dt (env_specify transient_env)
                    * (ckt_current (ext_circuit ?bc) + cap_current (ext_circuit ?bc)))"
      by blast
    then have "f' 6 = 5 * 5 + (7 - 5) + 5 * 5 * (7 - 6) - 3 * (1 + 4)"
      unfolding example_contact_conduction example_contact_transient_displacement
      by (simp add: example_contact_def series_RLC_source_def transient_env_def steady_env_def
          transient_BDF1_def VecZeroEntries_def)
    with f show ?thesis by simp
  qed
  have steady: "fst (projr (EBM3_boundary_residual steady_env
                     (example_contact voltage_source_5V) (VecZeroEntries(6 := 7)) ?r)) 6 = 7 - 5
     \<and> projr (EBM3_Jacobian steady_env unit_AD (example_contact voltage_source_5V)
               (snd (projr (EBM3_Jacobian_Preprocess steady_env
                              (example_contact voltage_source_5V) MatZeroEntries ([], [], []))))
               (VecZeroEntries(6 := 7)) MatZeroEntries) 6 6 = 1
     \<and> projr (EBM3_Jacobian steady_env unit_AD (example_contact voltage_source_5V)
               (snd (projr (EBM3_Jacobian_Preprocess steady_env
                              (example_contact voltage_source_5V) MatZeroEntries ([], [], []))))
               (VecZeroEntries(6 := 7)) MatZeroEntries) 6 0 = 0"
  proof -
    let ?bc = "example_contact voltage_source_5V"
    let ?x = "VecZeroEntries(6 := 7)"
    obtain f' ckt' where f: "EBM3_boundary_residual steady_env ?bc ?x ?r = Inr (f', ckt')"
      using example_contact_boundary_residual by blast
    obtain rows buffers where
      p: "EBM3_Jacobian_Preprocess steady_env ?bc MatZeroEntries ([], [], [])
            = Inr (rows, buffers)"
      using example_contact_Jacobian_Preprocess by blast
    obtain jac' where
      j: "EBM3_Jacobian steady_env unit_AD ?bc buffers ?x MatZeroEntries = Inr jac'"
      using example_contact_Jacobian by blast
    have d1: "is_voltage_driven (ext_circuit ?bc)"
      and d2: "\<not> is_current_driven (ext_circuit ?bc)"
      and d3: "\<not> is_inter_connect_bc ?bc" and d4: "env_is_last_processor steady_env"
      and lo: "bc_local_offset ?bc = Some 6"
      by (simp_all add: example_contact_def voltage_source_5V_def steady_env_def)
    have layout: "bc_global_offset ?bc \<notin> set (ohmic_contact_rows ?bc)"
      unfolding example_contact_contact_rows by (simp add: example_contact_def)
    have zero: "ckt_R (ext_circuit ?bc) = 0 \<and> ckt_L (ext_circuit ?bc) = 0"
      by (simp add: example_contact_def voltage_source_5V_def)
    from voltage_driven_circuit_equation [OF d1 d2 d3 d4 layout lo f p j refl refl] zero
    have "f' (bc_global_offset ?bc) = ?r (bc_global_offset ?bc)
                                        + (?x 6 - Vapp (ext_circuit ?bc))"
      and "\<forall>c. jac' (bc_global_offset ?bc) c
              = MatZeroEntries (bc_global_offset ?bc) c
                + (if c = bc_global_offset ?bc then 1 else 0)"
      by blast+
    then have "f' 6 = 7 - 5" and "jac' 6 6 = 1" and "jac' 6 0 = 0"
      by (simp_all add: example_contact_def voltage_source_5V_def VecZeroEntries_def
          MatZeroEntries_def)
    with f p j show ?thesis by simp
  qed
  from transient steady show ?thesis by blast
qed

text \<open>A current source of 1 in the same transient step: the conduction current is 2, the
  displacement current 3, and the residual of the electrode is \<open>5 + 0 - 1\<close>.\<close>

theorem current_driven_circuit_equation_witness:
  "fst (projr (EBM3_boundary_residual transient_env (example_contact current_source)
                 (VecZeroEntries(0 := 4, 3 := 1)) (VecZeroEntries(1 := 3, 2 := 1)))) 6
     = 5 + 0 - 1"
proof -
  let ?bc = "example_contact current_source"
  let ?x = "VecZeroEntries(0 := 4, 3 := 1)"
  let ?r = "VecZeroEntries(1 := 3, 2 := 1)"
  obtain f' ckt' where f: "EBM3_boundary_residual transient_env ?bc ?x ?r = Inr (f', ckt')"
    using example_contact_boundary_residual by blast
  have d1: "is_current_driven (ext_circuit ?bc)" and d2: "\<not> is_voltage_driven (ext_circuit ?bc)"
    and d3: "\<not> is_inter_connect_bc ?bc" and d4: "env_is_last_processor transient_env"
    by (simp_all add: example_contact_def current_source_def transient_env_def steady_env_def)
  have layout: "bc_global_offset ?bc \<notin> set (ohmic_contact_rows ?bc)"
    unfolding example_contact_contact_rows by (simp add: example_contact_def)
  have "f' (bc_global_offset ?bc)
          = ?r (bc_global_offset ?bc)
            + (z_width ?bc * (net_conduction_current ?bc ?r
                               + net_displacement_current transient_env ?bc ?x)
               + cap_current (ext_circuit ?bc) - Iapp (ext_circuit ?bc))"
    using current_driven_circuit_equation [OF d1 d2 d3 d4 layout f refl] .
  then have "f' 6 = 5 + 0 - 1"
    unfolding example_contact_conduction example_contact_transient_displacement
    by (simp add: example_contact_def current_source_def VecZeroEntries_def)
  with f show ?thesis by simp
qed

section \<open>Properties of the edge-wise fluxes\<close>

lemma sum_VecSetValue_ADD:
  assumes "i < n"
  shows "(\<Sum>k<n. VecSetValue_ADD f i v k) = (\<Sum>k<n. f k) + v"
proof -
  have fin: "finite {..<n}" and mem: "i \<in> {..<n}" using assms by simp_all
  have "(\<Sum>k<n. VecSetValue_ADD f i v k)
          = VecSetValue_ADD f i v i + (\<Sum>k \<in> {..<n} - {i}. VecSetValue_ADD f i v k)"
    by (rule sum.remove [OF fin mem])
  also have "(\<Sum>k \<in> {..<n} - {i}. VecSetValue_ADD f i v k) = (\<Sum>k \<in> {..<n} - {i}. f k)"
    by (rule sum.cong) (simp_all add: VecSetValue_ADD_def)
  also have "VecSetValue_ADD f i v i = f i + v" by (simp add: VecSetValue_ADD_def)
  finally have "(\<Sum>k<n. VecSetValue_ADD f i v k)
                  = (f i + (\<Sum>k \<in> {..<n} - {i}. f k)) + v" by simp
  also have "f i + (\<Sum>k \<in> {..<n} - {i}. f k) = (\<Sum>k<n. f k)"
    by (rule sum.remove [OF fin mem, symmetric])
  finally show ?thesis .
qed

lemma sum_VecSetValues_ADD:
  assumes "\<forall>(i, v) \<in> set iy. i < n"
  shows "(\<Sum>k<n. VecSetValues_ADD f iy k) = (\<Sum>k<n. f k) + sum_list (map snd iy)"
  using assms unfolding VecSetValues_ADD_def
proof (induction iy arbitrary: f)
  case Nil
  then show ?case by simp
next
  case (Cons a iy)
  obtain i v where a: "a = (i, v)" by (cases a)
  with Cons.prems have i: "i < n" and rest: "\<forall>(i, v) \<in> set iy. i < n" by auto
  show ?case
    unfolding a using Cons.IH [OF rest, of "VecSetValue_ADD f i v"] sum_VecSetValue_ADD [OF i, of f v]
    by simp
qed

lemma DDM1_Function_edge_entries:
  assumes "on_processor (ddm_fvm_node (edge_first edge))"
    and "on_processor (ddm_fvm_node (edge_second edge))"
  shows "map fst (snd (DDM1_Function_edge U M region x edge))
           = [global_offset (ddm_fvm_node (edge_first edge)),
              global_offset (ddm_fvm_node (edge_second edge))]
       \<and> snd (snd (DDM1_Function_edge U M region x edge) ! 1)
           = - snd (snd (DDM1_Function_edge U M region x edge) ! 0)"
  using assms by (simp add: DDM1_Function_edge_def Let_def)

lemma DDM1_Function_edge_sum:
  assumes "on_processor (ddm_fvm_node (edge_first edge))"
    and "on_processor (ddm_fvm_node (edge_second edge))"
  shows "sum_list (map snd (snd (DDM1_Function_edge U M region x edge))) = 0"
  using assms by (simp add: DDM1_Function_edge_def Let_def)

lemma DDM1_Function_elem_edge_shape:
  assumes "on_processor (ddm_fvm_node (ee_first edge))"
    and "on_processor (ddm_fvm_node (ee_second edge))"
  shows "\<exists>Jn Jp t. DDM1_Function_elem_edge region buffers x elem edge
           = [(global_offset (ddm_fvm_node (ee_first edge)) + 1, Jn * t),
              (global_offset (ddm_fvm_node (ee_first edge)) + 2, - Jp * t),
              (global_offset (ddm_fvm_node (ee_second edge)) + 1, - Jn * t),
              (global_offset (ddm_fvm_node (ee_second edge)) + 2, Jp * t)]"
proof -
  obtain Jnb Jpb where b: "buffers = (Jnb, Jpb)" by (cases buffers)
  show ?thesis
    unfolding b DDM1_Function_elem_edge_def Let_def prod.case
    apply (simp only: assms if_True append_Cons append_Nil)
    apply (intro exI)
    apply (rule refl)
    done
qed

lemma DDM1_Function_elem_edge_entries:
  assumes "on_processor (ddm_fvm_node (ee_first edge))"
    and "on_processor (ddm_fvm_node (ee_second edge))"
  shows "map fst (DDM1_Function_elem_edge region buffers x elem edge)
           = [global_offset (ddm_fvm_node (ee_first edge)) + 1,
              global_offset (ddm_fvm_node (ee_first edge)) + 2,
              global_offset (ddm_fvm_node (ee_second edge)) + 1,
              global_offset (ddm_fvm_node (ee_second edge)) + 2]
       \<and> snd (DDM1_Function_elem_edge region buffers x elem edge ! 2)
           = - snd (DDM1_Function_elem_edge region buffers x elem edge ! 0)
       \<and> snd (DDM1_Function_elem_edge region buffers x elem edge ! 3)
           = - snd (DDM1_Function_elem_edge region buffers x elem edge ! 1)"
proof -
  from DDM1_Function_elem_edge_shape [OF assms, of region buffers x elem]
  obtain Jn Jp t where "DDM1_Function_elem_edge region buffers x elem edge
           = [(global_offset (ddm_fvm_node (ee_first edge)) + 1, Jn * t),
              (global_offset (ddm_fvm_node (ee_first edge)) + 2, - Jp * t),
              (global_offset (ddm_fvm_node (ee_second edge)) + 1, - Jn * t),
              (global_offset (ddm_fvm_node (ee_second edge)) + 2, Jp * t)]"
    by blast
  then show ?thesis by (simp add: numeral_3_eq_3 numeral_2_eq_2)
qed

lemma DDM1_Function_elem_edge_sum:
  assumes "on_processor (ddm_fvm_node (ee_first edge))"
    and "on_processor (ddm_fvm_node (ee_second edge))"
  shows "sum_list (map snd (DDM1_Function_elem_edge region buffers x elem edge)) = 0"
proof -
  from DDM1_Function_elem_edge_shape [OF assms, of region buffers x elem]
  obtain Jn Jp t where "DDM1_Function_elem_edge region buffers x elem edge
           = [(global_offset (ddm_fvm_node (ee_first edge)) + 1, Jn * t),
              (global_offset (ddm_fvm_node (ee_first edge)) + 2, - Jp * t),
              (global_offset (ddm_fvm_node (ee_second edge)) + 1, - Jn * t),
              (global_offset (ddm_fvm_node (ee_second edge)) + 2, Jp * t)]"
    by blast
  then show ?thesis by simp
qed

lemma DDM1_Function_edges_fold:
  "fold (\<lambda>edge acc.
             case acc of ((Jn_edge_buffer, Jp_edge_buffer), iy) \<Rightarrow>
               (case DDM1_Function_edge U M region x edge of
                  ((Jn_edge, Jp_edge), entries) \<Rightarrow>
                    ((Jn_edge_buffer @ [Jn_edge], Jp_edge_buffer @ [Jp_edge]), iy @ entries)))
          edges ((Jnb, Jpb), iy)
     = ((Jnb @ map (\<lambda>edge. fst (fst (DDM1_Function_edge U M region x edge))) edges,
         Jpb @ map (\<lambda>edge. snd (fst (DDM1_Function_edge U M region x edge))) edges),
        iy @ concat (map (\<lambda>edge. snd (DDM1_Function_edge U M region x edge)) edges))"
  by (induction edges arbitrary: Jnb Jpb iy) (simp_all add: case_prod_beta)

lemma DDM1_Function_edges_eq:
  "DDM1_Function_edges U M region x
     = ((map (\<lambda>edge. fst (fst (DDM1_Function_edge U M region x edge))) (ssr_edges region),
         map (\<lambda>edge. snd (fst (DDM1_Function_edge U M region x edge))) (ssr_edges region)),
        concat (map (\<lambda>edge. snd (DDM1_Function_edge U M region x edge)) (ssr_edges region)))"
  unfolding DDM1_Function_edges_def DDM1_Function_edges_fold by simp

lemma DDM1_Function_elements_eq:
  "DDM1_Function_elements region buffers x iy
     = iy @ concat (map (\<lambda>elem. concat (map (DDM1_Function_elem_edge region buffers x elem)
                                            (elem_edges elem)))
                     (ssr_elements region))"
proof -
  have inner: "fold (\<lambda>edge iy''. iy'' @ g edge) es iy' = iy' @ concat (map g es)"
    for g :: "ElemEdge \<Rightarrow> (nat \<times> real) list" and es iy'
    by (induction es arbitrary: iy') simp_all
  have outer: "fold (\<lambda>elem iy'. iy' @ h elem) els iy' = iy' @ concat (map h els)"
    for h :: "Elem \<Rightarrow> (nat \<times> real) list" and els iy'
    by (induction els arbitrary: iy') simp_all
  show ?thesis
    unfolding DDM1_Function_elements_def inner outer ..
qed

lemma sum_list_concat_zero:
  assumes "\<forall>a \<in> set as. sum_list (map snd (g a)) = (0::real)"
  shows "sum_list (map snd (concat (map g as))) = 0"
  using assms by (induction as) simp_all

lemma DDM1_Function_flux_entries_rows:
  assumes "all_nodes_on_processor region"
  shows "map fst (DDM1_Function_flux_entries U M region x)
           = concat (map (\<lambda>edge. [global_offset (ddm_fvm_node (edge_first edge)),
                                   global_offset (ddm_fvm_node (edge_second edge))])
                         (ssr_edges region))
             @ concat (map (\<lambda>elem. concat (map
                   (\<lambda>edge. [global_offset (ddm_fvm_node (ee_first edge)) + 1,
                            global_offset (ddm_fvm_node (ee_first edge)) + 2,
                            global_offset (ddm_fvm_node (ee_second edge)) + 1,
                            global_offset (ddm_fvm_node (ee_second edge)) + 2])
                   (elem_edges elem))) (ssr_elements region))"
proof -
  from assms have e_on: "on_processor (ddm_fvm_node (edge_first edge))
                            \<and> on_processor (ddm_fvm_node (edge_second edge))"
    if "edge \<in> set (ssr_edges region)" for edge
    using that by (auto simp: all_nodes_on_processor_def list_all_iff)
  from assms have c_on: "on_processor (ddm_fvm_node (ee_first edge))
                            \<and> on_processor (ddm_fvm_node (ee_second edge))"
    if "elem \<in> set (ssr_elements region)" "edge \<in> set (elem_edges elem)" for elem edge
    using that by (auto simp: all_nodes_on_processor_def list_all_iff)
  have p: "map (\<lambda>edge. map fst (snd (DDM1_Function_edge U M region x edge))) (ssr_edges region)
           = map (\<lambda>edge. [global_offset (ddm_fvm_node (edge_first edge)),
                          global_offset (ddm_fvm_node (edge_second edge))]) (ssr_edges region)"
    by (rule map_cong [OF refl]) (use e_on DDM1_Function_edge_entries in blast)
  have c: "map (\<lambda>elem. concat (map (\<lambda>edge. map fst (DDM1_Function_elem_edge region b x elem edge))
                                    (elem_edges elem))) (ssr_elements region)
           = map (\<lambda>elem. concat (map
                   (\<lambda>edge. [global_offset (ddm_fvm_node (ee_first edge)) + 1,
                            global_offset (ddm_fvm_node (ee_first edge)) + 2,
                            global_offset (ddm_fvm_node (ee_second edge)) + 1,
                            global_offset (ddm_fvm_node (ee_second edge)) + 2])
                   (elem_edges elem))) (ssr_elements region)" for b
  proof (rule map_cong [OF refl])
    fix elem assume el: "elem \<in> set (ssr_elements region)"
    have "map (\<lambda>edge. map fst (DDM1_Function_elem_edge region b x elem edge)) (elem_edges elem)
          = map (\<lambda>edge. [global_offset (ddm_fvm_node (ee_first edge)) + 1,
                         global_offset (ddm_fvm_node (ee_first edge)) + 2,
                         global_offset (ddm_fvm_node (ee_second edge)) + 1,
                         global_offset (ddm_fvm_node (ee_second edge)) + 2]) (elem_edges elem)"
      by (rule map_cong [OF refl]) (use c_on [OF el] DDM1_Function_elem_edge_entries in blast)
    then show "concat (map (\<lambda>edge. map fst (DDM1_Function_elem_edge region b x elem edge))
                           (elem_edges elem))
               = concat (map (\<lambda>edge. [global_offset (ddm_fvm_node (ee_first edge)) + 1,
                         global_offset (ddm_fvm_node (ee_first edge)) + 2,
                         global_offset (ddm_fvm_node (ee_second edge)) + 1,
                         global_offset (ddm_fvm_node (ee_second edge)) + 2]) (elem_edges elem))"
      by (rule arg_cong [of _ _ concat])
  qed
  show ?thesis
    unfolding DDM1_Function_flux_entries_def DDM1_Function_edges_eq prod.case
      DDM1_Function_elements_eq
    by (simp add: map_concat comp_def p c)
qed

lemma DDM1_Function_edge_explicit:
  assumes "on_processor (ddm_fvm_node (edge_first edge))"
    and "on_processor (ddm_fvm_node (edge_second edge))"
  shows "DDM1_Function_edge U M region x edge =
     (let kb = PU_kb U;
          ee = PU_e U;
          T = ssr_T_external region;
          Vt = kb * T / ee;
          fvm_n1 = edge_first edge;
          fvm_n2 = edge_second edge;
          n1_data = ddm_node_data fvm_n1;
          n2_data = ddm_node_data fvm_n2;
          n1_local_offset = local_offset (ddm_fvm_node fvm_n1);
          n2_local_offset = local_offset (ddm_fvm_node fvm_n2);
          V1 = x (n1_local_offset + 0);
          n1 = x (n1_local_offset + 1);
          p1 = x (n1_local_offset + 2);
          V2 = x (n2_local_offset + 0);
          n2 = x (n2_local_offset + 1);
          p2 = x (n2_local_offset + 2);
          Ec1 = - (ee * V1 + nd_affinity n1_data + kb * T * ln (band_nie n1_data p1 n1 T))
                - (if ssr_Fermi region
                   then ee * Vt * ln (gamma_f M (\<bar>n1\<bar> / ddm_Nc fvm_n1)) else 0);
          Ev1 = - (ee * V1 + nd_affinity n1_data - kb * T * ln (band_nie n1_data p1 n1 T))
                + (if ssr_Fermi region
                   then ee * Vt * ln (gamma_f M (\<bar>p1\<bar> / ddm_Nv fvm_n1)) else 0);
          Ec2 = - (ee * V2 + nd_affinity n2_data + kb * T * ln (band_nie n2_data p2 n2 T))
                - (if ssr_Fermi region
                   then ee * Vt * ln (gamma_f M (\<bar>n2\<bar> / ddm_Nc fvm_n2)) else 0);
          Ev2 = - (ee * V2 + nd_affinity n2_data - kb * T * ln (band_nie n2_data p2 n2 T))
                + (if ssr_Fermi region
                   then ee * Vt * ln (gamma_f M (\<bar>p2\<bar> / ddm_Nv fvm_n2)) else 0);
          f = 0.5 * (nd_eps n1_data + nd_eps n2_data) * edge_cv_surface_area edge * (V2 - V1)
              / edge_distance edge
      in ((In_dd M Vt ((Ec2 - Ec1) / ee) n1 n2 (edge_distance edge),
           Ip_dd M Vt ((Ev2 - Ev1) / ee) p1 p2 (edge_distance edge)),
          [(global_offset (ddm_fvm_node fvm_n1), f),
           (global_offset (ddm_fvm_node fvm_n2), - f)]))"
  using assms by (simp add: DDM1_Function_edge_def Let_def)

lemma DDM1_Function_elem_edge_explicit:
  assumes "on_processor (ddm_fvm_node (ee_first edge))"
    and "on_processor (ddm_fvm_node (ee_second edge))"
  shows "DDM1_Function_elem_edge region buffers x elem edge =
     (let truncation =
            (ssr_VoronoiTruncation region = VoronoiTruncationAlways
             \<or> (ssr_VoronoiTruncation region = VoronoiTruncationBoundary
                 \<and> (elem_on_boundary elem \<or> elem_on_interface elem)));
          truncated_partial_area =
            (if truncation then max 0.0 (ee_partial_area edge) else ee_partial_area edge);
          fvm_n1 = ee_first edge;
          fvm_n2 = ee_second edge;
          inverse = (ddm_root_node_id fvm_n1 > ddm_root_node_id fvm_n2);
          mobilities = (if ssr_highfield_mob region then ee_highfield_mobility edge x
                        else ((ddm_mun fvm_n1, ddm_mup fvm_n1),
                              (ddm_mun fvm_n2, ddm_mup fvm_n2)));
          mun = 0.5 * (fst (fst mobilities) + fst (snd mobilities));
          mup = 0.5 * (snd (fst mobilities) + snd (snd mobilities));
          Jn = mun * (if inverse then - (fst buffers ! ee_edge_index edge)
                      else fst buffers ! ee_edge_index edge);
          Jp = mup * (if inverse then - (snd buffers ! ee_edge_index edge)
                      else snd buffers ! ee_edge_index edge)
      in [(global_offset (ddm_fvm_node fvm_n1) + 1, Jn * truncated_partial_area),
          (global_offset (ddm_fvm_node fvm_n1) + 2, - Jp * truncated_partial_area),
          (global_offset (ddm_fvm_node fvm_n2) + 1, - Jn * truncated_partial_area),
          (global_offset (ddm_fvm_node fvm_n2) + 2, Jp * truncated_partial_area)])"
proof -
  obtain Jnb Jpb where b: "buffers = (Jnb, Jpb)" by (cases buffers)
  show ?thesis
    unfolding b DDM1_Function_elem_edge_def Let_def prod.case fst_conv snd_conv
    by (simp only: assms if_True append_Cons append_Nil)
qed

lemma DDM1_Function_flux_row:
  "DDM1_Function_flux U M region x f k
     = f k + sum_list (map (\<lambda>(i, v). if i = k then v else 0)
                         (DDM1_Function_flux_entries U M region x))"
  unfolding DDM1_Function_flux_def by (rule VecSetValues_ADD_row)

lemma DDM1_Function_flux_entries_eq:
  "DDM1_Function_flux_entries U M region x
     = concat (map (\<lambda>edge. snd (DDM1_Function_edge U M region x edge)) (ssr_edges region))
       @ concat (map (\<lambda>elem. concat (map (DDM1_Function_elem_edge region
                                             (fst (DDM1_Function_edges U M region x)) x elem)
                                         (elem_edges elem)))
                     (ssr_elements region))"
  unfolding DDM1_Function_flux_entries_def DDM1_Function_edges_eq prod.case
    DDM1_Function_elements_eq fst_conv ..

text \<open>Claim C6. In a region whose nodes all belong to this processor, each edge-wise flux
  is computed once per edge and enters the equations of the two end nodes with opposite
  signs. The two buffers of Scharfetter-Gummel currents hold exactly one pair of values
  per edge of the region, the pair that the edge loop computed for that edge from the
  unknowns at its two nodes; the same pass adds the flux \<open>f\<close> of Poisson's equation to the
  Poisson row of the first node and \<open>- f\<close> to that of the second. For every edge of
  every cell the electron current is the buffered value of that edge, oriented and
  multiplied by the mobility at the mid point, and goes to the electron rows of the two
  nodes as \<open>Jn\<close> and \<open>- Jn\<close> times the partial area, the hole current to the hole rows as
  \<open>- Jp\<close> and \<open>Jp\<close>. These are all the flux entries, every one is added to its row of
  the residual, and they sum to zero: the sum of the residual over the rows of the mesh
  is what it was before the fluxes were added.\<close>

theorem edge_flux_conservation:
  assumes "all_nodes_on_processor region"
    and "buffers = fst (DDM1_Function_edges U M region x)"
    and "entries = DDM1_Function_flux_entries U M region x"
  shows "length (fst buffers) = length (ssr_edges region)
       \<and> length (snd buffers) = length (ssr_edges region)
       \<and> (\<forall>i < length (ssr_edges region).
             (fst buffers ! i, snd buffers ! i)
               = fst (DDM1_Function_edge U M region x (ssr_edges region ! i)))
       \<and> (\<forall>edge \<in> set (ssr_edges region).
             DDM1_Function_edge U M region x edge =
               (let kb = PU_kb U;
                    ee = PU_e U;
                    T = ssr_T_external region;
                    Vt = kb * T / ee;
                    fvm_n1 = edge_first edge;
                    fvm_n2 = edge_second edge;
                    n1_data = ddm_node_data fvm_n1;
                    n2_data = ddm_node_data fvm_n2;
                    n1_local_offset = local_offset (ddm_fvm_node fvm_n1);
                    n2_local_offset = local_offset (ddm_fvm_node fvm_n2);
                    V1 = x (n1_local_offset + 0);
                    n1 = x (n1_local_offset + 1);
                    p1 = x (n1_local_offset + 2);
                    V2 = x (n2_local_offset + 0);
                    n2 = x (n2_local_offset + 1);
                    p2 = x (n2_local_offset + 2);
                    Ec1 = - (ee * V1 + nd_affinity n1_data
                             + kb * T * ln (band_nie n1_data p1 n1 T))
                          - (if ssr_Fermi region
                             then ee * Vt * ln (gamma_f M (\<bar>n1\<bar> / ddm_Nc fvm_n1)) else 0);
                    Ev1 = - (ee * V1 + nd_affinity n1_data
                             - kb * T * ln (band_nie n1_data p1 n1 T))
                          + (if ssr_Fermi region
                             then ee * Vt * ln (gamma_f M (\<bar>p1\<bar> / ddm_Nv fvm_n1)) else 0);
                    Ec2 = - (ee * V2 + nd_affinity n2_data
                             + kb * T * ln (band_nie n2_data p2 n2 T))
                          - (if ssr_Fermi region
                             then ee * Vt * ln (gamma_f M (\<bar>n2\<bar> / ddm_Nc fvm_n2)) else 0);
                    Ev2 = - (ee * V2 + nd_affinity n2_data
                             - kb * T * ln (band_nie n2_data p2 n2 T))
                          + (if ssr_Fermi region
                             then ee * Vt * ln (gamma_f M (\<bar>p2\<bar> / ddm_Nv fvm_n2)) else 0);
                    f = 0.5 * (nd_eps n1_data + nd_eps n2_data) * edge_cv_surface_area edge
                        * (V2 - V1) / edge_distance edge
                in ((In_dd M Vt ((Ec2 - Ec1) / ee) n1 n2 (edge_distance edge),
                     Ip_dd M Vt ((Ev2 - Ev1) / ee) p1 p2 (edge_distance edge)),
                    [(global_offset (ddm_fvm_node fvm_n1), f),
                     (global_offset (ddm_fvm_node fvm_n2), - f)])))
       \<and> (\<forall>elem \<in> set (ssr_elements region). \<forall>edge \<in> set (elem_edges elem).
             DDM1_Function_elem_edge region buffers x elem edge =
               (let truncation =
                      (ssr_VoronoiTruncation region = VoronoiTruncationAlways
                       \<or> (ssr_VoronoiTruncation region = VoronoiTruncationBoundary
                           \<and> (elem_on_boundary elem \<or> elem_on_interface elem)));
                    truncated_partial_area =
                      (if truncation then max 0.0 (ee_partial_area edge)
                       else ee_partial_area edge);
                    fvm_n1 = ee_first edge;
                    fvm_n2 = ee_second edge;
                    inverse = (ddm_root_node_id fvm_n1 > ddm_root_node_id fvm_n2);
                    mobilities = (if ssr_highfield_mob region then ee_highfield_mobility edge x
                                  else ((ddm_mun fvm_n1, ddm_mup fvm_n1),
                                        (ddm_mun fvm_n2, ddm_mup fvm_n2)));
                    mun = 0.5 * (fst (fst mobilities) + fst (snd mobilities));
                    mup = 0.5 * (snd (fst mobilities) + snd (snd mobilities));
                    Jn = mun * (if inverse then - (fst buffers ! ee_edge_index edge)
                                else fst buffers ! ee_edge_index edge);
                    Jp = mup * (if inverse then - (snd buffers ! ee_edge_index edge)
                                else snd buffers ! ee_edge_index edge)
                in [(global_offset (ddm_fvm_node fvm_n1) + 1, Jn * truncated_partial_area),
                    (global_offset (ddm_fvm_node fvm_n1) + 2, - Jp * truncated_partial_area),
                    (global_offset (ddm_fvm_node fvm_n2) + 1, - Jn * truncated_partial_area),
                    (global_offset (ddm_fvm_node fvm_n2) + 2, Jp * truncated_partial_area)]))
       \<and> entries
           = concat (map (\<lambda>edge. snd (DDM1_Function_edge U M region x edge)) (ssr_edges region))
             @ concat (map (\<lambda>elem. concat (map (DDM1_Function_elem_edge region buffers x elem)
                                               (elem_edges elem)))
                           (ssr_elements region))
       \<and> (\<forall>k. DDM1_Function_flux U M region x f k
                = f k + sum_list (map (\<lambda>(i, v). if i = k then v else 0) entries))
       \<and> sum_list (map snd entries) = 0
       \<and> ((\<forall>(i, v) \<in> set entries. i < n) \<longrightarrow>
            (\<Sum>k<n. DDM1_Function_flux U M region x f k) = (\<Sum>k<n. f k))"
proof -
  from assms(1) have e_on: "on_processor (ddm_fvm_node (edge_first edge))
                            \<and> on_processor (ddm_fvm_node (edge_second edge))"
    if "edge \<in> set (ssr_edges region)" for edge
    using that by (auto simp: all_nodes_on_processor_def list_all_iff)
  from assms(1) have c_on: "on_processor (ddm_fvm_node (ee_first edge))
                            \<and> on_processor (ddm_fvm_node (ee_second edge))"
    if "elem \<in> set (ssr_elements region)" "edge \<in> set (elem_edges elem)" for elem edge
    using that by (auto simp: all_nodes_on_processor_def list_all_iff)
  have len: "length (fst buffers) = length (ssr_edges region)
             \<and> length (snd buffers) = length (ssr_edges region)"
    unfolding assms(2) DDM1_Function_edges_eq by simp
  have once: "(\<forall>i < length (ssr_edges region).
             (fst buffers ! i, snd buffers ! i)
               = fst (DDM1_Function_edge U M region x (ssr_edges region ! i)))"
    unfolding assms(2) DDM1_Function_edges_eq by simp
  have poisson: "(\<forall>edge \<in> set (ssr_edges region).
             DDM1_Function_edge U M region x edge =
               (let kb = PU_kb U;
                    ee = PU_e U;
                    T = ssr_T_external region;
                    Vt = kb * T / ee;
                    fvm_n1 = edge_first edge;
                    fvm_n2 = edge_second edge;
                    n1_data = ddm_node_data fvm_n1;
                    n2_data = ddm_node_data fvm_n2;
                    n1_local_offset = local_offset (ddm_fvm_node fvm_n1);
                    n2_local_offset = local_offset (ddm_fvm_node fvm_n2);
                    V1 = x (n1_local_offset + 0);
                    n1 = x (n1_local_offset + 1);
                    p1 = x (n1_local_offset + 2);
                    V2 = x (n2_local_offset + 0);
                    n2 = x (n2_local_offset + 1);
                    p2 = x (n2_local_offset + 2);
                    Ec1 = - (ee * V1 + nd_affinity n1_data
                             + kb * T * ln (band_nie n1_data p1 n1 T))
                          - (if ssr_Fermi region
                             then ee * Vt * ln (gamma_f M (\<bar>n1\<bar> / ddm_Nc fvm_n1)) else 0);
                    Ev1 = - (ee * V1 + nd_affinity n1_data
                             - kb * T * ln (band_nie n1_data p1 n1 T))
                          + (if ssr_Fermi region
                             then ee * Vt * ln (gamma_f M (\<bar>p1\<bar> / ddm_Nv fvm_n1)) else 0);
                    Ec2 = - (ee * V2 + nd_affinity n2_data
                             + kb * T * ln (band_nie n2_data p2 n2 T))
                          - (if ssr_Fermi region
                             then ee * Vt * ln (gamma_f M (\<bar>n2\<bar> / ddm_Nc fvm_n2)) else 0);
                    Ev2 = - (ee * V2 + nd_affinity n2_data
                             - kb * T * ln (band_nie n2_data p2 n2 T))
                          + (if ssr_Fermi region
                             then ee * Vt * ln (gamma_f M (\<bar>p2\<bar> / ddm_Nv fvm_n2)) else 0);
                    f = 0.5 * (nd_eps n1_data + nd_eps n2_data) * edge_cv_surface_area edge
                        * (V2 - V1) / edge_distance edge
                in ((In_dd M Vt ((Ec2 - Ec1) / ee) n1 n2 (edge_distance edge),
                     Ip_dd M Vt ((Ev2 - Ev1) / ee) p1 p2 (edge_distance edge)),
                    [(global_offset (ddm_fvm_node fvm_n1), f),
                     (global_offset (ddm_fvm_node fvm_n2), - f)])))"
    using e_on DDM1_Function_edge_explicit by blast
  have current: "(\<forall>elem \<in> set (ssr_elements region). \<forall>edge \<in> set (elem_edges elem).
             DDM1_Function_elem_edge region buffers x elem edge =
               (let truncation =
                      (ssr_VoronoiTruncation region = VoronoiTruncationAlways
                       \<or> (ssr_VoronoiTruncation region = VoronoiTruncationBoundary
                           \<and> (elem_on_boundary elem \<or> elem_on_interface elem)));
                    truncated_partial_area =
                      (if truncation then max 0.0 (ee_partial_area edge)
                       else ee_partial_area edge);
                    fvm_n1 = ee_first edge;
                    fvm_n2 = ee_second edge;
                    inverse = (ddm_root_node_id fvm_n1 > ddm_root_node_id fvm_n2);
                    mobilities = (if ssr_highfield_mob region then ee_highfield_mobility edge x
                                  else ((ddm_mun fvm_n1, ddm_mup fvm_n1),
                                        (ddm_mun fvm_n2, ddm_mup fvm_n2)));
                    mun = 0.5 * (fst (fst mobilities) + fst (snd mobilities));
                    mup = 0.5 * (snd (fst mobilities) + snd (snd mobilities));
                    Jn = mun * (if inverse then - (fst buffers ! ee_edge_index edge)
                                else fst buffers ! ee_edge_index edge);
                    Jp = mup * (if inverse then - (snd buffers ! ee_edge_index edge)
                                else snd buffers ! ee_edge_index edge)
                in [(global_offset (ddm_fvm_node fvm_n1) + 1, Jn * truncated_partial_area),
                    (global_offset (ddm_fvm_node fvm_n1) + 2, - Jp * truncated_partial_area),
                    (global_offset (ddm_fvm_node fvm_n2) + 1, - Jn * truncated_partial_area),
                    (global_offset (ddm_fvm_node fvm_n2) + 2, Jp * truncated_partial_area)]))"
    using c_on DDM1_Function_elem_edge_explicit by blast
  have ent: "entries
           = concat (map (\<lambda>edge. snd (DDM1_Function_edge U M region x edge)) (ssr_edges region))
             @ concat (map (\<lambda>elem. concat (map (DDM1_Function_elem_edge region buffers x elem)
                                               (elem_edges elem)))
                           (ssr_elements region))"
    unfolding assms(2,3) by (rule DDM1_Function_flux_entries_eq)
  have row: "(\<forall>k. DDM1_Function_flux U M region x f k
                = f k + sum_list (map (\<lambda>(i, v). if i = k then v else 0) entries))"
    unfolding assms(3) using DDM1_Function_flux_row by blast
  have s1: "sum_list (map snd (concat (map (\<lambda>edge. snd (DDM1_Function_edge U M region x edge))
                                        (ssr_edges region)))) = 0"
    by (rule sum_list_concat_zero) (use e_on DDM1_Function_edge_sum in blast)
  have s2: "sum_list (map snd (concat (map (\<lambda>elem. concat (map
                (DDM1_Function_elem_edge region buffers x elem) (elem_edges elem)))
              (ssr_elements region)))) = 0"
  proof (rule sum_list_concat_zero, rule ballI)
    fix elem assume el: "elem \<in> set (ssr_elements region)"
    show "sum_list (map snd (concat (map (DDM1_Function_elem_edge region buffers x elem)
                                       (elem_edges elem)))) = 0"
      by (rule sum_list_concat_zero) (use c_on [OF el] DDM1_Function_elem_edge_sum in blast)
  qed
  have total: "sum_list (map snd entries) = 0"
    unfolding ent using s1 s2 by simp
  have vec: "(\<Sum>k<n. DDM1_Function_flux U M region x f k) = (\<Sum>k<n. f k)"
    if "\<forall>(i, v) \<in> set entries. i < n"
    using sum_VecSetValues_ADD [OF that, of f] total
    by (simp add: DDM1_Function_flux_def assms(3))
  from len once poisson current ent row total vec show ?thesis by blast
qed

lemma two_node_mesh_on_processor: "all_nodes_on_processor two_node_mesh"
  by (simp add: all_nodes_on_processor_def two_node_mesh_def ddm1_node_at_def node_at_def)

text \<open>The mesh of two nodes and one edge at temperature 1 in units where \<open>kb = e = 1\<close>,
  with potentials 1 and 2, electron densities 2 and 5 and hole densities 3 and 1. The
  flux of Poisson's equation is 1 into row 0 and \<open>- 1\<close> into row 3; the electron current
  \<open>5 B(1) - 2 B(-1)\<close> goes into row 1 and its negative into row 4, the hole current
  \<open>3 B(1) - B(-1)\<close> into row 5 and its negative into row 2. A residual that held 10 in
  row 0 holds 11 there afterwards, and the sum of its six rows is still 10.\<close>

theorem edge_flux_conservation_witness:
  "all_nodes_on_processor two_node_mesh
   \<and> DDM1_Function_flux_entries unit_system example_MathFunc two_node_mesh
        (VecZeroEntries(0 := 1, 1 := 2, 2 := 3, 3 := 2, 4 := 5, 5 := 1))
       = [(0, 1), (3, - 1),
          (1, 5 * bernoulli 1 - 2 * bernoulli (- 1)),
          (2, - (3 * bernoulli 1 - bernoulli (- 1))),
          (4, - (5 * bernoulli 1 - 2 * bernoulli (- 1))),
          (5, 3 * bernoulli 1 - bernoulli (- 1))]
   \<and> DDM1_Function_flux unit_system example_MathFunc two_node_mesh
        (VecZeroEntries(0 := 1, 1 := 2, 2 := 3, 3 := 2, 4 := 5, 5 := 1))
        (VecZeroEntries(0 := 10)) 0 = 11
   \<and> DDM1_Function_flux unit_system example_MathFunc two_node_mesh
        (VecZeroEntries(0 := 1, 1 := 2, 2 := 3, 3 := 2, 4 := 5, 5 := 1))
        (VecZeroEntries(0 := 10)) 3 = - 1
   \<and> (\<Sum>k<6. DDM1_Function_flux unit_system example_MathFunc two_node_mesh
                (VecZeroEntries(0 := 1, 1 := 2, 2 := 3, 3 := 2, 4 := 5, 5 := 1))
                (VecZeroEntries(0 := 10)) k) = 10"
proof -
  define x where "x = VecZeroEntries(0 := 1, 1 := 2, 2 := 3, 3 := 2, 4 := 5, 5 := (1::real))"
  define f where "f = VecZeroEntries(0 := (10::real))"
  define e0 where "e0 = \<lparr>edge_first = ddm1_node_at 0, edge_second = ddm1_node_at 3,
                          edge_distance = 1, edge_cv_surface_area = 1\<rparr>"
  define c0 where "c0 = \<lparr>ee_first = ddm1_node_at 0, ee_second = ddm1_node_at 3,
                          ee_edge_index = 0, ee_partial_area = 1,
                          ee_highfield_mobility = (\<lambda>x. ((1, 1), (1::real, 1::real)))\<rparr>"
  define el where "el = \<lparr>elem_edges = [c0], elem_on_boundary = True,
                          elem_on_interface = False\<rparr>"
  define J where "J = 5 * bernoulli 1 - 2 * bernoulli (- 1)"
  define P where "P = 3 * bernoulli 1 - bernoulli (- 1)"
  define buffers where
    "buffers = fst (DDM1_Function_edges unit_system example_MathFunc two_node_mesh x)"
  have edges: "ssr_edges two_node_mesh = [e0]" and elems: "ssr_elements two_node_mesh = [el]"
    and cells: "elem_edges el = [c0]"
    by (simp_all add: two_node_mesh_def e0_def el_def c0_def)
  note rule = edge_flux_conservation [OF two_node_mesh_on_processor buffers_def refl,
      of f 6]
  note once = rule [THEN conjunct2, THEN conjunct2, THEN conjunct1]
  note poisson = rule [THEN conjunct2, THEN conjunct2, THEN conjunct2, THEN conjunct1]
  note current = rule [THEN conjunct2, THEN conjunct2, THEN conjunct2, THEN conjunct2,
      THEN conjunct1]
  note all_entries = rule [THEN conjunct2, THEN conjunct2, THEN conjunct2, THEN conjunct2,
      THEN conjunct2, THEN conjunct1]
  have "e0 \<in> set (ssr_edges two_node_mesh)" unfolding edges by simp
  from poisson [rule_format, OF this]
  have edge: "DDM1_Function_edge unit_system example_MathFunc two_node_mesh x e0
                = ((J, P), [(0, 1), (3, - 1)])"
    by (simp add: Let_def e0_def ddm1_node_at_def node_at_def example_node_data_def
        unit_system_def example_MathFunc_def two_node_mesh_def x_def VecZeroEntries_def
        J_def P_def)
  have "0 < length (ssr_edges two_node_mesh)" unfolding edges by simp
  from once [rule_format, OF this]
  have "(fst buffers ! 0, snd buffers ! 0)
          = fst (DDM1_Function_edge unit_system example_MathFunc two_node_mesh x e0)"
    unfolding edges by simp
  then have buf: "fst buffers ! 0 = J" "snd buffers ! 0 = P"
    unfolding edge by simp_all
  have "el \<in> set (ssr_elements two_node_mesh)" "c0 \<in> set (elem_edges el)"
    unfolding elems cells by simp_all
  from current [rule_format, OF this]
  have cell: "DDM1_Function_elem_edge two_node_mesh buffers x el c0
                = [(1, J), (2, - P), (4, - J), (5, P)]"
    by (simp add: Let_def c0_def el_def ddm1_node_at_def node_at_def two_node_mesh_def buf)
  from all_entries
  have ent: "DDM1_Function_flux_entries unit_system example_MathFunc two_node_mesh x
               = [(0, 1), (3, - 1), (1, J), (2, - P), (4, - J), (5, P)]"
    unfolding edges elems by (simp add: edge cell cells)
  note rows = rule [THEN conjunct2, THEN conjunct2, THEN conjunct2, THEN conjunct2,
      THEN conjunct2, THEN conjunct2, THEN conjunct1]
  note sums = rule [THEN conjunct2, THEN conjunct2, THEN conjunct2, THEN conjunct2,
      THEN conjunct2, THEN conjunct2, THEN conjunct2, THEN conjunct2]
  from rows have row: "DDM1_Function_flux unit_system example_MathFunc two_node_mesh x f k
            = f k + sum_list (map (\<lambda>(i, v). if i = k then v else 0)
                                (DDM1_Function_flux_entries unit_system example_MathFunc
                                   two_node_mesh x))" for k
    by blast
  have r0: "DDM1_Function_flux unit_system example_MathFunc two_node_mesh x f 0 = 11"
    and r3: "DDM1_Function_flux unit_system example_MathFunc two_node_mesh x f 3 = - 1"
    unfolding row ent by (simp_all add: f_def VecZeroEntries_def)
  from sums have "(\<forall>(i, v) \<in> set (DDM1_Function_flux_entries unit_system example_MathFunc
                                      two_node_mesh x). i < 6)
                  \<longrightarrow> (\<Sum>k<6. DDM1_Function_flux unit_system example_MathFunc two_node_mesh
                                  x f k) = (\<Sum>k<6. f k)"
    by blast
  then have "(\<Sum>k<6. DDM1_Function_flux unit_system example_MathFunc two_node_mesh x f k)
               = (\<Sum>k<6. f k)"
    unfolding ent by simp
  also have "(\<Sum>k<6. f k) = 10"
    by (simp add: f_def VecZeroEntries_def lessThan_nat_numeral lessThan_Suc)
  finally have total: "(\<Sum>k<6. DDM1_Function_flux unit_system example_MathFunc
                                   two_node_mesh x f k) = 10" .
  from two_node_mesh_on_processor ent r0 r3 total show ?thesis
    unfolding x_def f_def J_def P_def by simp
qed

end
